theory Spec2Isabelle
  imports Complex_Main "HOL-Library.Sublist" "HOL-Library.Char_ord" "HOL-Library.List_Lexorder"
begin

section \<open>JavaScript strings and the path helpers the gateway uses\<close>

text \<open>
  A JavaScript string is modelled as a list of code units (\<open>string\<close>); the gateway only
  inspects ASCII letters, digits, \<open>_\<close>, \<open>.\<close> and \<open>/\<close>. An upload's \<open>originalname\<close> is the
  client's base file name: the multipart parser strips directories, so it holds no \<open>/\<close>.
\<close>

text \<open>The character class of \<open>/[a-z0-9]/i\<close> and of \<open>/[a-zA-Z0-9]/\<close>.\<close>

definition isAlnum :: "char \<Rightarrow> bool" where
  "isAlnum c = (let n = (of_char c :: nat) in
     (48 \<le> n \<and> n \<le> 57) \<or> (65 \<le> n \<and> n \<le> 90) \<or> (97 \<le> n \<and> n \<le> 122))"

text \<open>\<open>s.replace(/[^a-z0-9]/gi, '_')\<close> and \<open>s.replace(/[^a-zA-Z0-9]/g, '_')\<close>.\<close>

definition replaceNonAlnum :: "string \<Rightarrow> string" where
  "replaceNonAlnum s = map (\<lambda>c. if isAlnum c then c else CHR ''_'') s"

text \<open>\<open>toLowerCase\<close>, on the letters that survive \<open>replaceNonAlnum\<close>.\<close>

definition lowerChar :: "char \<Rightarrow> char" where
  "lowerChar c =
     (case map_of (zip ''ABCDEFGHIJKLMNOPQRSTUVWXYZ'' ''abcdefghijklmnopqrstuvwxyz'') c of
        None \<Rightarrow> c
      | Some l \<Rightarrow> l)"

definition toLowerCase :: "string \<Rightarrow> string" where
  "toLowerCase s = map lowerChar s"

text \<open>\<open>s.split(sep)\<close> for a one-character separator: never the empty array.\<close>

fun split :: "char \<Rightarrow> string \<Rightarrow> string list" where
  "split sep [] = [[]]"
| "split sep (c # cs) =
     (if c = sep then [] # split sep cs
      else (case split sep cs of [] \<Rightarrow> [[c]] | p # ps \<Rightarrow> (c # p) # ps))"

text \<open>\<open>parts.join(sep)\<close>.\<close>

fun join :: "string \<Rightarrow> string list \<Rightarrow> string" where
  "join sep [] = []"
| "join sep [p] = p"
| "join sep (p # q # ps) = p @ sep @ join sep (q # ps)"

text \<open>
  \<open>s.replace(pat, rep)\<close> for a string pattern: the first occurrence only. In the
  replacement, \<open>$$\<close> stands for a dollar sign, \<open>$&\<close> for the matched text, \<open>$`\<close> for the text
  before the match and \<open>$'\<close> for the text after it; a string pattern has no groups, so any
  other \<open>$\<close> stands for itself.
\<close>

fun getSubstitution :: "string \<Rightarrow> string \<Rightarrow> string \<Rightarrow> string \<Rightarrow> string" where
  "getSubstitution matched before after [] = []"
| "getSubstitution matched before after [c] = [c]"
| "getSubstitution matched before after (c # d # r) =
     (if c = CHR ''$'' \<and> d = CHR ''$'' then CHR ''$'' # getSubstitution matched before after r
      else if c = CHR ''$'' \<and> d = CHR ''&'' then matched @ getSubstitution matched before after r
      else if c = CHR ''$'' \<and> d = CHR 0x60 then before @ getSubstitution matched before after r
      else if c = CHR ''$'' \<and> d = CHR 0x27 then after @ getSubstitution matched before after r
      else c # getSubstitution matched before after (d # r))"

fun replaceFrom :: "string \<Rightarrow> string \<Rightarrow> string \<Rightarrow> string \<Rightarrow> string" where
  "replaceFrom seen pat rep [] = (if pat = [] then getSubstitution [] (rev seen) [] rep else [])"
| "replaceFrom seen pat rep (c # cs) =
     (if prefix pat (c # cs) then
        getSubstitution pat (rev seen) (drop (length pat) (c # cs)) rep @
        drop (length pat) (c # cs)
      else c # replaceFrom (c # seen) pat rep cs)"

definition replace :: "string \<Rightarrow> string \<Rightarrow> string \<Rightarrow> string" where
  "replace s pat rep = replaceFrom [] pat rep s"

text \<open>\<open>s.replace(/_/g, ' ')\<close>.\<close>

definition underscoresToSpaces :: "string \<Rightarrow> string" where
  "underscoresToSpaces s = map (\<lambda>c. if c = CHR ''_'' then CHR '' '' else c) s"

text \<open>A non-negative integer in a template literal: its decimal digits.\<close>

definition digitChar :: "nat \<Rightarrow> char" where
  "digitChar d = ''0123456789'' ! d"

function numberToString :: "nat \<Rightarrow> string" where
  "numberToString n =
     (if n < 10 then [digitChar n] else numberToString (n div 10) @ [digitChar (n mod 10)])"
  by pat_completeness auto
termination
  by (relation "measure id") auto

declare numberToString.simps [simp del]

text \<open>
  \<open>path.extname\<close> on a name without \<open>/\<close>: from the last dot to the end; empty when there is
  no dot, when the only dot is the first character, and for \<open>..\<close>.
\<close>

definition extname :: "string \<Rightarrow> string" where
  "extname p = (let parts = split CHR ''.'' p in
     if length parts \<le> 1 then []
     else let ext = CHR ''.'' # last parts in
       if length ext = length p then []
       else if p = ''..'' then []
       else ext)"

text \<open>\<open>path.basename(p, suffix)\<close> on a name without \<open>/\<close>.\<close>

definition basename :: "string \<Rightarrow> string \<Rightarrow> string" where
  "basename p sfx =
     (if sfx \<noteq> [] \<and> length sfx \<le> length p then
        (if sfx = p then []
         else if suffix sfx p then take (length p - length sfx) p
         else p)
      else p)"

text \<open>A request field is absent (\<open>undefined\<close>) or a string; it is falsy when absent or empty.\<close>

definition falsy :: "string option \<Rightarrow> bool" where
  "falsy v = (v = None \<or> v = Some [])"

section \<open>Key derivation (Step 1 of the upload)\<close>

text \<open>
  \<open>src/index.js\<close>, \<open>POST /upload\<close>, lines 388-394 (and \<open>src/unnamed/part_000\<close>, lines 213-219):
  the names the handler builds from the title, \<open>Date.now()\<close> and the original file name.
\<close>

definition safeTitle :: "string \<Rightarrow> string" where
  "safeTitle title = toLowerCase (replaceNonAlnum title)"

definition fullFilename2 :: "string \<Rightarrow> nat \<Rightarrow> string \<Rightarrow> string" where
  "fullFilename2 title timestamp originalname =
     (let filename = safeTitle title @ ''_'' @ numberToString timestamp;
          extension = last (split CHR ''.'' originalname)
      in filename @ ''.'' @ extension)"

definition b2FileName2 :: "string \<Rightarrow> nat \<Rightarrow> string \<Rightarrow> string" where
  "b2FileName2 title timestamp originalname =
     ''files/'' @ fullFilename2 title timestamp originalname"

text \<open>
  \<open>src/models/File.js\<close> (the server with the metadata index), \<open>POST /upload\<close>, lines 748-756.
  The title defaults to the original name without its extension; the case of the title is
  preserved.
\<close>

definition fileTitle :: "string option \<Rightarrow> string \<Rightarrow> string" where
  "fileTitle title originalname =
     (if falsy title then basename originalname (extname originalname) else the title)"

definition filename3 :: "string \<Rightarrow> nat \<Rightarrow> string" where
  "filename3 ftitle timestamp = replaceNonAlnum ftitle @ ''_'' @ numberToString timestamp"

definition fullFilename3 :: "string \<Rightarrow> nat \<Rightarrow> string \<Rightarrow> string" where
  "fullFilename3 ftitle timestamp originalname =
     filename3 ftitle timestamp @ extname originalname"

definition b2FileName3 :: "string option \<Rightarrow> nat \<Rightarrow> string \<Rightarrow> string" where
  "b2FileName3 title timestamp originalname =
     ''files/'' @ fullFilename3 (fileTitle title originalname) timestamp originalname"

section \<open>The remote object store, as the gateway sees it\<close>

text \<open>
  \<open>authData\<close>: the JSON of \<open>b2_authorize_account\<close>, cached per account (the AuthContext).
  \<open>bucket\<close>: an entry of \<open>bucketConfig\<close>; the placeholder configuration has no \<open>bucketId\<close>.
\<close>

record authData =
  apiUrl :: string
  downloadUrl :: string
  authorizationToken :: string

record bucket =
  bucketId :: "string option"
  bucketName :: string

record uploadUrlData =
  uploadUrl :: string
  uploadAuthorizationToken :: string

text \<open>An entry of the \<open>files\<close> array of \<open>b2_list_file_names\<close>.\<close>

record b2file =
  fileName :: string
  fileId :: string
  size' :: nat
  uploadTimestamp :: int
  contentType :: string

text \<open>The objects \<open>listFiles\<close> returns: the same fields, recomputed, and four more.\<close>

record fileView = b2file +
  fullFileName :: string
  title :: string
  url :: string
  account :: string

text \<open>
  The documents of the metadata index (\<open>src/models/File.js\<close> 1-58 and the \<open>Folder\<close> schema at
  the end of \<open>src/index.js\<close>). A \<open>File\<close> document has the fields of a listing entry and three
  more. An \<open>ObjectId\<close> is a natural number; a collection maps the \<open>_id\<close> of a document to the
  document, so the \<open>_id\<close> is not a field.

  The \<open>duration\<close> of a document is what was assigned to it: \<open>null\<close> by default, and otherwise
  the \<open>metadata.format.duration\<close> of a probe, which is absent, a number, or the text the probing
  tool printed where it is not a decimal numeral (\<open>N/A\<close> when the container states no duration).
\<close>

datatype durationValue = Null | Undefined | Number real | Text string

record fileDoc = fileView +
  thumbnailUrl :: "string option"
  folder :: "nat option"
  duration :: durationValue

record folderDoc =
  name :: string
  parent :: "nat option"
  path :: string
  folderAccount :: string

text \<open>
  Every \<open>fetch\<close> the gateway issues and every call of the metadata store is logged in
  the order it happens. A file name is logged as passed to \<open>encodeURIComponent\<close>; the
  uploaded bytes and their SHA-1 are left out.
\<close>

datatype event =
    B2_authorize_account "string option" "string option"
  | B2_list_file_names string string "string option" string nat
  | B2_get_upload_url string string "string option"
  | B2_upload_file string string string string
  | B2_delete_file_version string string "string option" string
  | B2_copy_file string string string string "string option"
  | B2_get_download_authorization string string "string option" string nat
  | Folder_findById nat
  | Folder_find_path_regex string
  | Folder_save nat
  | File_save nat
  | File_findById nat
  | File_deleteOne nat

text \<open>The requests, from what the source puts in the headers and the body.\<close>

definition listRequest :: "authData \<Rightarrow> bucket \<Rightarrow> event" where
  "listRequest a b =
     B2_list_file_names (apiUrl a) (authorizationToken a) (bucketId b) ''files/'' 1000"

definition uploadUrlRequest :: "authData \<Rightarrow> bucket \<Rightarrow> event" where
  "uploadUrlRequest a b = B2_get_upload_url (apiUrl a) (authorizationToken a) (bucketId b)"

definition uploadRequest :: "uploadUrlData \<Rightarrow> string \<Rightarrow> string \<Rightarrow> event" where
  "uploadRequest d key mime =
     B2_upload_file (uploadUrl d) (uploadAuthorizationToken d) key mime"

definition copyRequest :: "authData \<Rightarrow> string \<Rightarrow> string \<Rightarrow> bucket \<Rightarrow> event" where
  "copyRequest a sourceFileId key b =
     B2_copy_file (apiUrl a) (authorizationToken a) sourceFileId key (bucketId b)"

definition deleteRequest :: "authData \<Rightarrow> string option \<Rightarrow> string \<Rightarrow> event" where
  "deleteRequest a fid key =
     B2_delete_file_version (apiUrl a) (authorizationToken a) fid key"

definition downloadAuthRequest :: "authData \<Rightarrow> bucket \<Rightarrow> string \<Rightarrow> event" where
  "downloadAuthRequest a b pre =
     B2_get_download_authorization (apiUrl a) (authorizationToken a) (bucketId b) pre 86400"

text \<open>
  What a \<open>fetch\<close> gives: the promise rejects (no connection), or a response with a status
  and a body; the body is \<open>None\<close> when \<open>response.json()\<close> rejects.
\<close>

datatype 'a fetched = Rejected | Replied nat "'a option"

definition ok :: "nat \<Rightarrow> bool" where
  "ok status = (200 \<le> status \<and> status \<le> 299)"

text \<open>
  The environment of a server process: its configuration (\<open>BUCKET_CONFIG\<close> and the key
  variables of \<open>process.env\<close>), and the answers of the object store, of the metadata store
  and of the probing tool. An answer may depend on everything that happened before: it is a
  function of the log, whose last entry is the call being answered.

  \<open>ffprobe E p\<close> is \<open>None\<close> when the probe of the file \<open>p\<close> reports an error, and otherwise the
  \<open>format.duration\<close> of its metadata. \<open>screenshots E p\<close> tells whether a frame of \<open>p\<close> can be
  written. \<open>cutsOff E limit n\<close> is the size check of the multipart parser behind the upload
  middleware: whether a file of \<open>n\<close> bytes is cut off under \<open>limits.fileSize = limit\<close>. The parser
  is a dependency of the repository and not part of it, so its check is a parameter.
\<close>

record env =
  bucketConfig :: "string \<rightharpoonup> bucket"
  keyId :: "string \<Rightarrow> string option"
  applicationKey :: "string \<Rightarrow> string option"
  authorize_account :: "event list \<Rightarrow> authData fetched"
  list_file_names :: "event list \<Rightarrow> b2file list fetched"
  get_upload_url :: "event list \<Rightarrow> uploadUrlData fetched"
  upload_file :: "event list \<Rightarrow> string fetched"
  delete_file_version :: "event list \<Rightarrow> unit fetched"
  copy_file :: "event list \<Rightarrow> string fetched"
  get_download_authorization :: "event list \<Rightarrow> string fetched"
  dbFault :: "event list \<Rightarrow> bool"
  regexTest :: "string \<Rightarrow> string \<Rightarrow> bool"
  ffprobe :: "string \<Rightarrow> durationValue option"
  screenshots :: "string \<Rightarrow> bool"
  cutsOff :: "nat \<Rightarrow> nat \<Rightarrow> bool"

definition authRequest :: "env \<Rightarrow> string \<Rightarrow> event" where
  "authRequest E acct = B2_authorize_account (keyId E acct) (applicationKey E acct)"

text \<open>What a JavaScript function can throw here.\<close>

datatype error =
    Error string
  | FetchError
  | SyntaxError
  | TypeError
  | MongoError
  | ValidationError string
  | FsError string
  | MulterError string

text \<open>
  The state every server keeps: the token cache, the clock (\<open>Date.now()\<close>, read from the
  state; it moves only between operations) and the log.
\<close>

record gateway =
  authTokenCache :: "string \<rightharpoonup> authData"
  now :: nat
  trace :: "event list"

type_synonym ('a, 's) action = "'s \<Rightarrow> (error + 'a) \<times> 's"

text \<open>\<open>await\<close> in a \<open>try\<close> block: the first thrown error ends the block.\<close>

definition andThen :: "('a, 's) action \<Rightarrow> ('a \<Rightarrow> ('b, 's) action) \<Rightarrow> ('b, 's) action" where
  "andThen m f s = (case m s of (Inl e, s') \<Rightarrow> (Inl e, s') | (Inr a, s') \<Rightarrow> f a s')"

definition throw :: "error \<Rightarrow> ('a, 's) action" where
  "throw e s = (Inl e, s)"

definition return :: "'a \<Rightarrow> ('a, 's) action" where
  "return a s = (Inr a, s)"

text \<open>
  The pattern of every remote call in the source:
  \<^verbatim>\<open>const r = await fetch(...); if (!r.ok) throw new Error(msg); const d = await r.json();\<close>
  One call appends one entry to the log.
\<close>

definition fetch ::
  "(event list \<Rightarrow> 'a fetched) \<Rightarrow> event \<Rightarrow> (nat \<Rightarrow> string) \<Rightarrow> ('a, 's gateway_scheme) action" where
  "fetch answer request msg s =
     (let s1 = s\<lparr>trace := trace s @ [request]\<rparr> in
      case answer (trace s1) of
        Rejected \<Rightarrow> (Inl FetchError, s1)
      | Replied status body \<Rightarrow>
          if \<not> ok status then (Inl (Error (msg status)), s1)
          else (case body of None \<Rightarrow> (Inl SyntaxError, s1) | Some d \<Rightarrow> (Inr d, s1)))"

text \<open>\<open>getAuthToken\<close> (\<open>src/index.js\<close> 82-117; the same text in the other two servers).\<close>

definition getAuthToken :: "env \<Rightarrow> string \<Rightarrow> (authData, 's gateway_scheme) action" where
  "getAuthToken E acct s =
     (case authTokenCache s acct of
        Some cached \<Rightarrow> (Inr cached, s)
      | None \<Rightarrow>
          if acct = ''account1'' \<or> acct = ''account2'' then
            andThen
              (fetch (authorize_account E)
                 (authRequest E acct)
                 (\<lambda>_. ''Failed to authenticate with B2''))
              (\<lambda>authData s1.
                 (Inr authData, s1\<lparr>authTokenCache := (authTokenCache s1)(acct \<mapsto> authData)\<rparr>))
              s
          else (Inl (Error ''Invalid account''), s))"

section \<open>The gateway without a metadata index (\<open>src/index.js\<close>)\<close>

text \<open>
  Its state adds the two caches with a time-to-live. A listing entry holds the time it was
  stored and the listing; of a bucket-info entry only the time is kept here.
\<close>

record server2 = gateway +
  fileListCache :: "string \<rightharpoonup> nat \<times> fileView list"
  bucketInfoCache :: "string \<rightharpoonup> nat"

definition FILE_CACHE_TTL :: int where
  "FILE_CACHE_TTL = 5 * 60 * 1000"

definition filesKey :: "string \<Rightarrow> string" where
  "filesKey acct = ''files_'' @ acct"

definition bucketInfoKey :: "string \<Rightarrow> string" where
  "bucketInfoKey acct = ''bucket_info_'' @ acct"

text \<open>
  The callback of \<open>result.files.map\<close> (lines 222-241). The title joins the parts with the
  empty string; \<open>src/unnamed/part_000\<close> (line 131) joins them with \<open>_\<close>, which is the
  parameter \<open>glue\<close>.
\<close>

definition toView :: "string \<Rightarrow> string \<Rightarrow> b2file \<Rightarrow> fileView" where
  "toView glue acct file =
     (let filename = replace (fileName file) ''files/'' [];
          parts = butlast (split CHR ''_'' filename);
          title = underscoresToSpaces (join glue parts)
      in \<lparr> fileName = filename, fileId = fileId file, size' = size' file,
           uploadTimestamp = uploadTimestamp file, contentType = contentType file,
           fullFileName = fileName file, title = title,
           url = ''/files/'' @ acct @ ''/'' @ filename, account = acct \<rparr>)"

text \<open>
  \<open>files.sort((a, b) => b.uploadTimestamp - a.uploadTimestamp)\<close>: \<open>Array.prototype.sort\<close> is
  stable, and so is \<open>sort_key\<close>.
\<close>

definition sortNewestFirst :: "fileView list \<Rightarrow> fileView list" where
  "sortNewestFirst files = sort_key (\<lambda>f. - uploadTimestamp f) files"

text \<open>The \<open>try\<close> block of \<open>listFiles\<close> (lines 201-252).\<close>

definition listFilesRemote :: "string \<Rightarrow> env \<Rightarrow> string \<Rightarrow> (fileView list, server2) action" where
  "listFilesRemote glue E acct =
     andThen (getAuthToken E acct) (\<lambda>authData.
       case bucketConfig E acct of
         None \<Rightarrow> throw TypeError
       | Some b \<Rightarrow>
           andThen
             (fetch (list_file_names E)
                (listRequest authData b)
                (\<lambda>status. ''Failed to list files: '' @ numberToString status))
             (\<lambda>result s.
                let files = sortNewestFirst (map (toView glue acct) result) in
                (Inr files,
                 s\<lparr>fileListCache := (fileListCache s)(filesKey acct \<mapsto> (now s, files))\<rparr>)))"

text \<open>\<open>listFiles\<close> (lines 191-257): the cache check, then the \<open>try\<close> block and its \<open>catch\<close>.\<close>

definition cachedListing :: "server2 \<Rightarrow> string \<Rightarrow> fileView list option" where
  "cachedListing s acct =
     (case fileListCache s (filesKey acct) of
        None \<Rightarrow> None
      | Some (timestamp, files) \<Rightarrow>
          if int (now s) - int timestamp < FILE_CACHE_TTL then Some files else None)"

definition listFilesWith :: "string \<Rightarrow> env \<Rightarrow> string \<Rightarrow> server2 \<Rightarrow> fileView list \<times> server2" where
  "listFilesWith glue E acct s =
     (case cachedListing s acct of
        Some files \<Rightarrow> (files, s)
      | None \<Rightarrow>
          (case listFilesRemote glue E acct s of
             (Inl error, s') \<Rightarrow> ([], s')
           | (Inr files, s') \<Rightarrow> (files, s')))"

definition listFiles :: "env \<Rightarrow> string \<Rightarrow> server2 \<Rightarrow> fileView list \<times> server2" where
  "listFiles = listFilesWith []"

text \<open>Requests and responses of the boundary operations.\<close>

record upload =
  originalname :: string
  mimetype :: string
  fileSize :: nat
  tempPath :: string

datatype body =
    Message string
  | Failure error
  | Uploaded string string string string
  | Renamed string string string string
  | Deleted
  | Location string
  | Created fileDoc
  | FolderCreated nat folderDoc
  | FolderRenamed nat folderDoc

datatype response = Reply nat body

text \<open>A handler's \<open>catch\<close>: \<open>res.status(500).json({ error: error.message })\<close>.\<close>

definition respond :: "(error + response) \<times> 's \<Rightarrow> response \<times> 's" where
  "respond r = (case r of (Inl e, s) \<Rightarrow> (Reply 500 (Failure e), s) | (Inr res, s) \<Rightarrow> (res, s))"

text \<open>\<open>POST /upload\<close> (lines 373-462).\<close>

definition uploadHandler2 ::
  "env \<Rightarrow> string option \<Rightarrow> string option \<Rightarrow> upload option \<Rightarrow> server2 \<Rightarrow> response \<times> server2" where
  "uploadHandler2 E acctField titleField fileField s =
     (if falsy acctField \<or> falsy titleField \<or> fileField = None then
        (Reply 400 (Message ''Missing required fields''), s)
      else
        let acct = the acctField; ttl = the titleField; file = the fileField in
        case bucketConfig E acct of
          None \<Rightarrow> (Reply 400 (Message ''Invalid account selected''), s)
        | Some b \<Rightarrow>
            let timestamp = now s;
                fullFilename = fullFilename2 ttl timestamp (originalname file);
                b2FileName = ''files/'' @ fullFilename
            in respond
              (andThen (getAuthToken E acct) (\<lambda>authData.
               andThen
                 (fetch (get_upload_url E)
                    (uploadUrlRequest authData b)
                    (\<lambda>_. ''Failed to get upload URL from B2'')) (\<lambda>uploadUrlData.
               andThen
                 (fetch (upload_file E)
                    (uploadRequest uploadUrlData b2FileName
                       (if mimetype file = [] then ''application/octet-stream'' else mimetype file))
                    (\<lambda>_. ''Failed to upload file to B2'')) (\<lambda>uploadedId s3.
                 (Inr (Reply 200 (Uploaded (''/files/'' @ acct @ ''/'' @ fullFilename) ttl
                         fullFilename uploadedId)),
                  s3\<lparr>fileListCache := (fileListCache s3)(filesKey acct := None),
                       bucketInfoCache := (bucketInfoCache s3)(bucketInfoKey acct := None)\<rparr>))))
               s))"

text \<open>\<open>POST /rename-file\<close> (lines 465-550).\<close>

definition newFileName :: "string \<Rightarrow> string \<Rightarrow> string" where
  "newFileName oldFileName newTitle =
     (let timestamp = hd (split CHR ''.'' (last (split CHR ''_'' oldFileName)));
          extension = last (split CHR ''.'' oldFileName)
      in safeTitle newTitle @ ''_'' @ timestamp @ ''.'' @ extension)"

definition renameHandler ::
  "env \<Rightarrow> string option \<Rightarrow> string option \<Rightarrow> string option \<Rightarrow> string option \<Rightarrow>
   server2 \<Rightarrow> response \<times> server2" where
  "renameHandler E acctField fileIdField oldFileNameField newTitleField s =
     (if falsy acctField \<or> falsy fileIdField \<or> falsy oldFileNameField \<or> falsy newTitleField then
        (Reply 400 (Message ''Missing required fields''), s)
      else
        let acct = the acctField; fid = the fileIdField;
            oldFileName = the oldFileNameField; newTitle = the newTitleField in
        case bucketConfig E acct of
          None \<Rightarrow> (Reply 400 (Message ''Invalid account selected''), s)
        | Some b \<Rightarrow>
            let newName = newFileName oldFileName newTitle;
                oldB2FileName = ''files/'' @ oldFileName;
                newB2FileName = ''files/'' @ newName
            in respond
              (andThen (getAuthToken E acct) (\<lambda>authData.
               andThen
                 (fetch (copy_file E)
                    (copyRequest authData fid newB2FileName b)
                    (\<lambda>_. ''Failed to copy file with new name'')) (\<lambda>copiedId.
               andThen
                 (fetch (delete_file_version E)
                    (deleteRequest authData (Some fid) oldB2FileName)
                    (\<lambda>_. ''Failed to delete old file version'')) (\<lambda>_ s3.
                 (Inr (Reply 200 (Renamed newName copiedId newTitle
                         (''/files/'' @ acct @ ''/'' @ newName))),
                  s3\<lparr>fileListCache := (fileListCache s3)(filesKey acct := None)\<rparr>))))
               s))"

text \<open>\<open>POST /delete-file\<close> (lines 553-601).\<close>

definition deleteHandler2 ::
  "env \<Rightarrow> string option \<Rightarrow> string option \<Rightarrow> string option \<Rightarrow> server2 \<Rightarrow> response \<times> server2" where
  "deleteHandler2 E acctField fileIdField fileNameField s =
     (if falsy acctField \<or> falsy fileIdField \<or> falsy fileNameField then
        (Reply 400 (Message ''Missing required fields''), s)
      else
        let acct = the acctField; fid = the fileIdField; fname = the fileNameField in
        case bucketConfig E acct of
          None \<Rightarrow> (Reply 400 (Message ''Invalid account selected''), s)
        | Some b \<Rightarrow>
            respond
              (andThen (getAuthToken E acct) (\<lambda>authData.
               andThen
                 (fetch (delete_file_version E)
                    (deleteRequest authData (Some fid) fname)
                    (\<lambda>_. ''Failed to delete file from B2'')) (\<lambda>_ s2.
                 (Inr (Reply 200 Deleted),
                  s2\<lparr>fileListCache := (fileListCache s2)(filesKey acct := None),
                       bucketInfoCache := (bucketInfoCache s2)(bucketInfoKey acct := None)\<rparr>)))
               s))"

text \<open>\<open>GET /files/:account/:filename\<close> (lines 604-648).\<close>

definition serveFile2 :: "env \<Rightarrow> string \<Rightarrow> string \<Rightarrow> server2 \<Rightarrow> response \<times> server2" where
  "serveFile2 E acct filename s =
     (case bucketConfig E acct of
        None \<Rightarrow> (Reply 400 (Message ''Invalid account''), s)
      | Some b \<Rightarrow>
          respond
            (andThen (getAuthToken E acct) (\<lambda>authData.
             andThen
               (fetch (get_download_authorization E)
                  (downloadAuthRequest authData b (''files/'' @ filename))
                  (\<lambda>_. ''Failed to get download authorization'')) (\<lambda>downloadToken s2.
               (Inr (Reply 302 (Location (downloadUrl authData @ ''/file/'' @ bucketName b @
                       ''/files/'' @ filename @ ''?Authorization='' @ downloadToken))),
                s2)))
             s))"

text \<open>Newest first: upload timestamps never increase along the listing.\<close>

definition newestFirst :: "fileView list \<Rightarrow> bool" where
  "newestFirst files = sorted_wrt (\<lambda>x y. uploadTimestamp y \<le> uploadTimestamp x) files"

definition cacheSorted :: "server2 \<Rightarrow> bool" where
  "cacheSorted s = (\<forall>entry \<in> ran (fileListCache s). newestFirst (snd entry))"

section \<open>A concrete deployment, for the examples\<close>

text \<open>
  One configured account whose token is already cached, an object store that rejects every
  request, a metadata store without faults, a probing tool that fails on every file, and a
  multipart parser that cuts a file off as soon as it has read \<open>limits.fileSize\<close> bytes of it
  (what busboy 1.x does, the parser of multer from 1.4.4-lts.1 on). Each example changes the
  answers it needs.
\<close>

definition demoAuth :: authData where
  "demoAuth = \<lparr> apiUrl = ''https://api.example'', downloadUrl = ''https://f.example'',
                authorizationToken = ''token-1'' \<rparr>"

definition demoBucket :: bucket where
  "demoBucket = \<lparr> bucketId = Some ''bucket-1'', bucketName = ''media'' \<rparr>"

definition demoEnv :: env where
  "demoEnv = \<lparr> bucketConfig = [''account1'' \<mapsto> demoBucket],
               keyId = (\<lambda>_. Some ''key''), applicationKey = (\<lambda>_. Some ''secret''),
               authorize_account = (\<lambda>_. Replied 401 None),
               list_file_names = (\<lambda>_. Replied 401 None),
               get_upload_url = (\<lambda>_. Replied 401 None),
               upload_file = (\<lambda>_. Replied 401 None),
               delete_file_version = (\<lambda>_. Replied 401 None),
               copy_file = (\<lambda>_. Replied 401 None),
               get_download_authorization = (\<lambda>_. Replied 401 None),
               dbFault = (\<lambda>_. False),
               regexTest = (\<lambda>pat subject. prefix (drop 1 pat) subject),
               ffprobe = (\<lambda>_. None),
               screenshots = (\<lambda>_. False),
               cutsOff = (\<lambda>limit n. limit \<le> n) \<rparr>"

definition demoServer2 :: server2 where
  "demoServer2 = \<lparr> authTokenCache = [''account1'' \<mapsto> demoAuth], now = 1000, trace = [],
                   fileListCache = Map.empty, bucketInfoCache = Map.empty \<rparr>"

definition demoListing :: "b2file list" where
  "demoListing =
     [\<lparr> fileName = ''files/b_1.png'', fileId = ''id-b'', size' = 10, uploadTimestamp = 5,
         contentType = ''image/png'' \<rparr>,
      \<lparr> fileName = ''files/a_2.png'', fileId = ''id-a'', size' = 20, uploadTimestamp = 5,
         contentType = ''image/png'' \<rparr>,
      \<lparr> fileName = ''files/c_3.png'', fileId = ''id-c'', size' = 30, uploadTimestamp = 9,
         contentType = ''image/png'' \<rparr>]"

definition demoListingByName :: "b2file list" where
  "demoListingByName =
     [\<lparr> fileName = ''files/a_2.png'', fileId = ''id-a'', size' = 20, uploadTimestamp = 5,
         contentType = ''image/png'' \<rparr>,
      \<lparr> fileName = ''files/b_1.png'', fileId = ''id-b'', size' = 10, uploadTimestamp = 5,
         contentType = ''image/png'' \<rparr>,
      \<lparr> fileName = ''files/c_3.png'', fileId = ''id-c'', size' = 30, uploadTimestamp = 9,
         contentType = ''image/png'' \<rparr>]"

text \<open>The same deployment with an object store that accepts every request.\<close>

definition demoUploadUrl :: uploadUrlData where
  "demoUploadUrl = \<lparr> uploadUrl = ''https://pod.example/upload'',
                     uploadAuthorizationToken = ''upload-token'' \<rparr>"

definition demoStore :: env where
  "demoStore = demoEnv
     \<lparr> list_file_names := (\<lambda>_. Replied 200 (Some demoListing)),
       get_upload_url := (\<lambda>_. Replied 200 (Some demoUploadUrl)),
       upload_file := (\<lambda>_. Replied 200 (Some ''id-new'')),
       delete_file_version := (\<lambda>_. Replied 200 (Some ())),
       copy_file := (\<lambda>_. Replied 200 (Some ''id-copy'')),
       get_download_authorization := (\<lambda>_. Replied 200 (Some ''download-token'')) \<rparr>"

definition demoUpload :: upload where
  "demoUpload = \<lparr> originalname = ''clip.mp4'', mimetype = ''video/mp4'', fileSize = 2048,
                  tempPath = ''temp/1-clip.mp4'' \<rparr>"


text \<open>
  An object store for which the cached token has expired: it answers the first request of
  the log with 401 and accepts every later one, and it would issue a new token.
\<close>

definition demoExpired :: env where
  "demoExpired = demoStore
     \<lparr> authorize_account := (\<lambda>_. Replied 200 (Some demoAuth)),
       list_file_names :=
         (\<lambda>log. if length log \<le> 1 then Replied 401 None else Replied 200 (Some demoListing)) \<rparr>"

section \<open>The gateway with the metadata index (\<open>src/models/File.js\<close>, from line 58)\<close>

text \<open>
  Its state adds the two collections of the metadata index, the counter from which new
  documents get their \<open>_id\<close>, and the files of the temporary directory.
\<close>

record server3 = gateway +
  files :: "nat \<rightharpoonup> fileDoc"
  folders :: "nat \<rightharpoonup> folderDoc"
  nextId :: nat
  disk :: "string set"

text \<open>\<open>trim: true\<close> of a schema string: \<open>String.prototype.trim\<close> on the value that is set.\<close>

definition isSpace :: "char \<Rightarrow> bool" where
  "isSpace c = ((of_char c :: nat) \<in> {9, 10, 11, 12, 13, 32, 160})"

definition trim :: "string \<Rightarrow> string" where
  "trim s = rev (dropWhile isSpace (rev (dropWhile isSpace s)))"

text \<open>A call of the metadata store: logged, and rejected when the store has a fault.\<close>

definition dbCall :: "env \<Rightarrow> event \<Rightarrow> (unit, 's gateway_scheme) action" where
  "dbCall E ev s =
     (let s1 = s\<lparr>trace := trace s @ [ev]\<rparr> in
      if dbFault E (trace s1) then (Inl MongoError, s1) else (Inr (), s1))"

text \<open>
  \<open>fileRecord.save()\<close>: the document is validated, then written. The validation fails on a
  value that was assigned to a path and cannot be cast to the path's type: \<open>duration\<close> is a
  \<open>Number\<close> (schema, lines 46-49), so a text fails. It fails on an empty \<open>required\<close> string
  too. The first failing path is reported.
\<close>

definition validateFile :: "fileDoc \<Rightarrow> string option" where
  "validateFile d =
     (if (case duration d of Text _ \<Rightarrow> True | _ \<Rightarrow> False) then Some ''duration''
      else if title d = [] then Some ''title''
      else if fileName d = [] then Some ''fileName''
      else if fullFileName d = [] then Some ''fullFileName''
      else if fileId d = [] then Some ''fileId''
      else if contentType d = [] then Some ''contentType''
      else if account d = [] then Some ''account''
      else if url d = [] then Some ''url''
      else None)"

definition saveFile :: "env \<Rightarrow> nat \<Rightarrow> fileDoc \<Rightarrow> (unit, server3) action" where
  "saveFile E i d =
     (case validateFile d of
        Some field \<Rightarrow> throw (ValidationError field)
      | None \<Rightarrow>
          andThen (dbCall E (File_save i)) (\<lambda>_ s. (Inr (), s\<lparr>files := (files s)(i \<mapsto> d)\<rparr>)))"

text \<open>\<open>fs.readFileSync\<close> and \<open>fs.unlinkSync\<close> on the temporary directory.\<close>

definition readFileSync :: "string \<Rightarrow> (unit, server3) action" where
  "readFileSync p s = (if p \<in> disk s then (Inr (), s) else (Inl (FsError p), s))"

definition unlinkSync :: "string \<Rightarrow> (unit, server3) action" where
  "unlinkSync p s =
     (if p \<in> disk s then (Inr (), s\<lparr>disk := disk s - {p}\<rparr>) else (Inl (FsError p), s))"

text \<open>\<open>uploadFileToB2\<close> (lines 253-301); its \<open>catch\<close> rethrows.\<close>

definition uploadFileToB2 ::
  "env \<Rightarrow> string \<Rightarrow> string \<Rightarrow> string \<Rightarrow> (string, 's gateway_scheme) action" where
  "uploadFileToB2 E acct key mime =
     andThen (getAuthToken E acct) (\<lambda>authData.
       case bucketConfig E acct of
         None \<Rightarrow> throw TypeError
       | Some b \<Rightarrow>
           andThen
             (fetch (get_upload_url E) (uploadUrlRequest authData b)
                (\<lambda>_. ''Failed to get upload URL from B2'')) (\<lambda>uploadUrlData.
           fetch (upload_file E) (uploadRequest uploadUrlData key mime)
             (\<lambda>_. ''Failed to upload file to B2'')))"

text \<open>
  \<open>getVideoDuration\<close> (lines 239-250): the promise resolves with \<open>null\<close> when the probe
  reports an error, and with \<open>metadata.format.duration\<close>, whatever it is, otherwise.
\<close>

definition getVideoDuration :: "env \<Rightarrow> string \<Rightarrow> (durationValue, server3) action" where
  "getVideoDuration E filePath s =
     (case ffprobe E filePath of None \<Rightarrow> (Inr Null, s) | Some found \<Rightarrow> (Inr found, s))"

text \<open>The test of \<open>if (duration)\<close>.\<close>

definition truthy :: "durationValue \<Rightarrow> bool" where
  "truthy v = (case v of Null \<Rightarrow> False | Undefined \<Rightarrow> False | Number r \<Rightarrow> r \<noteq> 0 | Text t \<Rightarrow> t \<noteq> [])"

text \<open>
  \<open>generateVideoThumbnail\<close> (lines 199-236). The thumbnail is written next to the staged
  file. On \<open>error\<close> the promise resolves with \<open>null\<close>; on \<open>end\<close> the thumbnail is read,
  uploaded and removed, and any error in that resolves with \<open>null\<close> too.
\<close>

definition thumbnailPath :: "string \<Rightarrow> string" where
  "thumbnailPath filePath = filePath @ ''_thumb.jpg''"

definition generateVideoThumbnail ::
  "env \<Rightarrow> string \<Rightarrow> string \<Rightarrow> string \<Rightarrow> (string option, server3) action" where
  "generateVideoThumbnail E filePath acct outputFileName s =
     (if \<not> screenshots E filePath then (Inr None, s)
      else
        case andThen (readFileSync (thumbnailPath filePath)) (\<lambda>_.
             andThen (uploadFileToB2 E acct (''thumbnails/'' @ outputFileName) ''image/jpeg'')
               (\<lambda>uploadResult.
             andThen (unlinkSync (thumbnailPath filePath)) (\<lambda>_. return uploadResult)))
               (s\<lparr>disk := insert (thumbnailPath filePath) (disk s)\<rparr>) of
          (Inl error, s') \<Rightarrow> (Inr None, s')
        | (Inr uploadResult, s') \<Rightarrow> (Inr (Some uploadResult), s'))"

text \<open>
  Lines 786-810: the enrichment of a video, inside its own \<open>try\<close>. The record is changed
  in place, so what was set before an error stays set.
\<close>

definition enrich ::
  "env \<Rightarrow> string \<Rightarrow> upload \<Rightarrow> string \<Rightarrow> fileDoc \<Rightarrow> (fileDoc, server3) action" where
  "enrich E acct upl filename fileRecord s =
     (if \<not> prefix ''video/'' (mimetype upl) then (Inr fileRecord, s)
      else
        case getVideoDuration E (tempPath upl) s of
          (Inl err, s1) \<Rightarrow> (Inr fileRecord, s1)
        | (Inr probed, s1) \<Rightarrow>
            let withDuration =
                  (if truthy probed then fileRecord\<lparr>duration := probed\<rparr> else fileRecord);
                thumbnailFileName = filename @ ''.jpg''
            in case generateVideoThumbnail E (tempPath upl) acct thumbnailFileName s1 of
                 (Inl err, s2) \<Rightarrow> (Inr withDuration, s2)
               | (Inr thumbnailResult, s2) \<Rightarrow>
                   (Inr (if thumbnailResult \<noteq> None
                         then withDuration
                           \<lparr>thumbnailUrl := Some (''/thumbnails/'' @ acct @ ''/'' @ thumbnailFileName)\<rparr>
                         else withDuration), s2))"

text \<open>\<open>new File({...})\<close> (lines 772-784): the document gets its \<open>_id\<close> when it is built.\<close>

definition newId :: "(nat, server3) action" where
  "newId s = (Inr (nextId s), s\<lparr>nextId := Suc (nextId s)\<rparr>)"

definition newFile ::
  "string \<Rightarrow> string \<Rightarrow> string \<Rightarrow> upload \<Rightarrow> string \<Rightarrow> nat option \<Rightarrow> nat \<Rightarrow> fileDoc" where
  "newFile ftitle fullFilename uploadedId upl acct folderId timestamp =
     \<lparr> fileName = fullFilename, fileId = uploadedId, size' = fileSize upl,
       uploadTimestamp = int timestamp, contentType = mimetype upl,
       fullFileName = ''files/'' @ fullFilename, title = trim ftitle,
       url = ''/files/'' @ acct @ ''/'' @ fullFilename, account = acct,
       thumbnailUrl = None, folder = folderId, duration = Null \<rparr>"

text \<open>The \<open>try\<close> block of \<open>POST /upload\<close> (lines 748-821), after the two checks.\<close>

definition ingest ::
  "env \<Rightarrow> string \<Rightarrow> string option \<Rightarrow> nat option \<Rightarrow> upload \<Rightarrow> (fileDoc, server3) action" where
  "ingest E acct titleField folderId upl s =
     (let ftitle = fileTitle titleField (originalname upl);
          timestamp = now s;
          filename = filename3 ftitle timestamp;
          fullFilename = filename @ extname (originalname upl);
          b2FileName = ''files/'' @ fullFilename
      in
        (andThen (readFileSync (tempPath upl)) (\<lambda>_.
         andThen (uploadFileToB2 E acct b2FileName
                    (if mimetype upl = [] then ''application/octet-stream'' else mimetype upl))
           (\<lambda>uploadedId.
         andThen newId (\<lambda>i.
         andThen (enrich E acct upl filename
                    (newFile ftitle fullFilename uploadedId upl acct folderId timestamp))
           (\<lambda>fileRecord.
         andThen (saveFile E i fileRecord) (\<lambda>_.
         andThen (unlinkSync (tempPath upl)) (\<lambda>_.
         return fileRecord))))))) s)"

text \<open>\<open>POST /upload\<close> (lines 733-832); the \<open>catch\<close> removes the staged file if it is there.\<close>

definition uploadHandler3 ::
  "env \<Rightarrow> string option \<Rightarrow> string option \<Rightarrow> nat option \<Rightarrow> upload option \<Rightarrow>
   server3 \<Rightarrow> response \<times> server3" where
  "uploadHandler3 E acctField titleField folderId fileField s =
     (if falsy acctField \<or> fileField = None then
        (Reply 400 (Message ''Missing required fields''), s)
      else
        let acct = the acctField; upl = the fileField in
        case bucketConfig E acct of
          None \<Rightarrow> (Reply 400 (Message ''Invalid account selected''), s)
        | Some b \<Rightarrow>
            (case ingest E acct titleField folderId upl s of
               (Inl error, s') \<Rightarrow>
                 (Reply 500 (Failure error), s'\<lparr>disk := disk s' - {tempPath upl}\<rparr>)
             | (Inr fileRecord, s') \<Rightarrow> (Reply 201 (Created fileRecord), s')))"

text \<open>
  \<open>deleteFileFromB2\<close> (lines 338-364) and \<open>getDownloadUrl\<close> (lines 304-335); the \<open>catch\<close> of
  each rethrows.
\<close>

definition deleteFileFromB2 ::
  "env \<Rightarrow> string \<Rightarrow> string option \<Rightarrow> string \<Rightarrow> (unit, 's gateway_scheme) action" where
  "deleteFileFromB2 E acct fid key =
     andThen (getAuthToken E acct) (\<lambda>authData.
       fetch (delete_file_version E) (deleteRequest authData fid key)
         (\<lambda>_. ''Failed to delete file from B2''))"

definition getDownloadUrl :: "env \<Rightarrow> string \<Rightarrow> string \<Rightarrow> (string, 's gateway_scheme) action" where
  "getDownloadUrl E acct key =
     andThen (getAuthToken E acct) (\<lambda>authData.
       case bucketConfig E acct of
         None \<Rightarrow> throw TypeError
       | Some b \<Rightarrow>
           andThen
             (fetch (get_download_authorization E) (downloadAuthRequest authData b key)
                (\<lambda>_. ''Failed to get download authorization'')) (\<lambda>downloadToken.
           return (downloadUrl authData @ ''/file/'' @ bucketName b @ ''/'' @ key @
                   ''?Authorization='' @ downloadToken)))"

text \<open>
  \<open>POST /api/files/delete\<close> (lines 835-878). The remote deletes are in a \<open>try\<close> of their own
  (lines 851-868) whose \<open>catch\<close> only logs: the thumbnail is deleted when the file was, and the
  document is deleted whatever happened to the two.
\<close>

definition deleteRemote :: "env \<Rightarrow> fileDoc \<Rightarrow> server3 \<Rightarrow> server3" where
  "deleteRemote E f s =
     (case deleteFileFromB2 E (account f) (Some (fileId f)) (fullFileName f) s of
        (Inl error, s1) \<Rightarrow> s1
      | (Inr _, s1) \<Rightarrow>
          (case thumbnailUrl f of
             None \<Rightarrow> s1
           | Some u \<Rightarrow>
               if u = [] then s1
               else snd (deleteFileFromB2 E (account f) None
                           (''thumbnails/'' @ basename (last (split CHR ''/'' u)) []) s1)))"

definition deleteHandler3 :: "env \<Rightarrow> nat option \<Rightarrow> server3 \<Rightarrow> response \<times> server3" where
  "deleteHandler3 E fileIdField s =
     (case fileIdField of
        None \<Rightarrow> (Reply 400 (Message ''File ID is required''), s)
      | Some i \<Rightarrow>
          respond
            (andThen (dbCall E (File_findById i)) (\<lambda>_ s1.
               case files s1 i of
                 None \<Rightarrow> (Inr (Reply 404 (Message ''File not found'')), s1)
               | Some f \<Rightarrow>
                   andThen (dbCall E (File_deleteOne i)) (\<lambda>_ s3.
                     (Inr (Reply 200 (Message ''File deleted successfully'')),
                      s3\<lparr>files := (files s3)(i := None)\<rparr>))
                     (deleteRemote E f s1))
               s))"

text \<open>
  \<open>GET /files/:account/:filename\<close> (lines 913-933) and \<open>GET /thumbnails/:account/:filename\<close>
  (lines 936-956) differ in the prefix of the key, \<open>files/\<close> or \<open>thumbnails/\<close>.
\<close>

definition serveFile3 ::
  "env \<Rightarrow> string \<Rightarrow> string \<Rightarrow> string \<Rightarrow> server3 \<Rightarrow> response \<times> server3" where
  "serveFile3 E pre acct filename s =
     (case bucketConfig E acct of
        None \<Rightarrow> (Reply 400 (Message ''Invalid account''), s)
      | Some b \<Rightarrow>
          respond
            (andThen (getDownloadUrl E acct (pre @ filename)) (\<lambda>directUrl.
               return (Reply 302 (Location directUrl)))
               s))"

text \<open>
  Modelled from the spec: the upload middleware \<open>upload.single('file')\<close> is multer, which the
  repository requires (\<open>src/index.js\<close> line 2, \<open>src/models/File.js\<close> line 63) and which is not
  under \<open>src/\<close>. The repository holds its configuration,
  \<open>limits: { fileSize: 1000 * 1024 * 1024 }\<close> (\<open>src/index.js\<close> 24-27, \<open>src/models/File.js\<close>
  116-119), and its place in the route, before the handler. The multipart parser reads the
  file under that limit. When it cuts the file off, the middleware ends the request with the
  error \<open>LIMIT_FILE_SIZE\<close>, which is answered with status 500 without running the handler;
  otherwise the handler runs with the file, which disk storage has staged.
\<close>

definition fileSizeLimit :: nat where
  "fileSizeLimit = 1000 * 1024 * 1024"

definition uploadSingle :: "env \<Rightarrow> upload option \<Rightarrow> error + upload option" where
  "uploadSingle E fileField =
     (case fileField of
        None \<Rightarrow> Inr None
      | Some upl \<Rightarrow>
          if cutsOff E fileSizeLimit (fileSize upl) then Inl (MulterError ''LIMIT_FILE_SIZE'')
          else Inr (Some upl))"

definition uploadRoute2 ::
  "env \<Rightarrow> string option \<Rightarrow> string option \<Rightarrow> upload option \<Rightarrow> server2 \<Rightarrow> response \<times> server2" where
  "uploadRoute2 E acctField titleField fileField s =
     (case uploadSingle E fileField of
        Inl error \<Rightarrow> (Reply 500 (Failure error), s)
      | Inr passed \<Rightarrow> uploadHandler2 E acctField titleField passed s)"

definition staged :: "upload option \<Rightarrow> server3 \<Rightarrow> server3" where
  "staged fileField s =
     (case fileField of None \<Rightarrow> s | Some upl \<Rightarrow> s\<lparr>disk := insert (tempPath upl) (disk s)\<rparr>)"

definition uploadRoute3 ::
  "env \<Rightarrow> string option \<Rightarrow> string option \<Rightarrow> nat option \<Rightarrow> upload option \<Rightarrow>
   server3 \<Rightarrow> response \<times> server3" where
  "uploadRoute3 E acctField titleField folderId fileField s =
     (case uploadSingle E fileField of
        Inl error \<Rightarrow> (Reply 500 (Failure error), s)
      | Inr passed \<Rightarrow> uploadHandler3 E acctField titleField folderId passed (staged passed s))"

text \<open>The requests that delete a remote object.\<close>

definition isDelete :: "event \<Rightarrow> bool" where
  "isDelete e = (case e of B2_delete_file_version _ _ _ _ \<Rightarrow> True | _ \<Rightarrow> False)"

text \<open>
  The server with the metadata index in the same deployment: empty collections, and the
  upload \<open>demoUpload\<close> staged by the middleware.
\<close>

definition demoServer3 :: server3 where
  "demoServer3 = \<lparr> authTokenCache = [''account1'' \<mapsto> demoAuth], now = 1000, trace = [],
                   files = Map.empty, folders = Map.empty, nextId = 0,
                   disk = {''temp/1-clip.mp4''} \<rparr>"

text \<open>
  Names for what \<open>POST /upload\<close> passes on: the content type sent to the store and the record
  as built before the enrichment.
\<close>

definition uploadMime :: "upload \<Rightarrow> string" where
  "uploadMime upl = (if mimetype upl = [] then ''application/octet-stream'' else mimetype upl)"

definition draftRecord ::
  "string option \<Rightarrow> upload \<Rightarrow> string \<Rightarrow> nat option \<Rightarrow> nat \<Rightarrow> string \<Rightarrow> fileDoc" where
  "draftRecord titleField upl acct folderId timestamp uploadedId =
     newFile (fileTitle titleField (originalname upl))
       (fullFilename3 (fileTitle titleField (originalname upl)) timestamp (originalname upl))
       uploadedId upl acct folderId timestamp"

text \<open>
  Two states of the server agree on the metadata index, the clock and the delete requests
  logged so far.
\<close>

definition sameStore :: "server3 \<Rightarrow> server3 \<Rightarrow> bool" where
  "sameStore s s' \<longleftrightarrow>
     files s' = files s \<and> folders s' = folders s \<and> nextId s' = nextId s \<and> now s' = now s \<and>
     filter isDelete (trace s') = filter isDelete (trace s)"

text \<open>The state after the upload of \<open>demoUpload\<close> with title \<open>Demo Video\<close>, and its record.\<close>

definition demoUploaded :: server3 where
  "demoUploaded = demoServer3\<lparr>trace := [uploadUrlRequest demoAuth demoBucket,
     uploadRequest demoUploadUrl ''files/Demo_Video_1000.mp4'' ''video/mp4'']\<rparr>"

definition demoRecord :: fileDoc where
  "demoRecord = \<lparr> fileName = ''Demo_Video_1000.mp4'', fileId = ''id-new'', size' = 2048,
       uploadTimestamp = 1000, contentType = ''video/mp4'',
       fullFileName = ''files/Demo_Video_1000.mp4'', title = ''Demo Video'',
       url = ''/files/account1/Demo_Video_1000.mp4'', account = ''account1'',
       thumbnailUrl = None, folder = None, duration = Null \<rparr>"

text \<open>The server after that upload: the record is in the index and the staged file is gone.\<close>

definition demoIndexed :: server3 where
  "demoIndexed = demoServer3\<lparr>files := [0 \<mapsto> demoRecord], nextId := 1, disk := {}\<rparr>"

text \<open>The same deployment with a metadata store that rejects every call.\<close>

definition demoFaulty :: env where
  "demoFaulty = demoStore\<lparr>dbFault := (\<lambda>_. True)\<rparr>"

text \<open>
  The same deployment with a probing tool that reports no error and finds no duration: the
  metadata hold the text \<open>N/A\<close>, as for a recording whose container states no duration.
\<close>

definition demoUnknownDuration :: env where
  "demoUnknownDuration = demoStore\<lparr>ffprobe := (\<lambda>_. Some (Text ''N/A''))\<rparr>"

text \<open>The state in which the save of \<open>demoRecord\<close> has been tried.\<close>

definition demoSaveTried :: server3 where
  "demoSaveTried = demoServer3\<lparr>trace := [uploadUrlRequest demoAuth demoBucket,
       uploadRequest demoUploadUrl ''files/Demo_Video_1000.mp4'' ''video/mp4'', File_save 0],
     nextId := 1\<rparr>"

text \<open>The errors of the upload middleware.\<close>

definition fromMulter :: "error \<Rightarrow> bool" where
  "fromMulter e = (case e of MulterError _ \<Rightarrow> True | _ \<Rightarrow> False)"

definition sizeRejected :: "response \<Rightarrow> bool" where
  "sizeRejected r = (case r of Reply _ (Failure e) \<Rightarrow> fromMulter e | _ \<Rightarrow> False)"

section \<open>Folders (\<open>src/models/File.js\<close> 572-695)\<close>

text \<open>
  \<open>folder.save()\<close>: the schema's \<open>required\<close> strings are validated, then the document is
  written under its \<open>_id\<close>. \<open>Folder.findById\<close> reads one document. \<open>Folder.find\<close> with
  \<open>{ path: { $regex: pat } }\<close> returns the documents whose path the store's regular-expression
  engine matches, here in the order of their \<open>_id\<close>; the engine is \<open>regexTest\<close> of the
  environment.
\<close>

definition validateFolder :: "folderDoc \<Rightarrow> string option" where
  "validateFolder d =
     (if name d = [] then Some ''name'' else if path d = [] then Some ''path'' else None)"

definition saveFolder :: "env \<Rightarrow> nat \<Rightarrow> folderDoc \<Rightarrow> (unit, server3) action" where
  "saveFolder E i d =
     (case validateFolder d of
        Some field \<Rightarrow> throw (ValidationError field)
      | None \<Rightarrow>
          andThen (dbCall E (Folder_save i)) (\<lambda>_ s. (Inr (), s\<lparr>folders := (folders s)(i \<mapsto> d)\<rparr>)))"

definition findById :: "env \<Rightarrow> nat \<Rightarrow> (folderDoc option, server3) action" where
  "findById E i = andThen (dbCall E (Folder_findById i)) (\<lambda>_ s. (Inr (folders s i), s))"

definition matching :: "env \<Rightarrow> string \<Rightarrow> server3 \<Rightarrow> (nat \<times> folderDoc) list" where
  "matching E pat s =
     List.map_filter
       (\<lambda>i. case folders s i of
               None \<Rightarrow> None
             | Some d \<Rightarrow> if regexTest E pat (path d) then Some (i, d) else None)
       [0..<nextId s]"

definition findByPathRegex :: "env \<Rightarrow> string \<Rightarrow> ((nat \<times> folderDoc) list, server3) action" where
  "findByPathRegex E pat =
     andThen (dbCall E (Folder_find_path_regex pat)) (\<lambda>_ s. (Inr (matching E pat s), s))"

text \<open>\<open>updateSubfolderPaths\<close> (lines 688-695): the loop saves one subfolder after the other.\<close>

fun saveEach :: "env \<Rightarrow> string \<Rightarrow> string \<Rightarrow> (nat \<times> folderDoc) list \<Rightarrow> (unit, server3) action" where
  "saveEach E oldPath newPath [] = return ()"
| "saveEach E oldPath newPath ((i, subfolder) # rest) =
     andThen (saveFolder E i (subfolder\<lparr>path := replace (path subfolder) oldPath newPath\<rparr>))
       (\<lambda>_. saveEach E oldPath newPath rest)"

definition updateSubfolderPaths :: "env \<Rightarrow> string \<Rightarrow> string \<Rightarrow> (unit, server3) action" where
  "updateSubfolderPaths E oldPath newPath =
     andThen (findByPathRegex E (''^'' @ oldPath @ ''/'')) (saveEach E oldPath newPath)"

text \<open>\<open>POST /api/folders\<close> (lines 572-611).\<close>

definition createFolder ::
  "env \<Rightarrow> string option \<Rightarrow> nat option \<Rightarrow> string option \<Rightarrow> server3 \<Rightarrow> response \<times> server3" where
  "createFolder E nameField parentField accountField s =
     (if falsy nameField then (Reply 400 (Message ''Name is required''), s)
      else
        let nm = the nameField;
            folderAcct = (if falsy accountField then ''account1'' else the accountField)
        in respond
          (andThen
             (case parentField of
                None \<Rightarrow> return (Some nm)
              | Some p \<Rightarrow>
                  andThen (findById E p) (\<lambda>parentFolder.
                    return (case parentFolder of
                              None \<Rightarrow> None
                            | Some pf \<Rightarrow> Some (path pf @ ''/'' @ nm))))
             (\<lambda>decided.
                case decided of
                  None \<Rightarrow> return (Reply 404 (Message ''Parent folder not found''))
                | Some pth \<Rightarrow>
                    andThen newId (\<lambda>i.
                      let doc = \<lparr> name = trim nm, parent = parentField, path = pth,
                                  folderAccount = folderAcct \<rparr>
                      in andThen (saveFolder E i doc) (\<lambda>_.
                           return (Reply 201 (FolderCreated i doc)))))
             s))"

text \<open>\<open>PUT /api/folders/:id\<close> (lines 650-685).\<close>

definition renameFolder ::
  "env \<Rightarrow> nat \<Rightarrow> string option \<Rightarrow> server3 \<Rightarrow> response \<times> server3" where
  "renameFolder E i nameField s =
     (if falsy nameField then (Reply 400 (Message ''Name is required''), s)
      else
        let nm = the nameField
        in respond
          (andThen (findById E i) (\<lambda>found.
             case found of
               None \<Rightarrow> return (Reply 404 (Message ''Folder not found''))
             | Some fdoc \<Rightarrow>
                 let oldPath = path fdoc in
                 andThen
                   (case parent fdoc of
                      None \<Rightarrow> return nm
                    | Some p \<Rightarrow>
                        andThen (findById E p) (\<lambda>parentFolder.
                          case parentFolder of
                            None \<Rightarrow> throw TypeError
                          | Some pf \<Rightarrow> return (path pf @ ''/'' @ nm)))
                   (\<lambda>newPath.
                      let renamed = fdoc\<lparr>name := trim nm, path := newPath\<rparr> in
                      andThen (saveFolder E i renamed) (\<lambda>_.
                      andThen (updateSubfolderPaths E oldPath newPath) (\<lambda>_.
                      return (Reply 200 (FolderRenamed i renamed))))))
             s))"

text \<open>
  The folder path invariant: the path of a folder is its name at the root, and the path of
  its parent, a slash and its name otherwise; the parent is in the collection.
\<close>

definition pathOk :: "(nat \<rightharpoonup> folderDoc) \<Rightarrow> folderDoc \<Rightarrow> bool" where
  "pathOk m d =
     (case parent d of
        None \<Rightarrow> path d = name d
      | Some p \<Rightarrow> (case m p of None \<Rightarrow> False | Some pd \<Rightarrow> path d = path pd @ ''/'' @ name d))"

definition pathInvariant :: "(nat \<rightharpoonup> folderDoc) \<Rightarrow> bool" where
  "pathInvariant m = (\<forall>d \<in> ran m. pathOk m d)"

text \<open>
  Conditions on a collection and on the environment: every \<open>_id\<close> came from the counter; no
  name holds a slash and no path a dollar sign; only the folder \<open>i\<close> has the path \<open>p\<close>; the
  store's engine reads the pattern \<open>^p/\<close> as "starts with \<open>p/\<close>" (it does when \<open>p\<close> holds no
  character that is special in a regular expression).
\<close>

definition allocated :: "server3 \<Rightarrow> bool" where
  "allocated s = (\<forall>i \<in> dom (folders s). i < nextId s)"

definition plainNames :: "(nat \<rightharpoonup> folderDoc) \<Rightarrow> bool" where
  "plainNames m = (\<forall>d \<in> ran m. CHR ''/'' \<notin> set (name d) \<and> CHR ''$'' \<notin> set (path d))"

definition onlyAt :: "(nat \<rightharpoonup> folderDoc) \<Rightarrow> nat \<Rightarrow> string \<Rightarrow> bool" where
  "onlyAt m i p = (\<forall>j \<in> dom m. path (the (m j)) = p \<longrightarrow> j = i)"

definition literalPrefix :: "env \<Rightarrow> string \<Rightarrow> bool" where
  "literalPrefix E p =
     (\<forall>subject. regexTest E (''^'' @ p @ ''/'') subject = prefix (p @ ''/'') subject)"

text \<open>
  The collection after a rename of folder \<open>i\<close> from path \<open>oldPath\<close> to \<open>newPath\<close> in which the
  pattern is read as a prefix and the replacement as plain text.
\<close>

definition moved :: "string \<Rightarrow> string \<Rightarrow> folderDoc \<Rightarrow> folderDoc" where
  "moved oldPath newPath d =
     (if prefix (oldPath @ ''/'') (path d)
      then d\<lparr>path := newPath @ drop (length oldPath) (path d)\<rparr> else d)"

text \<open>
  A collection for the examples: the folder \<open>A\<close> at the root and its subfolders \<open>x\<close> and \<open>y\<close>;
  and the same deployment with a metadata store that fails from its fifth call on.
\<close>

definition demoFolders :: server3 where
  "demoFolders = demoServer3
     \<lparr> folders :=
         [0 \<mapsto> \<lparr> name = ''A'', parent = None, path = ''A'', folderAccount = ''account1'' \<rparr>,
          1 \<mapsto> \<lparr> name = ''x'', parent = Some 0, path = ''A/x'', folderAccount = ''account1'' \<rparr>,
          2 \<mapsto> \<lparr> name = ''y'', parent = Some 0, path = ''A/y'', folderAccount = ''account1'' \<rparr>],
       nextId := 3 \<rparr>"

definition demoBreaking :: env where
  "demoBreaking = demoStore\<lparr>dbFault := (\<lambda>log. 5 \<le> length log)\<rparr>"

text \<open>
  Three states of that collection: after a rename of \<open>A\<close> to \<open>B\<close> that stopped at the save of
  the second subfolder, after the same rename when every save went through, and after the
  creation of a folder \<open>z\<close> in \<open>A\<close>.
\<close>

definition demoHalfRenamed :: server3 where
  "demoHalfRenamed = demoFolders
     \<lparr> trace := [Folder_findById 0, Folder_save 0, Folder_find_path_regex ''^A/'',
          Folder_save 1, Folder_save 2],
       folders := (folders demoFolders)
         (0 \<mapsto> \<lparr> name = ''B'', parent = None, path = ''B'', folderAccount = ''account1'' \<rparr>,
          1 \<mapsto> \<lparr> name = ''x'', parent = Some 0, path = ''B/x'', folderAccount = ''account1'' \<rparr>) \<rparr>"

definition demoRenamed :: server3 where
  "demoRenamed = demoFolders
     \<lparr> trace := [Folder_findById 0, Folder_save 0, Folder_find_path_regex ''^A/'',
          Folder_save 1, Folder_save 2],
       folders := (folders demoFolders)
         (0 \<mapsto> \<lparr> name = ''B'', parent = None, path = ''B'', folderAccount = ''account1'' \<rparr>,
          1 \<mapsto> \<lparr> name = ''x'', parent = Some 0, path = ''B/x'', folderAccount = ''account1'' \<rparr>,
          2 \<mapsto> \<lparr> name = ''y'', parent = Some 0, path = ''B/y'', folderAccount = ''account1'' \<rparr>) \<rparr>"

definition demoCreated :: server3 where
  "demoCreated = demoFolders
     \<lparr> trace := [Folder_findById 0, Folder_save 3],
       folders := (folders demoFolders)
         (3 \<mapsto> \<lparr> name = ''z'', parent = Some 0, path = ''A/z'', folderAccount = ''account1'' \<rparr>),
       nextId := 4 \<rparr>"

section \<open>Properties of the string helpers\<close>

lemma digit_cases:
  "d < 10 \<Longrightarrow> d = 0 \<or> d = 1 \<or> d = 2 \<or> d = 3 \<or> d = 4 \<or> d = 5 \<or> d = 6 \<or> d = 7 \<or> d = 8 \<or> d = (9::nat)"
  by arith

lemma digitChar_inj:
  assumes "a < 10" and "b < 10" and "digitChar a = digitChar b"
  shows "a = b"
  using digit_cases [OF assms(1)] digit_cases [OF assms(2)] assms(3)
  by (elim disjE) (simp_all add: digitChar_def)

lemma digitChar_not_dot:
  assumes "d < 10"
  shows "digitChar d \<noteq> CHR ''.''"
  using digit_cases [OF assms] by (elim disjE) (simp_all add: digitChar_def)

lemma numberToString_not_empty: "numberToString n \<noteq> []"
  by (subst numberToString.simps) simp

lemma numberToString_no_dot: "CHR ''.'' \<notin> set (numberToString n)"
proof (induction n rule: numberToString.induct)
  case (1 n)
  show ?case
  proof (cases "n < 10")
    case True
    then show ?thesis
      using digitChar_not_dot [of n]
      by (subst numberToString.simps) auto
  next
    case False
    moreover have "n mod 10 < 10" by simp
    ultimately show ?thesis
      using 1 digitChar_not_dot [of "n mod 10"]
      by (subst numberToString.simps) auto
  qed
qed

lemma numberToString_inj: "numberToString a = numberToString b \<Longrightarrow> a = b"
proof (induction a arbitrary: b rule: numberToString.induct)
  case (1 n)
  show ?case
  proof (cases "n < 10")
    case small: True
    show ?thesis
    proof (cases "b < 10")
      case True
      with small 1(2) show ?thesis
        by (simp add: numberToString.simps [of n] numberToString.simps [of b] digitChar_inj)
    next
      case False
      with small 1(2) numberToString_not_empty [of "b div 10"] show ?thesis
        by (simp add: numberToString.simps [of n] numberToString.simps [of b])
    qed
  next
    case big: False
    show ?thesis
    proof (cases "b < 10")
      case True
      with big 1(2) numberToString_not_empty [of "n div 10"] show ?thesis
        by (simp add: numberToString.simps [of n] numberToString.simps [of b])
    next
      case False
      with big 1(2) have q: "numberToString (n div 10) = numberToString (b div 10)"
        and r: "digitChar (n mod 10) = digitChar (b mod 10)"
        by (simp_all add: numberToString.simps [of n] numberToString.simps [of b])
      from 1(1) [OF big q] have "n div 10 = b div 10" .
      moreover from r have "n mod 10 = b mod 10"
        by (simp add: digitChar_inj)
      ultimately show ?thesis
        by (metis div_mult_mod_eq)
    qed
  qed
qed

lemma takeWhile_digits:
  "CHR ''.'' \<notin> set ds \<Longrightarrow> e = [] \<or> (\<exists>r. e = CHR ''.'' # r) \<Longrightarrow>
   takeWhile (\<lambda>c. c \<noteq> CHR ''.'') (ds @ e) = ds"
  by (auto simp: takeWhile_tail)

lemma extname_shape: "extname p = [] \<or> (\<exists>r. extname p = CHR ''.'' # r)"
  by (simp add: extname_def Let_def)

lemma split_not_empty: "split sep s \<noteq> []"
  by (induction s) (auto split: list.splits)

lemma split_no_sep: "sep \<notin> set s \<Longrightarrow> split sep s = [s]"
  by (induction s) auto

lemma length_split_append: "1 < length (split sep (b @ sep # e))"
  by (induction b) (auto simp: split_not_empty split: list.splits)

lemma last_split_append:
  "sep \<notin> set e \<Longrightarrow> last (split sep (b @ sep # e)) = e"
proof (induction b)
  case Nil
  then show ?case by (simp add: split_no_sep)
next
  case (Cons a b)
  then show ?case
    using length_split_append [of sep b e]
    by (auto split: list.splits)
qed

lemma key2_distinct:
  assumes "t1 \<noteq> t2"
  shows "b2FileName2 ttl t1 n1 \<noteq> b2FileName2 ttl t2 n2"
proof
  assume "b2FileName2 ttl t1 n1 = b2FileName2 ttl t2 n2"
  then have "numberToString t1 @ (CHR ''.'' # last (split CHR ''.'' n1))
           = numberToString t2 @ (CHR ''.'' # last (split CHR ''.'' n2))"
    by (simp add: b2FileName2_def fullFilename2_def Let_def)
  then have "takeWhile (\<lambda>c. c \<noteq> CHR ''.'') (numberToString t1 @ (CHR ''.'' # last (split CHR ''.'' n1)))
           = takeWhile (\<lambda>c. c \<noteq> CHR ''.'') (numberToString t2 @ (CHR ''.'' # last (split CHR ''.'' n2)))"
    by simp
  then have "numberToString t1 = numberToString t2"
    by (simp add: takeWhile_digits numberToString_no_dot)
  with assms show False by (simp add: numberToString_inj)
qed

lemma key3_distinct:
  assumes "fileTitle a n1 = fileTitle b n2" and "t1 \<noteq> t2"
  shows "b2FileName3 a t1 n1 \<noteq> b2FileName3 b t2 n2"
proof
  assume "b2FileName3 a t1 n1 = b2FileName3 b t2 n2"
  with assms(1) have "numberToString t1 @ extname n1 = numberToString t2 @ extname n2"
    by (simp add: b2FileName3_def fullFilename3_def filename3_def)
  then have "takeWhile (\<lambda>c. c \<noteq> CHR ''.'') (numberToString t1 @ extname n1)
           = takeWhile (\<lambda>c. c \<noteq> CHR ''.'') (numberToString t2 @ extname n2)"
    by simp
  then have "numberToString t1 = numberToString t2"
    by (simp add: takeWhile_digits numberToString_no_dot extname_shape)
  with assms(2) show False by (simp add: numberToString_inj)
qed

lemma key2_extension:
  "CHR ''.'' \<notin> set ext \<Longrightarrow>
   b2FileName2 ttl t (base @ CHR ''.'' # ext) =
     ''files/'' @ safeTitle ttl @ ''_'' @ numberToString t @ ''.'' @ ext"
  by (simp add: b2FileName2_def fullFilename2_def Let_def last_split_append)

lemma extname_extension:
  assumes "CHR ''.'' \<notin> set ext" and "base \<noteq> []" and "base @ CHR ''.'' # ext \<noteq> ''..''"
  shows "extname (base @ CHR ''.'' # ext) = CHR ''.'' # ext"
  using assms length_split_append [of "CHR ''.''" base ext]
  by (simp add: extname_def Let_def last_split_append)

lemma extname_no_dot: "CHR ''.'' \<notin> set p \<Longrightarrow> extname p = []"
  by (simp add: extname_def Let_def split_no_sep)

lemma key3_extension:
  assumes "CHR ''.'' \<notin> set ext" and "base \<noteq> []" and "base @ CHR ''.'' # ext \<noteq> ''..''"
  shows "b2FileName3 ttl t (base @ CHR ''.'' # ext) =
     ''files/'' @ replaceNonAlnum (fileTitle ttl (base @ CHR ''.'' # ext)) @ ''_'' @ numberToString t @ ''.'' @ ext"
  using extname_extension [OF assms]
  by (simp add: b2FileName3_def fullFilename3_def filename3_def)

lemma key3_no_extension:
  "CHR ''.'' \<notin> set nm \<Longrightarrow>
   b2FileName3 ttl t nm =
     ''files/'' @ replaceNonAlnum (fileTitle ttl nm) @ ''_'' @ numberToString t"
  by (simp add: b2FileName3_def fullFilename3_def filename3_def extname_no_dot)

lemma extname_dotfile: "CHR ''.'' \<notin> set p \<Longrightarrow> extname (CHR ''.'' # p) = []"
  by (simp add: extname_def Let_def split_no_sep)

lemma key3_dotfile:
  "CHR ''.'' \<notin> set nm \<Longrightarrow>
   b2FileName3 ttl t (CHR ''.'' # nm) =
     ''files/'' @ replaceNonAlnum (fileTitle ttl (CHR ''.'' # nm)) @ ''_'' @ numberToString t"
  by (simp add: b2FileName3_def fullFilename3_def filename3_def extname_dotfile)

section \<open>Key derivation: uniqueness and shape (C7)\<close>

text \<open>
  C7, as stated, at the upload of a file named \<open>README\<close> with title \<open>notes\<close> on the server with
  the metadata index: the derived key is \<open>files/notes_111\<close>. It holds no dot, so it is not of
  the form \<open>files/<sanitized-title>_<unixMillis>.<ext>\<close>.
\<close>

theorem storage_key_form_counterexample:
  "b2FileName3 (Some ''notes'') 111 ''README'' = ''files/notes_111'' \<and>
   CHR ''.'' \<notin> set (b2FileName3 (Some ''notes'') 111 ''README'')"
  by (simp add: b2FileName3_def fullFilename3_def filename3_def fileTitle_def falsy_def
      replaceNonAlnum_def isAlnum_def extname_def numberToString.simps digitChar_def)

text \<open>
  C7, amended. Two uploads with the same title and different key-derivation timestamps get
  different storage keys, on both servers and whatever the original file names are. When the
  original name is \<open>base.ext\<close>, with \<open>base\<close> and \<open>ext\<close> not empty and no dot in \<open>ext\<close>, the key is
  \<open>files/<sanitized-title>_<unixMillis>.ext\<close> on both servers. When the original name has no
  extension, which is when it holds no dot or when its only dot is its first character,
  \<open>src/models/File.js\<close> derives \<open>files/<sanitized-title>_<unixMillis>\<close>, with nothing after the
  timestamp.
\<close>

theorem storage_key_derivation:
  "(ta \<noteq> tb \<longrightarrow> b2FileName2 ttl ta na \<noteq> b2FileName2 ttl tb nb) \<and>
   (fileTitle oa na = fileTitle ob nb \<and> ta \<noteq> tb \<longrightarrow>
      b2FileName3 oa ta na \<noteq> b2FileName3 ob tb nb) \<and>
   (base \<noteq> [] \<and> ext \<noteq> [] \<and> CHR ''.'' \<notin> set ext \<longrightarrow>
      b2FileName2 ttl ta (base @ CHR ''.'' # ext) =
        ''files/'' @ safeTitle ttl @ ''_'' @ numberToString ta @ ''.'' @ ext \<and>
      b2FileName3 oa ta (base @ CHR ''.'' # ext) =
        ''files/'' @ replaceNonAlnum (fileTitle oa (base @ CHR ''.'' # ext)) @ ''_'' @
        numberToString ta @ ''.'' @ ext) \<and>
   (CHR ''.'' \<notin> set na \<longrightarrow>
      b2FileName3 oa ta na =
        ''files/'' @ replaceNonAlnum (fileTitle oa na) @ ''_'' @ numberToString ta \<and>
      b2FileName3 oa ta (CHR ''.'' # na) =
        ''files/'' @ replaceNonAlnum (fileTitle oa (CHR ''.'' # na)) @ ''_'' @ numberToString ta)"
proof -
  have 1: "ta \<noteq> tb \<longrightarrow> b2FileName2 ttl ta na \<noteq> b2FileName2 ttl tb nb"
    using key2_distinct [of ta tb ttl na nb] by blast
  have 2: "fileTitle oa na = fileTitle ob nb \<and> ta \<noteq> tb \<longrightarrow>
      b2FileName3 oa ta na \<noteq> b2FileName3 ob tb nb"
    using key3_distinct [of oa na ob nb ta tb] by blast
  have 3: "base \<noteq> [] \<and> ext \<noteq> [] \<and> CHR ''.'' \<notin> set ext \<longrightarrow>
      b2FileName2 ttl ta (base @ CHR ''.'' # ext) =
        ''files/'' @ safeTitle ttl @ ''_'' @ numberToString ta @ ''.'' @ ext \<and>
      b2FileName3 oa ta (base @ CHR ''.'' # ext) =
        ''files/'' @ replaceNonAlnum (fileTitle oa (base @ CHR ''.'' # ext)) @ ''_'' @
        numberToString ta @ ''.'' @ ext"
  proof (intro impI conjI)
    assume h: "base \<noteq> [] \<and> ext \<noteq> [] \<and> CHR ''.'' \<notin> set ext"
    then show "b2FileName2 ttl ta (base @ CHR ''.'' # ext) =
        ''files/'' @ safeTitle ttl @ ''_'' @ numberToString ta @ ''.'' @ ext"
      by (simp add: key2_extension)
    from h have "last (base @ CHR ''.'' # ext) \<in> set ext"
      by simp
    with h have "base @ CHR ''.'' # ext \<noteq> ''..''"
      by (metis last.simps list.distinct(1))
    with h show "b2FileName3 oa ta (base @ CHR ''.'' # ext) =
        ''files/'' @ replaceNonAlnum (fileTitle oa (base @ CHR ''.'' # ext)) @ ''_'' @
        numberToString ta @ ''.'' @ ext"
      by (simp add: key3_extension)
  qed
  have 4: "CHR ''.'' \<notin> set na \<longrightarrow>
      b2FileName3 oa ta na =
        ''files/'' @ replaceNonAlnum (fileTitle oa na) @ ''_'' @ numberToString ta \<and>
      b2FileName3 oa ta (CHR ''.'' # na) =
        ''files/'' @ replaceNonAlnum (fileTitle oa (CHR ''.'' # na)) @ ''_'' @ numberToString ta"
    using key3_no_extension [of na oa ta] key3_dotfile [of na oa ta] by blast
  from 1 2 3 4 show ?thesis by (intro conjI)
qed

theorem storage_key_derivation_witness:
  "b2FileName2 ''Demo Video'' 111 ''README'' \<noteq> b2FileName2 ''Demo Video'' 222 ''clip.mp4'' \<and>
   b2FileName3 (Some ''Demo Video'') 111 ''README'' \<noteq> b2FileName3 (Some ''Demo Video'') 222 ''clip.mp4'' \<and>
   b2FileName2 ''Demo Video'' 111 ''clip.mp4'' = ''files/demo_video_111.mp4'' \<and>
   b2FileName3 (Some ''Demo Video'') 111 ''clip.mp4'' = ''files/Demo_Video_111.mp4'' \<and>
   b2FileName3 (Some ''Demo Video'') 111 ''README'' = ''files/Demo_Video_111'' \<and>
   b2FileName3 (Some ''Demo Video'') 111 ''.README'' = ''files/Demo_Video_111''"
proof -
  have n: "numberToString 111 = ''111''"
    by (simp add: numberToString.simps digitChar_def)
  have s: "safeTitle ''Demo Video'' = ''demo_video''"
    "replaceNonAlnum ''Demo Video'' = ''Demo_Video''"
    by (simp_all add: safeTitle_def toLowerCase_def lowerChar_def replaceNonAlnum_def isAlnum_def)
  have f: "fileTitle (Some ''Demo Video'') original = ''Demo Video''" for original
    by (simp add: fileTitle_def falsy_def)
  from storage_key_derivation [where ta = 111 and tb = 222 and ttl = "''Demo Video''"
      and na = "''README''" and nb = "''clip.mp4''" and oa = "Some ''Demo Video''"
      and ob = "Some ''Demo Video''" and base = "''clip''" and ext = "''mp4''"]
  show ?thesis
    by (simp (no_asm_use) add: n s f)
qed

section \<open>The token cache and the log under one remote call\<close>

lemma fetch_state:
  "fetch answer request msg s = (r, s') \<Longrightarrow> s' = s\<lparr>trace := trace s @ [request]\<rparr>"
  by (auto simp: fetch_def Let_def split: fetched.splits if_splits option.splits)

lemma fetch_failure:
  "fetch answer request msg s = (Inl e, s') \<longleftrightarrow>
     s' = s\<lparr>trace := trace s @ [request]\<rparr> \<and>
     (case answer (trace s @ [request]) of
        Rejected \<Rightarrow> e = FetchError
      | Replied status body \<Rightarrow>
          (\<not> ok status \<and> e = Error (msg status)) \<or> (ok status \<and> body = None \<and> e = SyntaxError))"
  by (auto simp: fetch_def Let_def split: fetched.splits if_splits option.splits)

lemma fetch_success:
  "fetch answer request msg s = (Inr d, s') \<longleftrightarrow>
     s' = s\<lparr>trace := trace s @ [request]\<rparr> \<and>
     (\<exists>status. ok status \<and> answer (trace s @ [request]) = Replied status (Some d))"
  by (auto simp: fetch_def Let_def split: fetched.splits if_splits option.splits)

lemma getAuthToken_cached:
  "authTokenCache s acct = Some a \<Longrightarrow> getAuthToken E acct s = (Inr a, s)"
  by (simp add: getAuthToken_def)

lemma getAuthToken_state:
  assumes "getAuthToken E acct s = (r, s')"
  shows "(s' = s \<and> (r = Inl (Error ''Invalid account'') \<or> (\<exists>a. r = Inr a \<and> authTokenCache s acct = Some a))) \<or>
         (authTokenCache s acct = None \<and>
          ((\<exists>e. r = Inl e \<and> s' = s\<lparr>trace := trace s @ [authRequest E acct]\<rparr>) \<or>
           (\<exists>a. r = Inr a \<and>
              s' = s\<lparr>trace := trace s @ [authRequest E acct],
                     authTokenCache := (authTokenCache s)(acct \<mapsto> a)\<rparr>)))"
  using assms
  by (auto simp: getAuthToken_def andThen_def fetch_def Let_def authRequest_def
      split: option.splits if_splits fetched.splits)

lemma getAuthToken_caches:
  "getAuthToken E acct s = (r, s') \<Longrightarrow> fileListCache s' = fileListCache s \<and> bucketInfoCache s' = bucketInfoCache s \<and> now s' = now s"
  by (drule getAuthToken_state) auto

lemma listFilesRemote_unfold:
  "listFilesRemote glue E acct s =
     (case getAuthToken E acct s of
        (Inl e, s1) \<Rightarrow> (Inl e, s1)
      | (Inr a, s1) \<Rightarrow>
          (case bucketConfig E acct of
             None \<Rightarrow> (Inl TypeError, s1)
           | Some b \<Rightarrow>
               (case fetch (list_file_names E) (listRequest a b)
                       (\<lambda>status. ''Failed to list files: '' @ numberToString status) s1 of
                  (Inl e, s2) \<Rightarrow> (Inl e, s2)
                | (Inr result, s2) \<Rightarrow>
                    (Inr (sortNewestFirst (map (toView glue acct) result)),
                     s2\<lparr>fileListCache := (fileListCache s2)
                          (filesKey acct \<mapsto> (now s2, sortNewestFirst (map (toView glue acct) result)))\<rparr>))))"
  by (simp add: listFilesRemote_def andThen_def throw_def listRequest_def Let_def
      split: prod.splits sum.splits option.splits)

lemma listFilesRemote_failure:
  assumes "listFilesRemote glue E acct s = (Inl e, s')"
  shows "fileListCache s' = fileListCache s"
proof -
  obtain r s1 where g: "getAuthToken E acct s = (r, s1)" by (cases "getAuthToken E acct s")
  note c = getAuthToken_caches [OF g]
  show ?thesis
  proof (cases r)
    case (Inl e1)
    with assms g c show ?thesis by (simp add: listFilesRemote_unfold)
  next
    case (Inr a)
    show ?thesis
    proof (cases "bucketConfig E acct")
      case None
      with assms g c Inr show ?thesis by (simp add: listFilesRemote_unfold)
    next
      case (Some b)
      obtain r2 s2 where f: "fetch (list_file_names E) (listRequest a b)
          (\<lambda>status. ''Failed to list files: '' @ numberToString status) s1 = (r2, s2)"
        by (cases "fetch (list_file_names E) (listRequest a b)
          (\<lambda>status. ''Failed to list files: '' @ numberToString status) s1")
      from fetch_state [OF f] have "fileListCache s2 = fileListCache s1" by simp
      with assms g c Inr Some f show ?thesis
        by (cases r2) (simp_all add: listFilesRemote_unfold)
    qed
  qed
qed

lemma listFilesRemote_success:
  assumes "listFilesRemote glue E acct s = (Inr listing, s')"
  shows "\<exists>a s1 b status result.
           getAuthToken E acct s = (Inr a, s1) \<and> bucketConfig E acct = Some b \<and>
           list_file_names E (trace s1 @ [listRequest a b]) = Replied status (Some result) \<and>
           ok status \<and> listing = sortNewestFirst (map (toView glue acct) result) \<and>
           s' = s1\<lparr>trace := trace s1 @ [listRequest a b],
                   fileListCache := (fileListCache s1)(filesKey acct \<mapsto> (now s1, listing))\<rparr>"
proof -
  obtain r s1 where g: "getAuthToken E acct s = (r, s1)" by (cases "getAuthToken E acct s")
  from assms g obtain a where a: "r = Inr a"
    by (cases r) (simp_all add: listFilesRemote_unfold)
  from assms g a obtain b where b: "bucketConfig E acct = Some b"
    by (cases "bucketConfig E acct") (simp_all add: listFilesRemote_unfold)
  obtain r2 s2 where f: "fetch (list_file_names E) (listRequest a b)
      (\<lambda>status. ''Failed to list files: '' @ numberToString status) s1 = (r2, s2)"
    by (cases "fetch (list_file_names E) (listRequest a b)
      (\<lambda>status. ''Failed to list files: '' @ numberToString status) s1")
  from assms g a b f obtain result where r2: "r2 = Inr result"
    by (cases r2) (simp_all add: listFilesRemote_unfold)
  from f r2 obtain status where st: "ok status"
      "list_file_names E (trace s1 @ [listRequest a b]) = Replied status (Some result)"
      and s2: "s2 = s1\<lparr>trace := trace s1 @ [listRequest a b]\<rparr>"
    by (auto simp: fetch_success)
  from assms g a b f r2 s2 have "listing = sortNewestFirst (map (toView glue acct) result)"
    and "s' = s1\<lparr>trace := trace s1 @ [listRequest a b],
                   fileListCache := (fileListCache s1)(filesKey acct \<mapsto> (now s1, listing))\<rparr>"
    by (auto simp: listFilesRemote_unfold)
  with g a b st show ?thesis by blast
qed

lemma listFiles_miss:
  "cachedListing s acct = None \<Longrightarrow>
   listFiles E acct s =
     (case listFilesRemote [] E acct s of (Inl e, s') \<Rightarrow> ([], s') | (Inr listing, s') \<Rightarrow> (listing, s'))"
  by (simp add: listFiles_def listFilesWith_def)

lemma listFiles_not_ok:
  assumes "cachedListing s acct = None" and "getAuthToken E acct s = (Inr a, s1)"
    and "bucketConfig E acct = Some b"
    and "list_file_names E (trace s1 @ [listRequest a b]) = Replied status body"
    and "\<not> ok status"
  shows "listFiles E acct s = ([], s1\<lparr>trace := trace s1 @ [listRequest a b]\<rparr>)"
  using assms
  by (simp add: listFiles_miss listFilesRemote_unfold fetch_def Let_def)

section \<open>Listing failures (C9)\<close>

text \<open>
  C9. When the listing for an account is not served from the cache and anything inside the
  \<open>try\<close> block of \<open>listFiles\<close> throws, \<open>listFiles\<close> returns the empty list and leaves the
  listing cache as it was: the empty result is not cached. The second and third parts name
  two of the failures: the authorization fails, and the listing answers with a status
  outside 200-299.
\<close>

theorem listFiles_swallows_failure:
  "(cachedListing s acct = None \<and> listFilesRemote [] E acct s = (Inl e, s') \<longrightarrow>
      listFiles E acct s = ([], s') \<and> fileListCache s' = fileListCache s) \<and>
   (cachedListing s acct = None \<and> getAuthToken E acct s = (Inl e, s') \<longrightarrow>
      listFiles E acct s = ([], s') \<and> fileListCache s' = fileListCache s) \<and>
   (cachedListing s acct = None \<and> getAuthToken E acct s = (Inr a, s1) \<and>
    bucketConfig E acct = Some b \<and>
    list_file_names E (trace s1 @ [listRequest a b]) = Replied status body \<and> \<not> ok status \<longrightarrow>
      listFiles E acct s = ([], s1\<lparr>trace := trace s1 @ [listRequest a b]\<rparr>) \<and>
      fileListCache s1 = fileListCache s)"
proof (intro conjI impI)
  assume h: "cachedListing s acct = None \<and> listFilesRemote [] E acct s = (Inl e, s')"
  then show "listFiles E acct s = ([], s')" by (simp add: listFiles_miss)
  from h show "fileListCache s' = fileListCache s" using listFilesRemote_failure by blast
next
  assume h: "cachedListing s acct = None \<and> getAuthToken E acct s = (Inl e, s')"
  then have r: "listFilesRemote [] E acct s = (Inl e, s')"
    by (simp add: listFilesRemote_unfold)
  with h show "listFiles E acct s = ([], s')" by (simp add: listFiles_miss)
  from r show "fileListCache s' = fileListCache s" by (rule listFilesRemote_failure)
next
  assume h: "cachedListing s acct = None \<and> getAuthToken E acct s = (Inr a, s1) \<and>
    bucketConfig E acct = Some b \<and>
    list_file_names E (trace s1 @ [listRequest a b]) = Replied status body \<and> \<not> ok status"
  then show "listFiles E acct s = ([], s1\<lparr>trace := trace s1 @ [listRequest a b]\<rparr>)"
    by (simp add: listFiles_not_ok)
  from h show "fileListCache s1 = fileListCache s"
    using getAuthToken_caches by blast
qed

lemma demo_cached [simp]: "cachedListing demoServer2 acct = None"
  by (simp add: cachedListing_def demoServer2_def)

lemma demo_token [simp]: "getAuthToken E ''account1'' demoServer2 = (Inr demoAuth, demoServer2)"
  by (simp add: getAuthToken_def demoServer2_def)

lemma demo_config [simp]: "bucketConfig demoEnv ''account1'' = Some demoBucket"
  by (simp add: demoEnv_def)

theorem listFiles_swallows_failure_witness:
  "listFiles demoEnv ''account1'' demoServer2 =
     ([], demoServer2\<lparr>trace := [listRequest demoAuth demoBucket]\<rparr>) \<and>
   fileListCache (demoServer2\<lparr>trace := [listRequest demoAuth demoBucket]\<rparr>) = Map.empty \<and>
   listFiles demoEnv ''account3'' demoServer2 = ([], demoServer2)"
proof -
  have r: "listFilesRemote [] demoEnv ''account1'' demoServer2 =
      (Inl (Error ''Failed to list files: 401''),
       demoServer2\<lparr>trace := [listRequest demoAuth demoBucket]\<rparr>)"
    by (simp add: listFilesRemote_unfold fetch_def Let_def ok_def demoEnv_def
        numberToString.simps digitChar_def)
      (simp add: demoServer2_def)
  have g: "getAuthToken demoEnv ''account3'' demoServer2 = (Inl (Error ''Invalid account''), demoServer2)"
    by (simp add: getAuthToken_def demoServer2_def)
  have t: "trace demoServer2 = []" and c: "fileListCache demoServer2 = Map.empty"
    by (simp_all add: demoServer2_def)
  from listFiles_swallows_failure [where s = demoServer2 and acct = "''account1''"
      and E = demoEnv and e = "Error ''Failed to list files: 401''"
      and s' = "demoServer2\<lparr>trace := [listRequest demoAuth demoBucket]\<rparr>"] r
  have 1: "listFiles demoEnv ''account1'' demoServer2 =
     ([], demoServer2\<lparr>trace := [listRequest demoAuth demoBucket]\<rparr>)"
    and 2: "fileListCache (demoServer2\<lparr>trace := [listRequest demoAuth demoBucket]\<rparr>) = Map.empty"
    by (simp_all add: c)
  from listFiles_swallows_failure [where s = demoServer2 and acct = "''account3''"
      and E = demoEnv and e = "Error ''Invalid account''" and s' = demoServer2] g
  have 3: "listFiles demoEnv ''account3'' demoServer2 = ([], demoServer2)"
    by simp
  from 1 2 3 show ?thesis by simp
qed

section \<open>Order of a listing (C6)\<close>

lemma toView_timestamp [simp]: "uploadTimestamp (toView glue acct f) = uploadTimestamp f"
  by (simp add: toView_def Let_def)

lemma toView_fullFileName [simp]: "fullFileName (toView glue acct f) = fileName f"
  by (simp add: toView_def Let_def)

lemma newestFirst_sort: "newestFirst (sortNewestFirst listing)"
proof -
  have "sorted (map (\<lambda>f. - uploadTimestamp f) (sort_key (\<lambda>f. - uploadTimestamp f) listing))"
    by (rule sorted_sort_key)
  then show ?thesis
    by (simp add: newestFirst_def sortNewestFirst_def sorted_map)
qed

lemma sortNewestFirst_stable:
  "filter (\<lambda>f. uploadTimestamp f = t) (sortNewestFirst listing) =
   filter (\<lambda>f. uploadTimestamp f = t) listing"
proof -
  have "filter (\<lambda>f. - uploadTimestamp f = - t) (sort_key (\<lambda>f. - uploadTimestamp f) listing) =
        filter (\<lambda>f. - uploadTimestamp f = - t) listing"
    by (rule sort_key_stable)
  then show ?thesis by (simp add: sortNewestFirst_def)
qed

lemma listFiles_fetched:
  assumes "cachedListing s acct = None" and "getAuthToken E acct s = (Inr a, s1)"
    and "bucketConfig E acct = Some b"
    and "list_file_names E (trace s1 @ [listRequest a b]) = Replied status (Some result)"
    and "ok status"
  shows "fst (listFiles E acct s) = sortNewestFirst (map (toView [] acct) result)"
  using assms
  by (simp add: listFiles_miss listFilesRemote_unfold fetch_def Let_def)

lemma listFilesRemote_cacheSorted:
  assumes "cacheSorted s" and "listFilesRemote glue E acct s = (r, s')"
  shows "cacheSorted s' \<and> (\<forall>listing. r = Inr listing \<longrightarrow> newestFirst listing)"
proof (cases r)
  case (Inl e)
  with assms show ?thesis
    using listFilesRemote_failure [of glue E acct s e s'] by (simp add: cacheSorted_def)
next
  case (Inr listing)
  with assms(2) obtain a s1 b status result where
      g: "getAuthToken E acct s = (Inr a, s1)"
      and f: "listing = sortNewestFirst (map (toView glue acct) result)"
      and s': "s' = s1\<lparr>trace := trace s1 @ [listRequest a b],
                   fileListCache := (fileListCache s1)(filesKey acct \<mapsto> (now s1, listing))\<rparr>"
    using listFilesRemote_success [of glue E acct s listing s'] by blast
  from f have n: "newestFirst listing" by (simp add: newestFirst_sort)
  from getAuthToken_caches [OF g] assms(1) have "cacheSorted s1"
    by (simp add: cacheSorted_def)
  with n s' have "cacheSorted s'"
    by (auto simp: cacheSorted_def ran_def split: if_splits)
  with n Inr show ?thesis by simp
qed

lemma listFiles_cacheSorted:
  assumes "cacheSorted s"
  shows "newestFirst (fst (listFiles E acct s)) \<and> cacheSorted (snd (listFiles E acct s))"
proof (cases "cachedListing s acct")
  case None
  obtain r s' where r: "listFilesRemote [] E acct s = (r, s')"
    by (cases "listFilesRemote [] E acct s")
  from listFilesRemote_cacheSorted [OF assms r] None r show ?thesis
    by (cases r) (simp_all add: listFiles_miss newestFirst_def)
next
  case (Some listing)
  then have "\<exists>t. fileListCache s (filesKey acct) = Some (t, listing)"
    by (auto simp: cachedListing_def split: option.splits if_splits)
  with assms have "newestFirst listing"
    by (auto simp: cacheSorted_def ran_def)
  with Some assms show ?thesis
    by (simp add: listFiles_def listFilesWith_def)
qed

text \<open>
  C6, as stated, on a listing in which the store returns \<open>files/b_1.png\<close> before
  \<open>files/a_2.png\<close>, both uploaded at time 5: \<open>listFiles\<close> keeps \<open>b\<close> before \<open>a\<close>, so the
  tie is not in ascending order of the storage key.
\<close>

theorem listing_ties_counterexample:
  "map fullFileName
     (fst (listFiles (demoEnv\<lparr>list_file_names := (\<lambda>_. Replied 200 (Some demoListing))\<rparr>)
        ''account1'' demoServer2)) =
     [''files/c_3.png'', ''files/b_1.png'', ''files/a_2.png''] \<and>
   map uploadTimestamp
     (fst (listFiles (demoEnv\<lparr>list_file_names := (\<lambda>_. Replied 200 (Some demoListing))\<rparr>)
        ''account1'' demoServer2)) = [9, 5, 5]"
  by (simp add: listFiles_miss listFilesRemote_unfold fetch_def Let_def ok_def demoEnv_def
      sortNewestFirst_def demoListing_def)

text \<open>
  C6, amended. Every listing \<open>listFiles\<close> returns is sorted by upload timestamp, newest
  first: the cached listings are, and stay so. When the listing is fetched from the store,
  entries with equal upload timestamps keep the order in which the store returned them (the
  sort is stable); their storage keys are not compared. So such entries are in ascending
  order of storage key when the store returned its entries in that order.
\<close>

theorem listing_order:
  "(cacheSorted s \<longrightarrow>
      newestFirst (fst (listFiles E acct s)) \<and> cacheSorted (snd (listFiles E acct s))) \<and>
   (cachedListing s acct = None \<and> getAuthToken E acct s = (Inr a, s1) \<and>
    bucketConfig E acct = Some b \<and>
    list_file_names E (trace s1 @ [listRequest a b]) = Replied status (Some result) \<and>
    ok status \<longrightarrow>
      newestFirst (fst (listFiles E acct s)) \<and>
      filter (\<lambda>f. uploadTimestamp f = t) (fst (listFiles E acct s)) =
        map (toView [] acct) (filter (\<lambda>f. uploadTimestamp f = t) result) \<and>
      (sorted (map fileName result) \<longrightarrow>
         sorted (map fullFileName
           (filter (\<lambda>f. uploadTimestamp f = t) (fst (listFiles E acct s))))))"
proof (intro conjI impI)
  assume "cacheSorted s"
  then show "newestFirst (fst (listFiles E acct s))" "cacheSorted (snd (listFiles E acct s))"
    using listFiles_cacheSorted by blast+
next
  assume h: "cachedListing s acct = None \<and> getAuthToken E acct s = (Inr a, s1) \<and>
    bucketConfig E acct = Some b \<and>
    list_file_names E (trace s1 @ [listRequest a b]) = Replied status (Some result) \<and>
    ok status"
  then have f: "fst (listFiles E acct s) = sortNewestFirst (map (toView [] acct) result)"
    by (simp add: listFiles_fetched)
  then show "newestFirst (fst (listFiles E acct s))"
    by (simp add: newestFirst_sort)
  from f show e: "filter (\<lambda>f. uploadTimestamp f = t) (fst (listFiles E acct s)) =
        map (toView [] acct) (filter (\<lambda>f. uploadTimestamp f = t) result)"
    by (simp add: sortNewestFirst_stable filter_map comp_def)
  assume "sorted (map fileName result)"
  then have "sorted (map fileName (filter (\<lambda>f. uploadTimestamp f = t) result))"
    by (rule sorted_filter)
  with e show "sorted (map fullFileName
      (filter (\<lambda>f. uploadTimestamp f = t) (fst (listFiles E acct s))))"
    by (simp add: comp_def)
qed

theorem listing_order_witness:
  "newestFirst
     (fst (listFiles (demoEnv\<lparr>list_file_names := (\<lambda>_. Replied 200 (Some demoListing))\<rparr>)
        ''account1'' demoServer2)) \<and>
   filter (\<lambda>f. uploadTimestamp f = 5)
     (fst (listFiles (demoEnv\<lparr>list_file_names := (\<lambda>_. Replied 200 (Some demoListing))\<rparr>)
        ''account1'' demoServer2)) =
     map (toView [] ''account1'') (filter (\<lambda>f. uploadTimestamp f = 5) demoListing) \<and>
   cacheSorted
     (snd (listFiles (demoEnv\<lparr>list_file_names := (\<lambda>_. Replied 200 (Some demoListing))\<rparr>)
        ''account1'' demoServer2)) \<and>
   sorted (map fullFileName (filter (\<lambda>f. uploadTimestamp f = 5)
     (fst (listFiles (demoEnv\<lparr>list_file_names := (\<lambda>_. Replied 200 (Some demoListingByName))\<rparr>)
        ''account1'' demoServer2))))"
proof -
  let ?E = "demoEnv\<lparr>list_file_names := (\<lambda>_. Replied 200 (Some demoListing))\<rparr>"
  let ?F = "demoEnv\<lparr>list_file_names := (\<lambda>_. Replied 200 (Some demoListingByName))\<rparr>"
  have c: "cacheSorted demoServer2"
    by (simp add: cacheSorted_def demoServer2_def)
  have b: "bucketConfig ?E ''account1'' = Some demoBucket"
    "bucketConfig ?F ''account1'' = Some demoBucket"
    by (simp_all add: demoEnv_def)
  have l: "list_file_names ?E (trace demoServer2 @ [listRequest demoAuth demoBucket]) =
      Replied 200 (Some demoListing)"
    "list_file_names ?F (trace demoServer2 @ [listRequest demoAuth demoBucket]) =
      Replied 200 (Some demoListingByName)"
    by simp_all
  have o: "ok 200" by (simp add: ok_def)
  have n: "sorted (map fileName demoListingByName)"
    by (simp add: demoListingByName_def)
  from listing_order [where s = demoServer2 and E = ?E and acct = "''account1''"
      and a = demoAuth and ?s1.0 = demoServer2 and b = demoBucket and status = 200
      and result = demoListing and t = 5] c b l o
  have 1: "newestFirst (fst (listFiles ?E ''account1'' demoServer2))"
    and 2: "filter (\<lambda>f. uploadTimestamp f = 5) (fst (listFiles ?E ''account1'' demoServer2)) =
      map (toView [] ''account1'') (filter (\<lambda>f. uploadTimestamp f = 5) demoListing)"
    and 3: "cacheSorted (snd (listFiles ?E ''account1'' demoServer2))"
    by simp_all
  from listing_order [where s = demoServer2 and E = ?F and acct = "''account1''"
      and a = demoAuth and ?s1.0 = demoServer2 and b = demoBucket and status = 200
      and result = demoListingByName and t = 5] b l o n
  have 4: "sorted (map fullFileName (filter (\<lambda>f. uploadTimestamp f = 5)
      (fst (listFiles ?F ''account1'' demoServer2))))"
    by (simp (no_asm_use), blast)
  from 1 2 3 4 show ?thesis by simp
qed

section \<open>Sequencing and the handlers' \<open>catch\<close>\<close>

lemma andThen_Inr:
  "andThen m f s = (Inr x, s') \<longleftrightarrow> (\<exists>a s1. m s = (Inr a, s1) \<and> f a s1 = (Inr x, s'))"
  by (auto simp: andThen_def split: prod.splits sum.splits)

lemma respond_200:
  "respond r = (Reply 200 b, s') \<longleftrightarrow> r = (Inr (Reply 200 b), s')"
  by (cases r) (auto simp: respond_def split: sum.splits)

lemma getAuthToken_holds:
  "getAuthToken E acct s = (Inr a, s1) \<Longrightarrow> authTokenCache s1 acct = Some a"
  by (drule getAuthToken_state) auto

lemma getAuthToken_keeps:
  "getAuthToken E acct s = (r, s1) \<Longrightarrow> authTokenCache s other = Some t \<Longrightarrow>
   authTokenCache s1 other = Some t"
  by (drule getAuthToken_state) auto

section \<open>Cache coherence (C2)\<close>




lemma absent_entry_not_cached:
  "fileListCache s (filesKey acct) = None \<Longrightarrow> cachedListing s acct = None"
  by (simp add: cachedListing_def)




lemma demo_newFileName: "newFileName ''a_111.png'' ''b'' = ''b_111.png''"
  by (simp add: newFileName_def safeTitle_def toLowerCase_def lowerChar_def
      replaceNonAlnum_def isAlnum_def)



section \<open>Rejected remote calls on the gateway without a metadata index\<close>

lemma upload_url_not_ok:
  assumes "acct \<noteq> []" and "ttl \<noteq> []" and "bucketConfig E acct = Some b"
    and "getAuthToken E acct s = (Inr a, s1)"
    and "get_upload_url E (trace s1 @ [uploadUrlRequest a b]) = Replied status ubody"
    and "\<not> ok status"
  shows "uploadHandler2 E (Some acct) (Some ttl) (Some upl) s =
     (Reply 500 (Failure (Error ''Failed to get upload URL from B2'')),
      s1\<lparr>trace := trace s1 @ [uploadUrlRequest a b]\<rparr>)"
  using assms
  by (simp add: uploadHandler2_def falsy_def respond_def andThen_def fetch_def Let_def)

lemma upload_transfer_not_ok:
  assumes "acct \<noteq> []" and "ttl \<noteq> []" and "bucketConfig E acct = Some b"
    and "getAuthToken E acct s = (Inr a, s1)"
    and "get_upload_url E (trace s1 @ [uploadUrlRequest a b]) = Replied st1 (Some d)"
    and "ok st1"
    and "upload_file E (trace s1 @ [uploadUrlRequest a b, uploadRequest d key mime]) =
           Replied status tbody"
    and "\<not> ok status"
    and "key = ''files/'' @ fullFilename2 ttl (now s) (originalname upl)"
    and "mime = (if mimetype upl = [] then ''application/octet-stream'' else mimetype upl)"
  shows "uploadHandler2 E (Some acct) (Some ttl) (Some upl) s =
     (Reply 500 (Failure (Error ''Failed to upload file to B2'')),
      s1\<lparr>trace := trace s1 @ [uploadUrlRequest a b, uploadRequest d key mime]\<rparr>)"
  using assms
  by (simp add: uploadHandler2_def falsy_def respond_def andThen_def fetch_def Let_def)

lemma delete_not_ok:
  assumes "acct \<noteq> []" and "fid \<noteq> []" and "fname \<noteq> []" and "bucketConfig E acct = Some b"
    and "getAuthToken E acct s = (Inr a, s1)"
    and "delete_file_version E (trace s1 @ [deleteRequest a (Some fid) fname]) =
           Replied status dbody"
    and "\<not> ok status"
  shows "deleteHandler2 E (Some acct) (Some fid) (Some fname) s =
     (Reply 500 (Failure (Error ''Failed to delete file from B2'')),
      s1\<lparr>trace := trace s1 @ [deleteRequest a (Some fid) fname]\<rparr>)"
  using assms
  by (simp add: deleteHandler2_def falsy_def respond_def andThen_def fetch_def Let_def)

lemma copy_not_ok:
  assumes "acct \<noteq> []" and "fid \<noteq> []" and "old \<noteq> []" and "new \<noteq> []"
    and "bucketConfig E acct = Some b"
    and "getAuthToken E acct s = (Inr a, s1)"
    and "copy_file E (trace s1 @ [copyRequest a fid (''files/'' @ newFileName old new) b]) =
           Replied status cbody"
    and "\<not> ok status"
  shows "renameHandler E (Some acct) (Some fid) (Some old) (Some new) s =
     (Reply 500 (Failure (Error ''Failed to copy file with new name'')),
      s1\<lparr>trace := trace s1 @ [copyRequest a fid (''files/'' @ newFileName old new) b]\<rparr>)"
  using assms
  by (simp add: renameHandler_def falsy_def respond_def andThen_def fetch_def Let_def)

lemma rename_delete_not_ok:
  assumes "acct \<noteq> []" and "fid \<noteq> []" and "old \<noteq> []" and "new \<noteq> []"
    and "bucketConfig E acct = Some b"
    and "getAuthToken E acct s = (Inr a, s1)"
    and "copy_file E (trace s1 @ [copyRequest a fid (''files/'' @ newFileName old new) b]) =
           Replied st1 (Some copiedId)"
    and "ok st1"
    and "delete_file_version E
           (trace s1 @ [copyRequest a fid (''files/'' @ newFileName old new) b,
                        deleteRequest a (Some fid) (''files/'' @ old)]) = Replied status dbody"
    and "\<not> ok status"
  shows "renameHandler E (Some acct) (Some fid) (Some old) (Some new) s =
     (Reply 500 (Failure (Error ''Failed to delete old file version'')),
      s1\<lparr>trace := trace s1 @ [copyRequest a fid (''files/'' @ newFileName old new) b,
                               deleteRequest a (Some fid) (''files/'' @ old)]\<rparr>)"
  using assms
  by (simp add: renameHandler_def falsy_def respond_def andThen_def fetch_def Let_def)

lemma download_auth_not_ok:
  assumes "bucketConfig E acct = Some b"
    and "getAuthToken E acct s = (Inr a, s1)"
    and "get_download_authorization E
           (trace s1 @ [downloadAuthRequest a b (''files/'' @ filename)]) = Replied status abody"
    and "\<not> ok status"
  shows "serveFile2 E acct filename s =
     (Reply 500 (Failure (Error ''Failed to get download authorization'')),
      s1\<lparr>trace := trace s1 @ [downloadAuthRequest a b (''files/'' @ filename)]\<rparr>)"
  using assms
  by (simp add: serveFile2_def respond_def andThen_def fetch_def Let_def)

lemma rename_success:
  assumes "acct \<noteq> []" and "fid \<noteq> []" and "old \<noteq> []" and "new \<noteq> []"
    and "bucketConfig E acct = Some b"
    and "getAuthToken E acct s = (Inr a, s1)"
    and "copy_file E (trace s1 @ [copyRequest a fid (''files/'' @ newFileName old new) b]) =
           Replied st1 (Some copiedId)"
    and "ok st1"
    and "delete_file_version E
           (trace s1 @ [copyRequest a fid (''files/'' @ newFileName old new) b,
                        deleteRequest a (Some fid) (''files/'' @ old)]) = Replied st2 (Some u)"
    and "ok st2"
  shows "renameHandler E (Some acct) (Some fid) (Some old) (Some new) s =
     (Reply 200 (Renamed (newFileName old new) copiedId new
        (''/files/'' @ acct @ ''/'' @ newFileName old new)),
      s1\<lparr>trace := trace s1 @ [copyRequest a fid (''files/'' @ newFileName old new) b,
                               deleteRequest a (Some fid) (''files/'' @ old)],
         fileListCache := (fileListCache s1)(filesKey acct := None)\<rparr>)"
  using assms
  by (simp add: renameHandler_def falsy_def respond_def andThen_def fetch_def Let_def)

lemma hd_split_append: "sep \<notin> set a \<Longrightarrow> hd (split sep (a @ sep # r)) = a"
  by (induction a) (auto simp: split_not_empty split: list.splits)

lemma newFileName_keeps_timestamp:
  assumes "CHR ''_'' \<notin> set ts" and "CHR ''.'' \<notin> set ts"
    and "CHR ''_'' \<notin> set ext" and "CHR ''.'' \<notin> set ext"
  shows "newFileName (base @ ''_'' @ ts @ ''.'' @ ext) new = safeTitle new @ ''_'' @ ts @ ''.'' @ ext"
proof -
  from assms have "CHR ''_'' \<notin> set (ts @ CHR ''.'' # ext)" by simp
  then have l: "last (split CHR ''_'' (base @ CHR ''_'' # (ts @ CHR ''.'' # ext))) = ts @ CHR ''.'' # ext"
    by (rule last_split_append)
  from assms(2) have h: "hd (split CHR ''.'' (ts @ CHR ''.'' # ext)) = ts"
    by (rule hd_split_append)
  from assms(4) have "last (split CHR ''.'' ((base @ CHR ''_'' # ts) @ CHR ''.'' # ext)) = ext"
    by (rule last_split_append)
  then have e: "last (split CHR ''.'' (base @ CHR ''_'' # ts @ CHR ''.'' # ext)) = ext"
    by simp
  from l h e show ?thesis
    by (simp add: newFileName_def Let_def)
qed

section \<open>Rename as copy, then delete (C3)\<close>

text \<open>
  C3, as stated, on the rename of object \<open>X\<close> with key \<open>files/a_111.png\<close> to title \<open>b\<close> at
  time 1000: the copy goes to \<open>files/b_111.png\<close>, the key with the old timestamp, and not to
  the key with the time of the rename, \<open>files/b_1000.png\<close>.
\<close>

theorem rename_timestamp_counterexample:
  "trace (snd (renameHandler demoStore (Some ''account1'') (Some ''X'') (Some ''a_111.png'')
      (Some ''b'') demoServer2)) =
     [copyRequest demoAuth ''X'' ''files/b_111.png'' demoBucket,
      deleteRequest demoAuth (Some ''X'') ''files/a_111.png''] \<and>
   ''files/b_'' @ numberToString (now demoServer2) @ ''.png'' = ''files/b_1000.png''"
proof -
  have "renameHandler demoStore (Some ''account1'') (Some ''X'') (Some ''a_111.png'') (Some ''b'')
      demoServer2 =
     (Reply 200 (Renamed ''b_111.png'' ''id-copy'' ''b'' ''/files/account1/b_111.png''),
      demoServer2\<lparr>trace := [copyRequest demoAuth ''X'' ''files/b_111.png'' demoBucket,
        deleteRequest demoAuth (Some ''X'') ''files/a_111.png''],
        fileListCache := (fileListCache demoServer2)(filesKey ''account1'' := None)\<rparr>)"
    by (simp add: renameHandler_def falsy_def demoStore_def demoEnv_def
        respond_def andThen_def fetch_def Let_def ok_def demo_newFileName)
      (simp add: demoServer2_def)
  then show ?thesis
    by (simp add: demoServer2_def numberToString.simps digitChar_def)
qed

text \<open>
  C3, amended. Renaming an existing file with object id \<open>X\<close> and old file name
  \<open>a_111.png\<close> to title \<open>b\<close> first copies the object to \<open>files/b_111.png\<close> and then deletes the
  old key \<open>files/a_111.png\<close>: when both calls succeed the log grows by exactly the copy and
  then the delete, and the answer carries the new name and the id of the copy. The new name
  keeps the timestamp and the extension of the old name and takes only the sanitized new
  title; the time of the rename is not used.
\<close>

theorem rename_copies_then_deletes:
  "(acct \<noteq> [] \<and> fid \<noteq> [] \<and> old \<noteq> [] \<and> new \<noteq> [] \<and>
    bucketConfig E acct = Some b \<and> getAuthToken E acct s = (Inr a, s1) \<and>
    copy_file E (trace s1 @ [copyRequest a fid (''files/'' @ newFileName old new) b]) =
      Replied st1 (Some copiedId) \<and> ok st1 \<and>
    delete_file_version E
      (trace s1 @ [copyRequest a fid (''files/'' @ newFileName old new) b,
                   deleteRequest a (Some fid) (''files/'' @ old)]) = Replied st2 (Some u) \<and>
    ok st2 \<longrightarrow>
      renameHandler E (Some acct) (Some fid) (Some old) (Some new) s =
        (Reply 200 (Renamed (newFileName old new) copiedId new
           (''/files/'' @ acct @ ''/'' @ newFileName old new)),
         s1\<lparr>trace := trace s1 @ [copyRequest a fid (''files/'' @ newFileName old new) b,
                                  deleteRequest a (Some fid) (''files/'' @ old)],
            fileListCache := (fileListCache s1)(filesKey acct := None)\<rparr>)) \<and>
   (CHR ''_'' \<notin> set ts \<and> CHR ''.'' \<notin> set ts \<and> CHR ''_'' \<notin> set ext \<and> CHR ''.'' \<notin> set ext \<longrightarrow>
      newFileName (base @ ''_'' @ ts @ ''.'' @ ext) new =
        safeTitle new @ ''_'' @ ts @ ''.'' @ ext)"
proof (intro conjI impI)
  assume "acct \<noteq> [] \<and> fid \<noteq> [] \<and> old \<noteq> [] \<and> new \<noteq> [] \<and>
    bucketConfig E acct = Some b \<and> getAuthToken E acct s = (Inr a, s1) \<and>
    copy_file E (trace s1 @ [copyRequest a fid (''files/'' @ newFileName old new) b]) =
      Replied st1 (Some copiedId) \<and> ok st1 \<and>
    delete_file_version E
      (trace s1 @ [copyRequest a fid (''files/'' @ newFileName old new) b,
                   deleteRequest a (Some fid) (''files/'' @ old)]) = Replied st2 (Some u) \<and>
    ok st2"
  then show "renameHandler E (Some acct) (Some fid) (Some old) (Some new) s =
        (Reply 200 (Renamed (newFileName old new) copiedId new
           (''/files/'' @ acct @ ''/'' @ newFileName old new)),
         s1\<lparr>trace := trace s1 @ [copyRequest a fid (''files/'' @ newFileName old new) b,
                                  deleteRequest a (Some fid) (''files/'' @ old)],
            fileListCache := (fileListCache s1)(filesKey acct := None)\<rparr>)"
    using rename_success [of acct fid old new E b s a s1 st1 copiedId st2 u] by blast
next
  assume "CHR ''_'' \<notin> set ts \<and> CHR ''.'' \<notin> set ts \<and> CHR ''_'' \<notin> set ext \<and> CHR ''.'' \<notin> set ext"
  then show "newFileName (base @ ''_'' @ ts @ ''.'' @ ext) new =
        safeTitle new @ ''_'' @ ts @ ''.'' @ ext"
    using newFileName_keeps_timestamp [of ts ext base new] by blast
qed

theorem rename_copies_then_deletes_witness:
  "renameHandler demoStore (Some ''account1'') (Some ''X'') (Some ''a_111.png'') (Some ''b'')
      demoServer2 =
     (Reply 200 (Renamed ''b_111.png'' ''id-copy'' ''b'' ''/files/account1/b_111.png''),
      demoServer2\<lparr>trace := [copyRequest demoAuth ''X'' ''files/b_111.png'' demoBucket,
        deleteRequest demoAuth (Some ''X'') ''files/a_111.png''],
        fileListCache := (fileListCache demoServer2)(filesKey ''account1'' := None)\<rparr>) \<and>
   newFileName ''a_111.png'' ''b'' = ''b_111.png''"
proof -
  have t: "trace demoServer2 = []" by (simp add: demoServer2_def)
  have o: "ok 200" by (simp add: ok_def)
  have e: "bucketConfig demoStore ''account1'' = Some demoBucket"
    "copy_file demoStore = (\<lambda>_. Replied 200 (Some ''id-copy''))"
    "delete_file_version demoStore = (\<lambda>_. Replied 200 (Some ()))"
    by (simp_all add: demoStore_def demoEnv_def)
  have s: "safeTitle ''b'' = ''b''"
    by (simp add: safeTitle_def toLowerCase_def lowerChar_def replaceNonAlnum_def isAlnum_def)
  from rename_copies_then_deletes [where E = demoStore and acct = "''account1''"
      and fid = "''X''" and old = "''a_111.png''" and new = "''b''" and b = demoBucket
      and s = demoServer2 and a = demoAuth and ?s1.0 = demoServer2 and ?st1.0 = 200
      and copiedId = "''id-copy''" and ?st2.0 = 200 and u = "()"
      and base = "''a''" and ts = "''111''" and ext = "''png''"]
  have 1: "renameHandler demoStore (Some ''account1'') (Some ''X'') (Some ''a_111.png'') (Some ''b'')
      demoServer2 =
     (Reply 200 (Renamed ''b_111.png'' ''id-copy'' ''b'' ''/files/account1/b_111.png''),
      demoServer2\<lparr>trace := [copyRequest demoAuth ''X'' ''files/b_111.png'' demoBucket,
        deleteRequest demoAuth (Some ''X'') ''files/a_111.png''],
        fileListCache := (fileListCache demoServer2)(filesKey ''account1'' := None)\<rparr>)"
    and 2: "newFileName ''a_111.png'' ''b'' = ''b_111.png''"
    by (simp_all (no_asm_use) add: t o e s demo_newFileName)
  from 1 2 show ?thesis by (intro conjI)
qed

section \<open>The upload pipeline of the server with the metadata index\<close>

lemma isDelete_requests [simp]:
  "\<not> isDelete (authRequest E acct)" "\<not> isDelete (uploadUrlRequest a b)"
  "\<not> isDelete (uploadRequest d key mime)" "\<not> isDelete (File_save i)"
  "isDelete (deleteRequest a fid key)"
  by (simp_all add: isDelete_def authRequest_def uploadUrlRequest_def uploadRequest_def
      deleteRequest_def)

lemma sameStore_refl [simp]: "sameStore s s"
  by (simp add: sameStore_def)

lemma sameStore_trans: "sameStore s s1 \<Longrightarrow> sameStore s1 s2 \<Longrightarrow> sameStore s s2"
  by (simp add: sameStore_def)

lemma getAuthToken_sameStore:
  "getAuthToken E acct s = (r, s') \<Longrightarrow> sameStore s s' \<and> disk s' = disk s"
  by (drule getAuthToken_state) (auto simp: sameStore_def)

lemma fetch_sameStore:
  "fetch answer request msg s = (r, s') \<Longrightarrow> \<not> isDelete request \<Longrightarrow>
   sameStore s s' \<and> disk s' = disk s"
  by (drule fetch_state) (auto simp: sameStore_def)

lemma uploadFileToB2_sameStore:
  assumes "uploadFileToB2 E acct key mime s = (r, s')"
  shows "sameStore s s' \<and> disk s' = disk s"
proof -
  obtain r1 s1 where g: "getAuthToken E acct s = (r1, s1)" by (cases "getAuthToken E acct s")
  note g1 = getAuthToken_sameStore [OF g]
  show ?thesis
  proof (cases r1)
    case (Inl e)
    with assms g g1 show ?thesis by (simp add: uploadFileToB2_def andThen_def)
  next
    case (Inr a)
    show ?thesis
    proof (cases "bucketConfig E acct")
      case None
      with assms g g1 Inr show ?thesis
        by (simp add: uploadFileToB2_def andThen_def throw_def)
    next
      case (Some b)
      obtain r2 s2 where u: "fetch (get_upload_url E) (uploadUrlRequest a b)
          (\<lambda>_. ''Failed to get upload URL from B2'') s1 = (r2, s2)"
        by (cases "fetch (get_upload_url E) (uploadUrlRequest a b)
          (\<lambda>_. ''Failed to get upload URL from B2'') s1")
      from fetch_sameStore [OF u] g1 have g2: "sameStore s s2 \<and> disk s2 = disk s"
        using sameStore_trans by auto
      show ?thesis
      proof (cases r2)
        case (Inl e)
        with assms g Inr Some u g2 show ?thesis
          by (simp add: uploadFileToB2_def andThen_def)
      next
        case d: (Inr d)
        from assms g Inr Some u d have "fetch (upload_file E) (uploadRequest d key mime)
            (\<lambda>_. ''Failed to upload file to B2'') s2 = (r, s')"
          by (simp add: uploadFileToB2_def andThen_def)
        from fetch_sameStore [OF this] g2 show ?thesis
          using sameStore_trans by auto
      qed
    qed
  qed
qed

lemma thumbnailPath_differs [simp]: "thumbnailPath p \<noteq> p" "p \<noteq> thumbnailPath p"
  by (simp_all add: thumbnailPath_def)

lemma generateVideoThumbnail_total:
  "\<exists>res s'. generateVideoThumbnail E filePath acct out s = (Inr res, s') \<and> sameStore s s' \<and>
     (filePath \<in> disk s' \<longleftrightarrow> filePath \<in> disk s) \<and>
     (\<not> screenshots E filePath \<longrightarrow> res = None) \<and>
     (isl (fst (uploadFileToB2 E acct (''thumbnails/'' @ out) ''image/jpeg''
        (s\<lparr>disk := insert (thumbnailPath filePath) (disk s)\<rparr>))) \<longrightarrow> res = None)"
proof (cases "screenshots E filePath")
  case False
  then show ?thesis by (simp add: generateVideoThumbnail_def)
next
  case True
  let ?s0 = "s\<lparr>disk := insert (thumbnailPath filePath) (disk s)\<rparr>"
  obtain r1 s1 where u: "uploadFileToB2 E acct (''thumbnails/'' @ out) ''image/jpeg'' ?s0 = (r1, s1)"
    by (cases "uploadFileToB2 E acct (''thumbnails/'' @ out) ''image/jpeg'' ?s0")
  from uploadFileToB2_sameStore [OF u] have k: "sameStore s s1" "disk s1 = insert (thumbnailPath filePath) (disk s)"
    by (simp_all add: sameStore_def)
  show ?thesis
  proof (cases r1)
    case (Inl e)
    with True u k show ?thesis
      by (simp add: generateVideoThumbnail_def andThen_def readFileSync_def)
  next
    case (Inr fid)
    with True u k show ?thesis
      by (simp add: generateVideoThumbnail_def andThen_def readFileSync_def unlinkSync_def
          return_def sameStore_def)
  qed
qed

lemma enrich_total:
  "\<exists>doc s'. enrich E acct upl filename fileRecord s = (Inr doc, s') \<and> sameStore s s' \<and>
     (tempPath upl \<in> disk s' \<longleftrightarrow> tempPath upl \<in> disk s) \<and>
     doc\<lparr>duration := duration fileRecord, thumbnailUrl := thumbnailUrl fileRecord\<rparr> = fileRecord \<and>
     (ffprobe E (tempPath upl) = None \<longrightarrow> duration doc = duration fileRecord) \<and>
     (\<not> screenshots E (tempPath upl) \<longrightarrow> thumbnailUrl doc = thumbnailUrl fileRecord) \<and>
     (isl (fst (uploadFileToB2 E acct (''thumbnails/'' @ filename @ ''.jpg'') ''image/jpeg''
        (s\<lparr>disk := insert (thumbnailPath (tempPath upl)) (disk s)\<rparr>))) \<longrightarrow>
        thumbnailUrl doc = thumbnailUrl fileRecord)"
proof (cases "prefix ''video/'' (mimetype upl)")
  case False
  then show ?thesis by (simp add: enrich_def)
next
  case True
  let ?p = "case ffprobe E (tempPath upl) of None \<Rightarrow> Null | Some found \<Rightarrow> found"
  let ?d = "if truthy ?p then fileRecord\<lparr>duration := ?p\<rparr> else fileRecord"
  obtain res s' where t: "generateVideoThumbnail E (tempPath upl) acct (filename @ ''.jpg'') s = (Inr res, s')"
    and k: "sameStore s s'" "tempPath upl \<in> disk s' \<longleftrightarrow> tempPath upl \<in> disk s"
      "\<not> screenshots E (tempPath upl) \<longrightarrow> res = None"
      "isl (fst (uploadFileToB2 E acct (''thumbnails/'' @ filename @ ''.jpg'') ''image/jpeg''
        (s\<lparr>disk := insert (thumbnailPath (tempPath upl)) (disk s)\<rparr>))) \<longrightarrow> res = None"
    using generateVideoThumbnail_total [of E "tempPath upl" acct "filename @ ''.jpg''" s] by blast
  from True t have "enrich E acct upl filename fileRecord s =
      (Inr (if res \<noteq> None
            then ?d\<lparr>thumbnailUrl := Some (''/thumbnails/'' @ acct @ ''/'' @ filename @ ''.jpg'')\<rparr>
            else ?d), s')"
    by (simp add: enrich_def getVideoDuration_def Let_def split: option.splits)
  with k show ?thesis
    by (auto simp: truthy_def)
qed

lemma dbCall_state:
  "dbCall E ev s = (r, s') \<Longrightarrow> s' = s\<lparr>trace := trace s @ [ev]\<rparr>"
  by (auto simp: dbCall_def Let_def split: if_splits)

lemma saveFile_failure:
  assumes "saveFile E i d s = (Inl e, s')"
  shows "files s' = files s \<and> disk s' = disk s \<and>
         filter isDelete (trace s') = filter isDelete (trace s)"
  using assms
  by (auto simp: saveFile_def throw_def andThen_def dbCall_def Let_def
      split: option.splits if_splits)

lemma saveFile_success:
  assumes "saveFile E i d s = (Inr u, s')"
  shows "files s' = (files s)(i \<mapsto> d) \<and> disk s' = disk s \<and>
         filter isDelete (trace s') = filter isDelete (trace s)"
  using assms
  by (auto simp: saveFile_def throw_def andThen_def dbCall_def Let_def
      split: option.splits if_splits)

lemma ingest_steps:
  assumes "tempPath upl \<in> disk s"
    and "uploadFileToB2 E acct (b2FileName3 ttl (now s) (originalname upl)) (uploadMime upl) s =
           (Inr uploadedId, s2)"
    and "enrich E acct upl (filename3 (fileTitle ttl (originalname upl)) (now s))
           (draftRecord ttl upl acct fo (now s) uploadedId) (s2\<lparr>nextId := Suc (nextId s2)\<rparr>) =
           (Inr doc, s3)"
  shows "ingest E acct ttl fo upl s =
     (case saveFile E (nextId s2) doc s3 of
        (Inl e, s4) \<Rightarrow> (Inl e, s4)
      | (Inr u, s4) \<Rightarrow> (Inr doc, s4\<lparr>disk := disk s4 - {tempPath upl}\<rparr>))"
proof -
  from uploadFileToB2_sameStore [OF assms(2)] have d2: "disk s2 = disk s" by simp
  obtain doc' s3' where "enrich E acct upl (filename3 (fileTitle ttl (originalname upl)) (now s))
           (draftRecord ttl upl acct fo (now s) uploadedId) (s2\<lparr>nextId := Suc (nextId s2)\<rparr>) =
           (Inr doc', s3')"
    and "tempPath upl \<in> disk s3' \<longleftrightarrow> tempPath upl \<in> disk (s2\<lparr>nextId := Suc (nextId s2)\<rparr>)"
    using enrich_total [of E acct upl "filename3 (fileTitle ttl (originalname upl)) (now s)"
        "draftRecord ttl upl acct fo (now s) uploadedId" "s2\<lparr>nextId := Suc (nextId s2)\<rparr>"]
    by blast
  with assms(3) assms(1) d2 have d3: "tempPath upl \<in> disk s3" by simp
  obtain r4 s4 where sv: "saveFile E (nextId s2) doc s3 = (r4, s4)"
    by (cases "saveFile E (nextId s2) doc s3")
  show ?thesis
  proof (cases r4)
    case (Inl e)
    with assms sv show ?thesis
      by (simp add: ingest_def Let_def andThen_def readFileSync_def newId_def
          b2FileName3_def fullFilename3_def draftRecord_def uploadMime_def)
  next
    case (Inr u)
    with sv saveFile_success [of E "nextId s2" doc s3 u s4] d3 have "tempPath upl \<in> disk s4"
      by simp
    with assms sv Inr show ?thesis
      by (simp add: ingest_def Let_def andThen_def readFileSync_def newId_def unlinkSync_def
          return_def b2FileName3_def fullFilename3_def draftRecord_def uploadMime_def)
  qed
qed

lemma uploadHandler3_ingest:
  "acct \<noteq> [] \<Longrightarrow> bucketConfig E acct = Some b \<Longrightarrow>
   uploadHandler3 E (Some acct) ttl fo (Some upl) s =
     (case ingest E acct ttl fo upl s of
        (Inl e, s') \<Rightarrow> (Reply 500 (Failure e), s'\<lparr>disk := disk s' - {tempPath upl}\<rparr>)
      | (Inr doc, s') \<Rightarrow> (Reply 201 (Created doc), s'))"
  by (simp add: uploadHandler3_def falsy_def)

lemma ingest_no_delete:
  assumes "ingest E acct ttl fo upl s = (r, s')"
  shows "filter isDelete (trace s') = filter isDelete (trace s)"
proof (cases "tempPath upl \<in> disk s")
  case False
  with assms show ?thesis
    by (simp add: ingest_def Let_def andThen_def readFileSync_def)
next
  case True
  obtain r2 s2 where u: "uploadFileToB2 E acct (b2FileName3 ttl (now s) (originalname upl))
      (uploadMime upl) s = (r2, s2)"
    by (cases "uploadFileToB2 E acct (b2FileName3 ttl (now s) (originalname upl)) (uploadMime upl) s")
  from uploadFileToB2_sameStore [OF u] have k2: "filter isDelete (trace s2) = filter isDelete (trace s)"
    by (simp add: sameStore_def)
  show ?thesis
  proof (cases r2)
    case (Inl e)
    with assms True u k2 show ?thesis
      by (simp add: ingest_def Let_def andThen_def readFileSync_def
          b2FileName3_def fullFilename3_def uploadMime_def)
  next
    case (Inr uploadedId)
    obtain doc s3 where en: "enrich E acct upl (filename3 (fileTitle ttl (originalname upl)) (now s))
           (draftRecord ttl upl acct fo (now s) uploadedId) (s2\<lparr>nextId := Suc (nextId s2)\<rparr>) =
           (Inr doc, s3)"
      and k3: "sameStore (s2\<lparr>nextId := Suc (nextId s2)\<rparr>) s3"
      using enrich_total [of E acct upl "filename3 (fileTitle ttl (originalname upl)) (now s)"
        "draftRecord ttl upl acct fo (now s) uploadedId" "s2\<lparr>nextId := Suc (nextId s2)\<rparr>"]
      by blast
    from k3 k2 have k3': "filter isDelete (trace s3) = filter isDelete (trace s)"
      by (simp add: sameStore_def)
    obtain r4 s4 where sv: "saveFile E (nextId s2) doc s3 = (r4, s4)"
      by (cases "saveFile E (nextId s2) doc s3")
    from sv k3' have k4: "filter isDelete (trace s4) = filter isDelete (trace s)"
      using saveFile_failure [of E "nextId s2" doc s3 _ s4]
        saveFile_success [of E "nextId s2" doc s3 _ s4]
      by (cases r4) auto
    from u Inr have u': "uploadFileToB2 E acct (b2FileName3 ttl (now s) (originalname upl))
      (uploadMime upl) s = (Inr uploadedId, s2)" by simp
    from ingest_steps [OF True u' en] sv assms k4 show ?thesis
      by (cases r4) auto
  qed
qed

section \<open>The deployment's upload, step by step\<close>

lemma demo_number: "numberToString 1000 = ''1000''"
  by (simp add: numberToString.simps digitChar_def)

lemma demo_title [simp]: "fileTitle (Some ''Demo Video'') original = ''Demo Video''"
  by (simp add: fileTitle_def falsy_def)

lemma demo_key3:
  "b2FileName3 (Some ''Demo Video'') 1000 ''clip.mp4'' = ''files/Demo_Video_1000.mp4''"
  "filename3 ''Demo Video'' 1000 = ''Demo_Video_1000''"
  "fullFilename3 ''Demo Video'' 1000 ''clip.mp4'' = ''Demo_Video_1000.mp4''"
  by (simp_all add: b2FileName3_def fullFilename3_def filename3_def
      replaceNonAlnum_def isAlnum_def extname_def demo_number)

lemma demo_uploadFileToB2:
  "bucketConfig E ''account1'' = Some demoBucket \<Longrightarrow>
   get_upload_url E = (\<lambda>_. Replied 200 (Some demoUploadUrl)) \<Longrightarrow>
   upload_file E = (\<lambda>_. Replied 200 (Some ''id-new'')) \<Longrightarrow>
   uploadFileToB2 E ''account1'' ''files/Demo_Video_1000.mp4'' ''video/mp4'' demoServer3 =
     (Inr ''id-new'', demoUploaded)"
  by (simp add: uploadFileToB2_def andThen_def getAuthToken_def fetch_def Let_def ok_def
      demoServer3_def demoUploaded_def)

lemma demo_draft:
  "draftRecord (Some ''Demo Video'') demoUpload ''account1'' None 1000 ''id-new'' = demoRecord"
  by (simp add: draftRecord_def newFile_def demoRecord_def demoUpload_def demo_key3 trim_def
      isSpace_def)

lemma demo_enrich:
  "ffprobe E = (\<lambda>_. None) \<Longrightarrow> screenshots E = (\<lambda>_. False) \<Longrightarrow>
   enrich E ''account1'' demoUpload ''Demo_Video_1000'' demoRecord s = (Inr demoRecord, s)"
  by (simp add: enrich_def getVideoDuration_def generateVideoThumbnail_def Let_def truthy_def)

lemma demo_validate: "validateFile demoRecord = None"
  by (simp add: validateFile_def demoRecord_def)

section \<open>A commit that fails after the upload (C4)\<close>

lemma demo_env_facts:
  "bucketConfig demoStore ''account1'' = Some demoBucket"
  "get_upload_url demoStore = (\<lambda>_. Replied 200 (Some demoUploadUrl))"
  "upload_file demoStore = (\<lambda>_. Replied 200 (Some ''id-new''))"
  "ffprobe demoStore = (\<lambda>_. None)" "screenshots demoStore = (\<lambda>_. False)"
  "dbFault demoStore = (\<lambda>_. False)"
  "bucketConfig demoFaulty ''account1'' = Some demoBucket"
  "get_upload_url demoFaulty = (\<lambda>_. Replied 200 (Some demoUploadUrl))"
  "upload_file demoFaulty = (\<lambda>_. Replied 200 (Some ''id-new''))"
  "ffprobe demoFaulty = (\<lambda>_. None)" "screenshots demoFaulty = (\<lambda>_. False)"
  "dbFault demoFaulty = (\<lambda>_. True)"
  by (simp_all add: demoFaulty_def demoStore_def demoEnv_def)

lemma demo_upload_facts:
  "now demoServer3 = 1000" "originalname demoUpload = ''clip.mp4''"
  "tempPath demoUpload = ''temp/1-clip.mp4''" "tempPath demoUpload \<in> disk demoServer3"
  "mimetype demoUpload = ''video/mp4''" "uploadMime demoUpload = ''video/mp4''"
  by (simp_all add: demoServer3_def demoUpload_def uploadMime_def)

lemma demo_step2:
  assumes "bucketConfig E ''account1'' = Some demoBucket"
    and "get_upload_url E = (\<lambda>_. Replied 200 (Some demoUploadUrl))"
    and "upload_file E = (\<lambda>_. Replied 200 (Some ''id-new''))"
  shows "uploadFileToB2 E ''account1'' (b2FileName3 (Some ''Demo Video'') (now demoServer3)
      (originalname demoUpload)) (uploadMime demoUpload) demoServer3 = (Inr ''id-new'', demoUploaded)"
  using demo_uploadFileToB2 [OF assms]
  by (simp add: demo_upload_facts demo_key3)

lemma demo_step3:
  assumes "ffprobe E = (\<lambda>_. None)" and "screenshots E = (\<lambda>_. False)"
  shows "enrich E ''account1'' demoUpload
      (filename3 (fileTitle (Some ''Demo Video'') (originalname demoUpload)) (now demoServer3))
      (draftRecord (Some ''Demo Video'') demoUpload ''account1'' None (now demoServer3) ''id-new'')
      (demoUploaded\<lparr>nextId := Suc (nextId demoUploaded)\<rparr>) =
      (Inr demoRecord, demoUploaded\<lparr>nextId := Suc (nextId demoUploaded)\<rparr>)"
  using demo_enrich [OF assms] by (simp add: demo_upload_facts demo_key3 demo_draft)

lemma demo_step4_fault:
  "saveFile demoFaulty (nextId demoUploaded) demoRecord
      (demoUploaded\<lparr>nextId := Suc (nextId demoUploaded)\<rparr>) = (Inl MongoError, demoSaveTried)"
  by (simp add: saveFile_def demo_validate andThen_def dbCall_def Let_def demoUploaded_def
      demoServer3_def demoSaveTried_def demo_env_facts)

lemma demo_step4:
  "saveFile demoStore (nextId demoUploaded) demoRecord
      (demoUploaded\<lparr>nextId := Suc (nextId demoUploaded)\<rparr>) =
     (Inr (), demoSaveTried\<lparr>files := [0 \<mapsto> demoRecord]\<rparr>)"
  by (simp add: saveFile_def demo_validate andThen_def dbCall_def Let_def demoUploaded_def
      demoServer3_def demoSaveTried_def demo_env_facts)

lemma demoSaveTried_facts:
  "disk demoSaveTried - {tempPath demoUpload} = {}" "files demoSaveTried = Map.empty"
  "files demoServer3 = Map.empty" "trace demoServer3 = []"
  "filter isDelete (trace demoSaveTried) = []"
  by (simp_all add: demoSaveTried_def demoServer3_def demoUpload_def)

text \<open>
  C4, as stated, on the upload of \<open>clip.mp4\<close> with title \<open>Demo Video\<close> when the object store
  accepts the file and the metadata store rejects the write: the handler answers 500 and the
  log holds the two upload requests and the failed save, with no delete request after
  them. The uploaded object \<open>files/Demo_Video_1000.mp4\<close> stays in the bucket.
\<close>

theorem failed_commit_counterexample:
  "uploadHandler3 demoFaulty (Some ''account1'') (Some ''Demo Video'') None (Some demoUpload)
      demoServer3 =
     (Reply 500 (Failure MongoError), demoSaveTried\<lparr>disk := {}\<rparr>) \<and>
   trace demoSaveTried =
     [uploadUrlRequest demoAuth demoBucket,
      uploadRequest demoUploadUrl ''files/Demo_Video_1000.mp4'' ''video/mp4'', File_save 0] \<and>
   filter isDelete (trace demoSaveTried) = []"
proof -
  from ingest_steps [OF demo_upload_facts(4) demo_step2 [OF demo_env_facts(7,8,9)]
      demo_step3 [OF demo_env_facts(10,11)]] demo_step4_fault
  have "ingest demoFaulty ''account1'' (Some ''Demo Video'') None demoUpload demoServer3 =
      (Inl MongoError, demoSaveTried)"
    by simp
  then show ?thesis
    by (simp add: uploadHandler3_ingest [OF _ demo_env_facts(7)] demoSaveTried_facts)
      (simp add: demoSaveTried_def)
qed

text \<open>
  C4, amended. If the commit of the metadata record (Step 4) fails after the remote upload
  (Step 2) succeeded, the upload answers 500 with the commit error, commits nothing to the
  metadata index and removes the staged temporary file; it sends no delete request, so the
  uploaded object stays in the bucket. In no run does \<open>POST /upload\<close> send a delete request.
\<close>

theorem failed_commit_surfaces_error_without_cleanup:
  "(acct \<noteq> [] \<and> bucketConfig E acct = Some b \<and> tempPath upl \<in> disk s \<and>
    uploadFileToB2 E acct (b2FileName3 ttl (now s) (originalname upl)) (uploadMime upl) s =
      (Inr uploadedId, s2) \<and>
    enrich E acct upl (filename3 (fileTitle ttl (originalname upl)) (now s))
      (draftRecord ttl upl acct fo (now s) uploadedId) (s2\<lparr>nextId := Suc (nextId s2)\<rparr>) =
      (Inr doc, s3) \<and>
    saveFile E (nextId s2) doc s3 = (Inl e, s4) \<longrightarrow>
      uploadHandler3 E (Some acct) ttl fo (Some upl) s =
        (Reply 500 (Failure e), s4\<lparr>disk := disk s4 - {tempPath upl}\<rparr>) \<and>
      files s4 = files s \<and>
      filter isDelete (trace s4) = filter isDelete (trace s)) \<and>
   filter isDelete (trace (snd (uploadHandler3 E acctField ttl fo fileField s))) =
     filter isDelete (trace s)"
proof (intro conjI impI)
  assume h: "acct \<noteq> [] \<and> bucketConfig E acct = Some b \<and> tempPath upl \<in> disk s \<and>
    uploadFileToB2 E acct (b2FileName3 ttl (now s) (originalname upl)) (uploadMime upl) s =
      (Inr uploadedId, s2) \<and>
    enrich E acct upl (filename3 (fileTitle ttl (originalname upl)) (now s))
      (draftRecord ttl upl acct fo (now s) uploadedId) (s2\<lparr>nextId := Suc (nextId s2)\<rparr>) =
      (Inr doc, s3) \<and>
    saveFile E (nextId s2) doc s3 = (Inl e, s4)"
  then have i: "ingest E acct ttl fo upl s = (Inl e, s4)"
    using ingest_steps [of upl s E acct ttl uploadedId s2 fo doc s3] by simp
  with h show "uploadHandler3 E (Some acct) ttl fo (Some upl) s =
        (Reply 500 (Failure e), s4\<lparr>disk := disk s4 - {tempPath upl}\<rparr>)"
    by (simp add: uploadHandler3_ingest)
  from i show "filter isDelete (trace s4) = filter isDelete (trace s)"
    by (rule ingest_no_delete)
  from h have f2: "files s2 = files s"
    using uploadFileToB2_sameStore [of E acct "b2FileName3 ttl (now s) (originalname upl)"
        "uploadMime upl" s "Inr uploadedId" s2]
    by (simp add: sameStore_def)
  from h have "sameStore (s2\<lparr>nextId := Suc (nextId s2)\<rparr>) s3"
    using enrich_total [of E acct upl "filename3 (fileTitle ttl (originalname upl)) (now s)"
        "draftRecord ttl upl acct fo (now s) uploadedId" "s2\<lparr>nextId := Suc (nextId s2)\<rparr>"]
    by auto
  with f2 have "files s3 = files s" by (simp add: sameStore_def)
  with h show "files s4 = files s"
    using saveFile_failure [of E "nextId s2" doc s3 e s4] by simp
next
  show "filter isDelete (trace (snd (uploadHandler3 E acctField ttl fo fileField s))) =
     filter isDelete (trace s)"
  proof (cases "falsy acctField \<or> fileField = None \<or> bucketConfig E (the acctField) = None")
    case True
    then show ?thesis
      by (auto simp: uploadHandler3_def Let_def)
  next
    case False
    then obtain b where b: "bucketConfig E (the acctField) = Some b" by auto
    obtain r s' where i: "ingest E (the acctField) ttl fo (the fileField) s = (r, s')"
      by (cases "ingest E (the acctField) ttl fo (the fileField) s")
    from ingest_no_delete [OF i] False b i show ?thesis
      by (cases r) (simp_all add: uploadHandler3_def Let_def)
  qed
qed

theorem failed_commit_surfaces_error_without_cleanup_witness:
  "uploadHandler3 demoFaulty (Some ''account1'') (Some ''Demo Video'') None (Some demoUpload)
      demoServer3 =
     (Reply 500 (Failure MongoError), demoSaveTried\<lparr>disk := {}\<rparr>) \<and>
   files demoSaveTried = Map.empty \<and>
   filter isDelete (trace demoSaveTried) = []"
proof -
  from failed_commit_surfaces_error_without_cleanup [where E = demoFaulty
      and acct = "''account1''" and b = demoBucket and upl = demoUpload and s = demoServer3
      and ttl = "Some ''Demo Video''" and uploadedId = "''id-new''" and ?s2.0 = demoUploaded
      and fo = None and doc = demoRecord
      and ?s3.0 = "demoUploaded\<lparr>nextId := Suc (nextId demoUploaded)\<rparr>"
      and e = MongoError and ?s4.0 = demoSaveTried]
    demo_upload_facts(4) demo_step2 [OF demo_env_facts(7,8,9)]
    demo_step3 [OF demo_env_facts(10,11)] demo_step4_fault demo_env_facts(7)
  show ?thesis
    by (simp add: demoSaveTried_facts)
qed

section \<open>Enrichment failures (C8)\<close>

lemma demo_unknown_facts:
  "bucketConfig demoUnknownDuration ''account1'' = Some demoBucket"
  "get_upload_url demoUnknownDuration = (\<lambda>_. Replied 200 (Some demoUploadUrl))"
  "upload_file demoUnknownDuration = (\<lambda>_. Replied 200 (Some ''id-new''))"
  "ffprobe demoUnknownDuration = (\<lambda>_. Some (Text ''N/A''))"
  "screenshots demoUnknownDuration = (\<lambda>_. False)"
  by (simp_all add: demoUnknownDuration_def demoStore_def demoEnv_def)

lemma demo_step3_unknown:
  "enrich demoUnknownDuration ''account1'' demoUpload
      (filename3 (fileTitle (Some ''Demo Video'') (originalname demoUpload)) (now demoServer3))
      (draftRecord (Some ''Demo Video'') demoUpload ''account1'' None (now demoServer3) ''id-new'')
      (demoUploaded\<lparr>nextId := Suc (nextId demoUploaded)\<rparr>) =
      (Inr (demoRecord\<lparr>duration := Text ''N/A''\<rparr>),
       demoUploaded\<lparr>nextId := Suc (nextId demoUploaded)\<rparr>)"
  by (simp add: enrich_def getVideoDuration_def generateVideoThumbnail_def Let_def truthy_def
      demo_unknown_facts demo_upload_facts demo_key3 demo_draft)

lemma demo_step4_unknown:
  "saveFile E i (demoRecord\<lparr>duration := Text ''N/A''\<rparr>) s = (Inl (ValidationError ''duration''), s)"
  by (simp add: saveFile_def validateFile_def throw_def)

text \<open>
  C8 at the upload of the video \<open>clip.mp4\<close> with title \<open>Demo Video\<close>, when the probe reports no
  error and finds no duration (\<open>format.duration\<close> is the text \<open>N/A\<close>) and thumbnail generation
  fails because no frame can be written. \<open>if (duration)\<close> assigns the text to the record, the
  save rejects the record because the text is no \<open>Number\<close>, and the upload answers 500 with
  nothing committed, after the file went to the object store. When the probe reports an
  error instead, the same upload answers 201 and the record is committed with
  \<open>duration = null\<close> and \<open>thumbnailUrl = null\<close>.
\<close>

theorem unknown_duration_aborts_upload:
  "ffprobe demoUnknownDuration (tempPath demoUpload) = Some (Text ''N/A'') \<and>
   \<not> screenshots demoUnknownDuration (tempPath demoUpload) \<and>
   prefix ''video/'' (mimetype demoUpload) \<and>
   uploadHandler3 demoUnknownDuration (Some ''account1'') (Some ''Demo Video'') None
      (Some demoUpload) demoServer3 =
     (Reply 500 (Failure (ValidationError ''duration'')),
      demoUploaded\<lparr>nextId := 1, disk := {}\<rparr>) \<and>
   files (demoUploaded\<lparr>nextId := 1, disk := {}\<rparr>) = Map.empty \<and>
   trace (demoUploaded\<lparr>nextId := 1, disk := {}\<rparr>) =
     [uploadUrlRequest demoAuth demoBucket,
      uploadRequest demoUploadUrl ''files/Demo_Video_1000.mp4'' ''video/mp4''] \<and>
   ffprobe demoStore (tempPath demoUpload) = None \<and>
   uploadHandler3 demoStore (Some ''account1'') (Some ''Demo Video'') None (Some demoUpload)
      demoServer3 =
     (Reply 201 (Created demoRecord), demoSaveTried\<lparr>files := [0 \<mapsto> demoRecord], disk := {}\<rparr>) \<and>
   duration demoRecord = Null \<and> thumbnailUrl demoRecord = None"
proof -
  have 1: "ffprobe demoUnknownDuration (tempPath demoUpload) = Some (Text ''N/A'')"
    "\<not> screenshots demoUnknownDuration (tempPath demoUpload)"
    "ffprobe demoStore (tempPath demoUpload) = None"
    by (simp_all add: demo_unknown_facts demo_env_facts)
  have 2: "prefix ''video/'' (mimetype demoUpload)"
    by (simp add: demo_upload_facts)
  have "ingest demoUnknownDuration ''account1'' (Some ''Demo Video'') None demoUpload demoServer3 =
      (Inl (ValidationError ''duration''), demoUploaded\<lparr>nextId := Suc (nextId demoUploaded)\<rparr>)"
    using ingest_steps [OF demo_upload_facts(4) demo_step2 [OF demo_unknown_facts(1,2,3)]
        demo_step3_unknown]
    by (simp add: demo_step4_unknown)
  then have 3: "uploadHandler3 demoUnknownDuration (Some ''account1'') (Some ''Demo Video'') None
      (Some demoUpload) demoServer3 =
     (Reply 500 (Failure (ValidationError ''duration'')),
      demoUploaded\<lparr>nextId := 1, disk := {}\<rparr>)"
    by (simp add: uploadHandler3_ingest [OF _ demo_unknown_facts(1)] demoUploaded_def
        demoServer3_def demoUpload_def)
  have 4: "files (demoUploaded\<lparr>nextId := 1, disk := {}\<rparr>) = Map.empty"
    "trace (demoUploaded\<lparr>nextId := 1, disk := {}\<rparr>) =
     [uploadUrlRequest demoAuth demoBucket,
      uploadRequest demoUploadUrl ''files/Demo_Video_1000.mp4'' ''video/mp4'']"
    by (simp_all add: demoUploaded_def demoServer3_def)
  have "ingest demoStore ''account1'' (Some ''Demo Video'') None demoUpload demoServer3 =
      (Inr demoRecord, demoSaveTried\<lparr>files := [0 \<mapsto> demoRecord], disk := {}\<rparr>)"
    using ingest_steps [OF demo_upload_facts(4) demo_step2 [OF demo_env_facts(1,2,3)]
        demo_step3 [OF demo_env_facts(4,5)]]
    by (simp add: demo_step4 demoSaveTried_facts)
  then have 5: "uploadHandler3 demoStore (Some ''account1'') (Some ''Demo Video'') None
      (Some demoUpload) demoServer3 =
     (Reply 201 (Created demoRecord), demoSaveTried\<lparr>files := [0 \<mapsto> demoRecord], disk := {}\<rparr>)"
    by (simp add: uploadHandler3_ingest [OF _ demo_env_facts(1)])
  have 6: "duration demoRecord = Null" "thumbnailUrl demoRecord = None"
    by (simp_all add: demoRecord_def)
  from 1 2 3 4 5 6 show ?thesis by (intro conjI)
qed

section \<open>The size limit of the upload middleware (C10)\<close>

lemma fromMulter_simps [simp]:
  "\<not> fromMulter (Error m)" "\<not> fromMulter FetchError" "\<not> fromMulter SyntaxError"
  "\<not> fromMulter TypeError" "\<not> fromMulter MongoError" "\<not> fromMulter (ValidationError m)"
  "\<not> fromMulter (FsError m)" "fromMulter (MulterError m)"
  by (simp_all add: fromMulter_def)

lemma fetch_not_multer:
  "fetch answer request msg s = (Inl e, s') \<Longrightarrow> \<not> fromMulter e"
  by (auto simp: fetch_failure split: fetched.splits)

lemma andThen_Inl:
  "andThen m f s = (Inl e, s') \<longleftrightarrow>
     m s = (Inl e, s') \<or> (\<exists>a s1. m s = (Inr a, s1) \<and> f a s1 = (Inl e, s'))"
  by (auto simp: andThen_def split: prod.splits sum.splits)

lemma getAuthToken_not_multer:
  "getAuthToken E acct s = (Inl e, s') \<Longrightarrow> \<not> fromMulter e"
  by (auto simp: getAuthToken_def andThen_Inl
      split: option.splits if_splits dest: fetch_not_multer)

lemma uploadFileToB2_not_multer:
  "uploadFileToB2 E acct key mime s = (Inl e, s') \<Longrightarrow> \<not> fromMulter e"
  by (auto simp: uploadFileToB2_def andThen_Inl throw_def
      split: option.splits dest: fetch_not_multer getAuthToken_not_multer)

lemma saveFile_not_multer:
  "saveFile E i d s = (Inl e, s') \<Longrightarrow> \<not> fromMulter e"
  by (auto simp: saveFile_def andThen_Inl throw_def dbCall_def Let_def
      split: option.splits if_splits)

lemma ingest_not_multer:
  assumes "ingest E acct ttl fo upl s = (Inl e, s')"
  shows "\<not> fromMulter e"
proof -
  have en: "\<And>f r z z'. enrich E acct upl f r z \<noteq> (Inl e, z')"
    using enrich_total by (metis Inl_Inr_False prod.inject)
  from assms show ?thesis
    by (auto simp: ingest_def Let_def andThen_Inl readFileSync_def unlinkSync_def newId_def
        return_def en
        split: if_splits dest: uploadFileToB2_not_multer saveFile_not_multer)
qed

lemma uploadHandler3_not_sizeRejected:
  "\<not> sizeRejected (fst (uploadHandler3 E acctField ttl fo fileField s))"
proof (cases "falsy acctField \<or> fileField = None \<or> bucketConfig E (the acctField) = None")
  case True
  then show ?thesis
    by (auto simp: uploadHandler3_def Let_def sizeRejected_def)
next
  case False
  then obtain b where b: "bucketConfig E (the acctField) = Some b" by auto
  obtain r s' where i: "ingest E (the acctField) ttl fo (the fileField) s = (r, s')"
    by (cases "ingest E (the acctField) ttl fo (the fileField) s")
  show ?thesis
  proof (cases r)
    case (Inl e)
    with i ingest_not_multer have "\<not> fromMulter e" by blast
    with False b i Inl show ?thesis
      by (simp add: uploadHandler3_def Let_def sizeRejected_def)
  next
    case (Inr doc)
    with False b i show ?thesis
      by (simp add: uploadHandler3_def Let_def sizeRejected_def)
  qed
qed

lemma respond_sizeRejected:
  "sizeRejected (fst (respond (r, s))) \<longleftrightarrow>
     (\<exists>e. r = Inl e \<and> fromMulter e) \<or> (\<exists>res. r = Inr res \<and> sizeRejected res)"
  by (cases r) (auto simp: respond_def sizeRejected_def)

lemma uploadHandler2_not_sizeRejected:
  "\<not> sizeRejected (fst (uploadHandler2 E acctField ttl fileField s))"
proof (cases "falsy acctField \<or> falsy ttl \<or> fileField = None \<or> bucketConfig E (the acctField) = None")
  case True
  then show ?thesis
    by (auto simp: uploadHandler2_def Let_def sizeRejected_def)
next
  case False
  then obtain b where b: "bucketConfig E (the acctField) = Some b" by auto
  from False obtain given where g: "fileField = Some given" by auto
  let ?run = "andThen (getAuthToken E (the acctField)) (\<lambda>authData.
       andThen (fetch (get_upload_url E) (uploadUrlRequest authData b)
                  (\<lambda>_. ''Failed to get upload URL from B2'')) (\<lambda>uploadUrlData.
       andThen (fetch (upload_file E)
                  (uploadRequest uploadUrlData
                     (''files/'' @ fullFilename2 (the ttl) (now s) (originalname (the fileField)))
                     (if mimetype (the fileField) = [] then ''application/octet-stream''
                      else mimetype (the fileField)))
                  (\<lambda>_. ''Failed to upload file to B2'')) (\<lambda>uploadedId s3.
         (Inr (Reply 200 (Uploaded (''/files/'' @ the acctField @ ''/'' @
                 fullFilename2 (the ttl) (now s) (originalname (the fileField))) (the ttl)
                 (fullFilename2 (the ttl) (now s) (originalname (the fileField))) uploadedId)),
          s3\<lparr>fileListCache := (fileListCache s3)(filesKey (the acctField) := None),
               bucketInfoCache := (bucketInfoCache s3)(bucketInfoKey (the acctField) := None)\<rparr>))))"
  from False b g have u: "uploadHandler2 E acctField ttl fileField s = respond (?run s)"
    by (simp add: uploadHandler2_def Let_def)
  obtain r s' where r: "?run s = (r, s')" by (cases "?run s")
  have "\<not> sizeRejected (fst (respond (r, s')))"
  proof (cases r)
    case (Inl e)
    with r have "\<not> fromMulter e"
      by (auto simp: andThen_Inl dest: fetch_not_multer getAuthToken_not_multer)
    with Inl show ?thesis by (simp add: respond_sizeRejected)
  next
    case (Inr res)
    with r have "\<exists>x y z w. res = Reply 200 (Uploaded x y z w)"
      by (auto simp: andThen_Inr)
    with Inr show ?thesis by (auto simp: respond_def sizeRejected_def)
  qed
  with u r show ?thesis by simp
qed

lemma uploadRoute2_sizeRejected:
  "sizeRejected (fst (uploadRoute2 E acctField ttl (Some upl) s)) \<longleftrightarrow>
     cutsOff E fileSizeLimit (fileSize upl)"
  using uploadHandler2_not_sizeRejected [of E acctField ttl "Some upl" s]
  by (simp add: uploadRoute2_def uploadSingle_def sizeRejected_def)

lemma uploadRoute3_sizeRejected:
  "sizeRejected (fst (uploadRoute3 E acctField ttl fo (Some upl) s)) \<longleftrightarrow>
     cutsOff E fileSizeLimit (fileSize upl)"
  using uploadHandler3_not_sizeRejected [of E acctField ttl fo "Some upl" "staged (Some upl) s"]
  by (simp add: uploadRoute3_def uploadSingle_def sizeRejected_def)

text \<open>
  C10, as stated, at an upload of exactly 1000 * 1024 * 1024 = 1048576000 bytes, which is at
  the limit and not above it, with the parser of the deployment, which cuts a file off when
  it has read \<open>limits.fileSize\<close> bytes of it: the route answers with the middleware's error
  \<open>LIMIT_FILE_SIZE\<close>, on both servers.
\<close>

theorem upload_at_limit_counterexample:
  "fileSize (demoUpload\<lparr>fileSize := 1048576000\<rparr>) \<le> fileSizeLimit \<and>
   cutsOff demoStore fileSizeLimit (fileSize (demoUpload\<lparr>fileSize := 1048576000\<rparr>)) \<and>
   uploadRoute2 demoStore (Some ''account1'') (Some ''Demo Video'')
      (Some (demoUpload\<lparr>fileSize := 1048576000\<rparr>)) demoServer2 =
     (Reply 500 (Failure (MulterError ''LIMIT_FILE_SIZE'')), demoServer2) \<and>
   uploadRoute3 demoStore (Some ''account1'') (Some ''Demo Video'') None
      (Some (demoUpload\<lparr>fileSize := 1048576000\<rparr>)) demoServer3 =
     (Reply 500 (Failure (MulterError ''LIMIT_FILE_SIZE'')), demoServer3) \<and>
   sizeRejected (Reply 500 (Failure (MulterError ''LIMIT_FILE_SIZE'')))"
  by (simp add: uploadRoute2_def uploadRoute3_def uploadSingle_def fileSizeLimit_def
      sizeRejected_def demoStore_def demoEnv_def)

text \<open>
  C10, amended. The limit the repository sets is 1000 * 1024 * 1024 = 1048576000 bytes, and
  on both servers the middleware stands before the handler. A request is answered with the
  middleware's error exactly when the parser cuts the file off, and then the state is what
  it was: the handler did not run, so nothing was sent to the object store and nothing was
  written to the metadata index. When the parser does not cut the file off, the route is the
  handler, run on the file, and no answer of the handler is the middleware's error. So with
  a parser that cuts off every file above the limit it is given, every upload above
  1048576000 bytes is rejected before any remote transfer or metadata write; and with a
  parser that cuts off no file below that limit, no upload below 1048576000 bytes is
  rejected for size. What happens to a file of exactly 1048576000 bytes is the parser's
  choice.
\<close>

theorem size_limit_of_upload_routes:
  "fileSizeLimit = 1048576000 \<and>
   (sizeRejected (fst (uploadRoute2 E acctField ttl (Some upl) s2)) \<longleftrightarrow>
      cutsOff E fileSizeLimit (fileSize upl)) \<and>
   (sizeRejected (fst (uploadRoute3 E acctField ttl fo (Some upl) s3)) \<longleftrightarrow>
      cutsOff E fileSizeLimit (fileSize upl)) \<and>
   (cutsOff E fileSizeLimit (fileSize upl) \<longrightarrow>
      uploadRoute2 E acctField ttl (Some upl) s2 =
        (Reply 500 (Failure (MulterError ''LIMIT_FILE_SIZE'')), s2) \<and>
      uploadRoute3 E acctField ttl fo (Some upl) s3 =
        (Reply 500 (Failure (MulterError ''LIMIT_FILE_SIZE'')), s3)) \<and>
   (\<not> cutsOff E fileSizeLimit (fileSize upl) \<longrightarrow>
      uploadRoute2 E acctField ttl (Some upl) s2 = uploadHandler2 E acctField ttl (Some upl) s2 \<and>
      uploadRoute3 E acctField ttl fo (Some upl) s3 =
        uploadHandler3 E acctField ttl fo (Some upl) (staged (Some upl) s3)) \<and>
   ((\<forall>limit n. limit < n \<longrightarrow> cutsOff E limit n) \<and> 1048576000 < fileSize upl \<longrightarrow>
      uploadRoute2 E acctField ttl (Some upl) s2 =
        (Reply 500 (Failure (MulterError ''LIMIT_FILE_SIZE'')), s2) \<and>
      uploadRoute3 E acctField ttl fo (Some upl) s3 =
        (Reply 500 (Failure (MulterError ''LIMIT_FILE_SIZE'')), s3)) \<and>
   ((\<forall>limit n. n < limit \<longrightarrow> \<not> cutsOff E limit n) \<and> fileSize upl < 1048576000 \<longrightarrow>
      \<not> sizeRejected (fst (uploadRoute2 E acctField ttl (Some upl) s2)) \<and>
      \<not> sizeRejected (fst (uploadRoute3 E acctField ttl fo (Some upl) s3)))"
proof -
  have l: "fileSizeLimit = 1048576000" by (simp add: fileSizeLimit_def)
  note r2 = uploadRoute2_sizeRejected [of E acctField ttl upl s2]
  note r3 = uploadRoute3_sizeRejected [of E acctField ttl fo upl s3]
  have c: "cutsOff E fileSizeLimit (fileSize upl) \<longrightarrow>
      uploadRoute2 E acctField ttl (Some upl) s2 =
        (Reply 500 (Failure (MulterError ''LIMIT_FILE_SIZE'')), s2) \<and>
      uploadRoute3 E acctField ttl fo (Some upl) s3 =
        (Reply 500 (Failure (MulterError ''LIMIT_FILE_SIZE'')), s3)"
    by (simp add: uploadRoute2_def uploadRoute3_def uploadSingle_def)
  have p: "\<not> cutsOff E fileSizeLimit (fileSize upl) \<longrightarrow>
      uploadRoute2 E acctField ttl (Some upl) s2 = uploadHandler2 E acctField ttl (Some upl) s2 \<and>
      uploadRoute3 E acctField ttl fo (Some upl) s3 =
        uploadHandler3 E acctField ttl fo (Some upl) (staged (Some upl) s3)"
    by (simp add: uploadRoute2_def uploadRoute3_def uploadSingle_def)
  have a: "(\<forall>limit n. limit < n \<longrightarrow> cutsOff E limit n) \<and> 1048576000 < fileSize upl \<longrightarrow>
      uploadRoute2 E acctField ttl (Some upl) s2 =
        (Reply 500 (Failure (MulterError ''LIMIT_FILE_SIZE'')), s2) \<and>
      uploadRoute3 E acctField ttl fo (Some upl) s3 =
        (Reply 500 (Failure (MulterError ''LIMIT_FILE_SIZE'')), s3)"
    using c l by simp
  have b: "(\<forall>limit n. n < limit \<longrightarrow> \<not> cutsOff E limit n) \<and> fileSize upl < 1048576000 \<longrightarrow>
      \<not> sizeRejected (fst (uploadRoute2 E acctField ttl (Some upl) s2)) \<and>
      \<not> sizeRejected (fst (uploadRoute3 E acctField ttl fo (Some upl) s3))"
    using r2 r3 l by simp
  from l r2 r3 c p a b show ?thesis by (intro conjI)
qed

theorem size_limit_of_upload_routes_witness:
  "uploadRoute2 demoStore (Some ''account1'') (Some ''Demo Video'')
      (Some (demoUpload\<lparr>fileSize := 1048576001\<rparr>)) demoServer2 =
     (Reply 500 (Failure (MulterError ''LIMIT_FILE_SIZE'')), demoServer2) \<and>
   uploadRoute3 demoStore (Some ''account1'') (Some ''Demo Video'') None
      (Some (demoUpload\<lparr>fileSize := 1048576001\<rparr>)) demoServer3 =
     (Reply 500 (Failure (MulterError ''LIMIT_FILE_SIZE'')), demoServer3) \<and>
   uploadRoute2 demoStore (Some ''account1'') (Some ''Demo Video'') (Some demoUpload) demoServer2 =
     uploadHandler2 demoStore (Some ''account1'') (Some ''Demo Video'') (Some demoUpload)
       demoServer2 \<and>
   \<not> sizeRejected (fst (uploadRoute2 demoStore (Some ''account1'') (Some ''Demo Video'')
      (Some demoUpload) demoServer2)) \<and>
   \<not> sizeRejected (fst (uploadRoute3 demoStore (Some ''account1'') (Some ''Demo Video'') None
      (Some demoUpload) demoServer3))"
proof -
  have k: "\<forall>limit n. limit < n \<longrightarrow> cutsOff demoStore limit n"
    "\<forall>limit n. n < limit \<longrightarrow> \<not> cutsOff demoStore limit n"
    by (simp_all add: demoStore_def demoEnv_def)
  have z: "(1048576000::nat) < fileSize (demoUpload\<lparr>fileSize := 1048576001\<rparr>)"
    "fileSize demoUpload < 1048576000"
    "\<not> cutsOff demoStore fileSizeLimit (fileSize demoUpload)"
    by (simp_all add: demoUpload_def demoStore_def demoEnv_def fileSizeLimit_def)
  from size_limit_of_upload_routes [where E = demoStore
      and acctField = "Some ''account1''" and ttl = "Some ''Demo Video''" and fo = None
      and upl = "demoUpload\<lparr>fileSize := 1048576001\<rparr>" and ?s2.0 = demoServer2
      and ?s3.0 = demoServer3] k(1) z(1)
  have 1: "uploadRoute2 demoStore (Some ''account1'') (Some ''Demo Video'')
      (Some (demoUpload\<lparr>fileSize := 1048576001\<rparr>)) demoServer2 =
     (Reply 500 (Failure (MulterError ''LIMIT_FILE_SIZE'')), demoServer2)"
    and 2: "uploadRoute3 demoStore (Some ''account1'') (Some ''Demo Video'') None
      (Some (demoUpload\<lparr>fileSize := 1048576001\<rparr>)) demoServer3 =
     (Reply 500 (Failure (MulterError ''LIMIT_FILE_SIZE'')), demoServer3)"
    by blast+
  from size_limit_of_upload_routes [where E = demoStore
      and acctField = "Some ''account1''" and ttl = "Some ''Demo Video''" and fo = None
      and upl = demoUpload and ?s2.0 = demoServer2 and ?s3.0 = demoServer3] k(2) z(2) z(3)
  have 3: "uploadRoute2 demoStore (Some ''account1'') (Some ''Demo Video'') (Some demoUpload)
      demoServer2 =
     uploadHandler2 demoStore (Some ''account1'') (Some ''Demo Video'') (Some demoUpload)
       demoServer2"
    and 4: "\<not> sizeRejected (fst (uploadRoute2 demoStore (Some ''account1'') (Some ''Demo Video'')
      (Some demoUpload) demoServer2))"
    and 5: "\<not> sizeRejected (fst (uploadRoute3 demoStore (Some ''account1'') (Some ''Demo Video'') None
      (Some demoUpload) demoServer3))"
    by blast+
  from 1 2 3 4 5 show ?thesis by (intro conjI)
qed

section \<open>Rejected remote calls (C1)\<close>

lemma rejected_call_index:
  "getAuthToken E acct s = (Inr a, s1) \<and> bucketConfig E acct = Some b \<and> \<not> ok status \<longrightarrow>
   authTokenCache s1 acct = Some a \<and>
   (cachedListing s acct = None \<and>
    list_file_names E (trace s1 @ [listRequest a b]) = Replied status lbody \<longrightarrow>
      listFiles E acct s = ([], s1\<lparr>trace := trace s1 @ [listRequest a b]\<rparr>)) \<and>
   (acct \<noteq> [] \<and> ttl \<noteq> [] \<and>
    get_upload_url E (trace s1 @ [uploadUrlRequest a b]) = Replied status ubody \<longrightarrow>
      uploadHandler2 E (Some acct) (Some ttl) (Some upl) s =
        (Reply 500 (Failure (Error ''Failed to get upload URL from B2'')),
         s1\<lparr>trace := trace s1 @ [uploadUrlRequest a b]\<rparr>)) \<and>
   (acct \<noteq> [] \<and> ttl \<noteq> [] \<and>
    get_upload_url E (trace s1 @ [uploadUrlRequest a b]) = Replied st1 (Some d) \<and> ok st1 \<and>
    key = ''files/'' @ fullFilename2 ttl (now s) (originalname upl) \<and>
    mime = (if mimetype upl = [] then ''application/octet-stream'' else mimetype upl) \<and>
    upload_file E (trace s1 @ [uploadUrlRequest a b, uploadRequest d key mime]) =
      Replied status tbody \<longrightarrow>
      uploadHandler2 E (Some acct) (Some ttl) (Some upl) s =
        (Reply 500 (Failure (Error ''Failed to upload file to B2'')),
         s1\<lparr>trace := trace s1 @ [uploadUrlRequest a b, uploadRequest d key mime]\<rparr>)) \<and>
   (acct \<noteq> [] \<and> fid \<noteq> [] \<and> fname \<noteq> [] \<and>
    delete_file_version E (trace s1 @ [deleteRequest a (Some fid) fname]) =
      Replied status dbody \<longrightarrow>
      deleteHandler2 E (Some acct) (Some fid) (Some fname) s =
        (Reply 500 (Failure (Error ''Failed to delete file from B2'')),
         s1\<lparr>trace := trace s1 @ [deleteRequest a (Some fid) fname]\<rparr>)) \<and>
   (acct \<noteq> [] \<and> fid \<noteq> [] \<and> old \<noteq> [] \<and> new \<noteq> [] \<and>
    copy_file E (trace s1 @ [copyRequest a fid (''files/'' @ newFileName old new) b]) =
      Replied status cbody \<longrightarrow>
      renameHandler E (Some acct) (Some fid) (Some old) (Some new) s =
        (Reply 500 (Failure (Error ''Failed to copy file with new name'')),
         s1\<lparr>trace := trace s1 @ [copyRequest a fid (''files/'' @ newFileName old new) b]\<rparr>)) \<and>
   (acct \<noteq> [] \<and> fid \<noteq> [] \<and> old \<noteq> [] \<and> new \<noteq> [] \<and>
    copy_file E (trace s1 @ [copyRequest a fid (''files/'' @ newFileName old new) b]) =
      Replied st1 (Some copiedId) \<and> ok st1 \<and>
    delete_file_version E
      (trace s1 @ [copyRequest a fid (''files/'' @ newFileName old new) b,
                   deleteRequest a (Some fid) (''files/'' @ old)]) = Replied status dbody \<longrightarrow>
      renameHandler E (Some acct) (Some fid) (Some old) (Some new) s =
        (Reply 500 (Failure (Error ''Failed to delete old file version'')),
         s1\<lparr>trace := trace s1 @ [copyRequest a fid (''files/'' @ newFileName old new) b,
                                  deleteRequest a (Some fid) (''files/'' @ old)]\<rparr>)) \<and>
   (get_download_authorization E
      (trace s1 @ [downloadAuthRequest a b (''files/'' @ filename)]) = Replied status abody \<longrightarrow>
      serveFile2 E acct filename s =
        (Reply 500 (Failure (Error ''Failed to get download authorization'')),
         s1\<lparr>trace := trace s1 @ [downloadAuthRequest a b (''files/'' @ filename)]\<rparr>))"
proof (intro impI, elim conjE)
  assume g: "getAuthToken E acct s = (Inr a, s1)" and c: "bucketConfig E acct = Some b"
    and n: "\<not> ok status"
  have 0: "authTokenCache s1 acct = Some a"
    by (rule getAuthToken_holds [OF g])
  have 1: "cachedListing s acct = None \<and>
    list_file_names E (trace s1 @ [listRequest a b]) = Replied status lbody \<longrightarrow>
      listFiles E acct s = ([], s1\<lparr>trace := trace s1 @ [listRequest a b]\<rparr>)"
    using listFiles_not_ok [OF _ g c _ n] by blast
  have 2: "acct \<noteq> [] \<and> ttl \<noteq> [] \<and>
    get_upload_url E (trace s1 @ [uploadUrlRequest a b]) = Replied status ubody \<longrightarrow>
      uploadHandler2 E (Some acct) (Some ttl) (Some upl) s =
        (Reply 500 (Failure (Error ''Failed to get upload URL from B2'')),
         s1\<lparr>trace := trace s1 @ [uploadUrlRequest a b]\<rparr>)"
    using upload_url_not_ok [OF _ _ c g _ n] by blast
  have 3: "acct \<noteq> [] \<and> ttl \<noteq> [] \<and>
    get_upload_url E (trace s1 @ [uploadUrlRequest a b]) = Replied st1 (Some d) \<and> ok st1 \<and>
    key = ''files/'' @ fullFilename2 ttl (now s) (originalname upl) \<and>
    mime = (if mimetype upl = [] then ''application/octet-stream'' else mimetype upl) \<and>
    upload_file E (trace s1 @ [uploadUrlRequest a b, uploadRequest d key mime]) =
      Replied status tbody \<longrightarrow>
      uploadHandler2 E (Some acct) (Some ttl) (Some upl) s =
        (Reply 500 (Failure (Error ''Failed to upload file to B2'')),
         s1\<lparr>trace := trace s1 @ [uploadUrlRequest a b, uploadRequest d key mime]\<rparr>)"
  proof (intro impI, elim conjE)
    assume "acct \<noteq> []" "ttl \<noteq> []"
      "get_upload_url E (trace s1 @ [uploadUrlRequest a b]) = Replied st1 (Some d)" "ok st1"
      "key = ''files/'' @ fullFilename2 ttl (now s) (originalname upl)"
      "mime = (if mimetype upl = [] then ''application/octet-stream'' else mimetype upl)"
      "upload_file E (trace s1 @ [uploadUrlRequest a b, uploadRequest d key mime]) =
         Replied status tbody"
    then show "uploadHandler2 E (Some acct) (Some ttl) (Some upl) s =
        (Reply 500 (Failure (Error ''Failed to upload file to B2'')),
         s1\<lparr>trace := trace s1 @ [uploadUrlRequest a b, uploadRequest d key mime]\<rparr>)"
      using c g n by (intro upload_transfer_not_ok)
  qed
  have 4: "acct \<noteq> [] \<and> fid \<noteq> [] \<and> fname \<noteq> [] \<and>
    delete_file_version E (trace s1 @ [deleteRequest a (Some fid) fname]) =
      Replied status dbody \<longrightarrow>
      deleteHandler2 E (Some acct) (Some fid) (Some fname) s =
        (Reply 500 (Failure (Error ''Failed to delete file from B2'')),
         s1\<lparr>trace := trace s1 @ [deleteRequest a (Some fid) fname]\<rparr>)"
    using delete_not_ok [OF _ _ _ c g _ n] by blast
  have 5: "acct \<noteq> [] \<and> fid \<noteq> [] \<and> old \<noteq> [] \<and> new \<noteq> [] \<and>
    copy_file E (trace s1 @ [copyRequest a fid (''files/'' @ newFileName old new) b]) =
      Replied status cbody \<longrightarrow>
      renameHandler E (Some acct) (Some fid) (Some old) (Some new) s =
        (Reply 500 (Failure (Error ''Failed to copy file with new name'')),
         s1\<lparr>trace := trace s1 @ [copyRequest a fid (''files/'' @ newFileName old new) b]\<rparr>)"
    using copy_not_ok [OF _ _ _ _ c g _ n] by blast
  have 6: "acct \<noteq> [] \<and> fid \<noteq> [] \<and> old \<noteq> [] \<and> new \<noteq> [] \<and>
    copy_file E (trace s1 @ [copyRequest a fid (''files/'' @ newFileName old new) b]) =
      Replied st1 (Some copiedId) \<and> ok st1 \<and>
    delete_file_version E
      (trace s1 @ [copyRequest a fid (''files/'' @ newFileName old new) b,
                   deleteRequest a (Some fid) (''files/'' @ old)]) = Replied status dbody \<longrightarrow>
      renameHandler E (Some acct) (Some fid) (Some old) (Some new) s =
        (Reply 500 (Failure (Error ''Failed to delete old file version'')),
         s1\<lparr>trace := trace s1 @ [copyRequest a fid (''files/'' @ newFileName old new) b,
                                  deleteRequest a (Some fid) (''files/'' @ old)]\<rparr>)"
    using rename_delete_not_ok [OF _ _ _ _ c g _ _ _ n] by blast
  have 7: "get_download_authorization E
      (trace s1 @ [downloadAuthRequest a b (''files/'' @ filename)]) = Replied status abody \<longrightarrow>
      serveFile2 E acct filename s =
        (Reply 500 (Failure (Error ''Failed to get download authorization'')),
         s1\<lparr>trace := trace s1 @ [downloadAuthRequest a b (''files/'' @ filename)]\<rparr>)"
    using download_auth_not_ok [OF c g _ n] by blast
  from 0 1 2 3 4 5 6 7 show "authTokenCache s1 acct = Some a \<and>
   (cachedListing s acct = None \<and>
    list_file_names E (trace s1 @ [listRequest a b]) = Replied status lbody \<longrightarrow>
      listFiles E acct s = ([], s1\<lparr>trace := trace s1 @ [listRequest a b]\<rparr>)) \<and>
   (acct \<noteq> [] \<and> ttl \<noteq> [] \<and>
    get_upload_url E (trace s1 @ [uploadUrlRequest a b]) = Replied status ubody \<longrightarrow>
      uploadHandler2 E (Some acct) (Some ttl) (Some upl) s =
        (Reply 500 (Failure (Error ''Failed to get upload URL from B2'')),
         s1\<lparr>trace := trace s1 @ [uploadUrlRequest a b]\<rparr>)) \<and>
   (acct \<noteq> [] \<and> ttl \<noteq> [] \<and>
    get_upload_url E (trace s1 @ [uploadUrlRequest a b]) = Replied st1 (Some d) \<and> ok st1 \<and>
    key = ''files/'' @ fullFilename2 ttl (now s) (originalname upl) \<and>
    mime = (if mimetype upl = [] then ''application/octet-stream'' else mimetype upl) \<and>
    upload_file E (trace s1 @ [uploadUrlRequest a b, uploadRequest d key mime]) =
      Replied status tbody \<longrightarrow>
      uploadHandler2 E (Some acct) (Some ttl) (Some upl) s =
        (Reply 500 (Failure (Error ''Failed to upload file to B2'')),
         s1\<lparr>trace := trace s1 @ [uploadUrlRequest a b, uploadRequest d key mime]\<rparr>)) \<and>
   (acct \<noteq> [] \<and> fid \<noteq> [] \<and> fname \<noteq> [] \<and>
    delete_file_version E (trace s1 @ [deleteRequest a (Some fid) fname]) =
      Replied status dbody \<longrightarrow>
      deleteHandler2 E (Some acct) (Some fid) (Some fname) s =
        (Reply 500 (Failure (Error ''Failed to delete file from B2'')),
         s1\<lparr>trace := trace s1 @ [deleteRequest a (Some fid) fname]\<rparr>)) \<and>
   (acct \<noteq> [] \<and> fid \<noteq> [] \<and> old \<noteq> [] \<and> new \<noteq> [] \<and>
    copy_file E (trace s1 @ [copyRequest a fid (''files/'' @ newFileName old new) b]) =
      Replied status cbody \<longrightarrow>
      renameHandler E (Some acct) (Some fid) (Some old) (Some new) s =
        (Reply 500 (Failure (Error ''Failed to copy file with new name'')),
         s1\<lparr>trace := trace s1 @ [copyRequest a fid (''files/'' @ newFileName old new) b]\<rparr>)) \<and>
   (acct \<noteq> [] \<and> fid \<noteq> [] \<and> old \<noteq> [] \<and> new \<noteq> [] \<and>
    copy_file E (trace s1 @ [copyRequest a fid (''files/'' @ newFileName old new) b]) =
      Replied st1 (Some copiedId) \<and> ok st1 \<and>
    delete_file_version E
      (trace s1 @ [copyRequest a fid (''files/'' @ newFileName old new) b,
                   deleteRequest a (Some fid) (''files/'' @ old)]) = Replied status dbody \<longrightarrow>
      renameHandler E (Some acct) (Some fid) (Some old) (Some new) s =
        (Reply 500 (Failure (Error ''Failed to delete old file version'')),
         s1\<lparr>trace := trace s1 @ [copyRequest a fid (''files/'' @ newFileName old new) b,
                                  deleteRequest a (Some fid) (''files/'' @ old)]\<rparr>)) \<and>
   (get_download_authorization E
      (trace s1 @ [downloadAuthRequest a b (''files/'' @ filename)]) = Replied status abody \<longrightarrow>
      serveFile2 E acct filename s =
        (Reply 500 (Failure (Error ''Failed to get download authorization'')),
         s1\<lparr>trace := trace s1 @ [downloadAuthRequest a b (''files/'' @ filename)]\<rparr>))"
    by (intro conjI)
qed


lemma listFilesWith_not_ok:
  assumes "cachedListing s acct = None" and "getAuthToken E acct s = (Inr a, s1)"
    and "bucketConfig E acct = Some b"
    and "list_file_names E (trace s1 @ [listRequest a b]) = Replied status body"
    and "\<not> ok status"
  shows "listFilesWith glue E acct s = ([], s1\<lparr>trace := trace s1 @ [listRequest a b]\<rparr>)"
  using assms
  by (simp add: listFilesWith_def listFilesRemote_unfold fetch_def Let_def)

lemma getAuthToken_disk:
  "getAuthToken E acct (s\<lparr>disk := space\<rparr>) =
     (case getAuthToken E acct s of (r, s') \<Rightarrow> (r, s'\<lparr>disk := space\<rparr>))"
  by (simp add: getAuthToken_def andThen_def fetch_def Let_def
      split: option.splits fetched.splits)

lemma upload3_url_not_ok:
  assumes "acct \<noteq> []" and "bucketConfig E acct = Some b" and "tempPath upl \<in> disk t"
    and "getAuthToken E acct t = (Inr a, t1)"
    and "get_upload_url E (trace t1 @ [uploadUrlRequest a b]) = Replied status ubody"
    and "\<not> ok status"
  shows "uploadHandler3 E (Some acct) titleField fo (Some upl) t =
     (Reply 500 (Failure (Error ''Failed to get upload URL from B2'')),
      t1\<lparr>trace := trace t1 @ [uploadUrlRequest a b], disk := disk t1 - {tempPath upl}\<rparr>)"
  using assms
  by (simp add: uploadHandler3_def falsy_def ingest_def Let_def andThen_def readFileSync_def
      uploadFileToB2_def fetch_def)

lemma upload3_transfer_not_ok:
  assumes "acct \<noteq> []" and "bucketConfig E acct = Some b" and "tempPath upl \<in> disk t"
    and "getAuthToken E acct t = (Inr a, t1)"
    and "get_upload_url E (trace t1 @ [uploadUrlRequest a b]) = Replied st1 (Some d)"
    and "ok st1"
    and "upload_file E (trace t1 @ [uploadUrlRequest a b,
           uploadRequest d (b2FileName3 titleField (now t) (originalname upl)) (uploadMime upl)]) =
           Replied status tbody"
    and "\<not> ok status"
  shows "uploadHandler3 E (Some acct) titleField fo (Some upl) t =
     (Reply 500 (Failure (Error ''Failed to upload file to B2'')),
      t1\<lparr>trace := trace t1 @ [uploadUrlRequest a b,
           uploadRequest d (b2FileName3 titleField (now t) (originalname upl)) (uploadMime upl)],
         disk := disk t1 - {tempPath upl}\<rparr>)"
  using assms
  by (simp add: uploadHandler3_def falsy_def ingest_def Let_def andThen_def readFileSync_def
      uploadFileToB2_def fetch_def b2FileName3_def fullFilename3_def uploadMime_def)

lemma thumbnail_url_not_ok:
  assumes "screenshots E filePath" and "bucketConfig E acct = Some b"
    and "getAuthToken E acct t = (Inr a, t1)"
    and "get_upload_url E (trace t1 @ [uploadUrlRequest a b]) = Replied status ubody"
    and "\<not> ok status"
  shows "generateVideoThumbnail E filePath acct outputFileName t =
     (Inr None,
      t1\<lparr>trace := trace t1 @ [uploadUrlRequest a b],
         disk := insert (thumbnailPath filePath) (disk t)\<rparr>)"
  using assms
  by (simp add: generateVideoThumbnail_def andThen_def readFileSync_def uploadFileToB2_def
      getAuthToken_disk fetch_def Let_def)

lemma thumbnail_transfer_not_ok:
  assumes "screenshots E filePath" and "bucketConfig E acct = Some b"
    and "getAuthToken E acct t = (Inr a, t1)"
    and "get_upload_url E (trace t1 @ [uploadUrlRequest a b]) = Replied st1 (Some d)"
    and "ok st1"
    and "upload_file E (trace t1 @ [uploadUrlRequest a b,
           uploadRequest d (''thumbnails/'' @ outputFileName) ''image/jpeg'']) =
           Replied status tbody"
    and "\<not> ok status"
  shows "generateVideoThumbnail E filePath acct outputFileName t =
     (Inr None,
      t1\<lparr>trace := trace t1 @ [uploadUrlRequest a b,
           uploadRequest d (''thumbnails/'' @ outputFileName) ''image/jpeg''],
         disk := insert (thumbnailPath filePath) (disk t)\<rparr>)"
  using assms
  by (simp add: generateVideoThumbnail_def andThen_def readFileSync_def uploadFileToB2_def
      getAuthToken_disk fetch_def Let_def)

lemma serve3_not_ok:
  assumes "bucketConfig E acct = Some b"
    and "getAuthToken E acct t = (Inr a, t1)"
    and "get_download_authorization E
           (trace t1 @ [downloadAuthRequest a b (pre @ filename)]) = Replied status abody"
    and "\<not> ok status"
  shows "serveFile3 E pre acct filename t =
     (Reply 500 (Failure (Error ''Failed to get download authorization'')),
      t1\<lparr>trace := trace t1 @ [downloadAuthRequest a b (pre @ filename)]\<rparr>)"
  using assms
  by (simp add: serveFile3_def getDownloadUrl_def respond_def andThen_def fetch_def Let_def)

lemma delete3_not_ok:
  assumes "files u i = Some f" and "\<not> dbFault E (trace u @ [File_findById i])"
    and "getAuthToken E (account f) (u\<lparr>trace := trace u @ [File_findById i]\<rparr>) = (Inr a, u1)"
    and "delete_file_version E (trace u1 @ [deleteRequest a (Some (fileId f)) (fullFileName f)]) =
           Replied status dbody"
    and "\<not> ok status"
    and "\<not> dbFault E (trace u1 @ [deleteRequest a (Some (fileId f)) (fullFileName f),
                                   File_deleteOne i])"
  shows "deleteHandler3 E (Some i) u =
     (Reply 200 (Message ''File deleted successfully''),
      u1\<lparr>trace := trace u1 @ [deleteRequest a (Some (fileId f)) (fullFileName f),
                               File_deleteOne i],
         files := (files u1)(i := None)\<rparr>)"
  using assms
  by (simp add: deleteHandler3_def deleteRemote_def deleteFileFromB2_def respond_def andThen_def
      dbCall_def fetch_def Let_def)

text \<open>
  C1, as stated, on a listing for \<open>account1\<close> whose cached token the store rejects with 401
  and whose second attempt the store would accept: \<open>listFiles\<close> returns the empty list after
  one listing request, asks for no new token, and the rejected token stays in the cache.
\<close>

theorem rejected_listing_counterexample:
  "listFiles demoExpired ''account1'' demoServer2 =
     ([], demoServer2\<lparr>trace := [listRequest demoAuth demoBucket]\<rparr>) \<and>
   authTokenCache (snd (listFiles demoExpired ''account1'' demoServer2)) ''account1'' =
     Some demoAuth \<and>
   list_file_names demoExpired
     [listRequest demoAuth demoBucket, authRequest demoExpired ''account1'',
      listRequest demoAuth demoBucket] = Replied 200 (Some demoListing)"
proof -
  have "listFiles demoExpired ''account1'' demoServer2 =
     ([], demoServer2\<lparr>trace := [listRequest demoAuth demoBucket]\<rparr>)"
    by (simp add: listFiles_miss listFilesRemote_unfold fetch_def Let_def ok_def
        demoExpired_def demoStore_def demoEnv_def)
      (simp add: demoServer2_def)
  then show ?thesis
    by (simp add: demoExpired_def demoStore_def demoServer2_def)
qed

text \<open>
  C1, amended. No remote call is retried and the token cache is never invalidated. When
  the object store answers a call with a status outside 200-299, an authorization rejection
  included, the log grows by the requests made so far and by no repeated request and no
  request for a new token, and the cached AuthContext of the account is the one the call
  used.

  On the gateway without a metadata index (\<open>src/index.js\<close>; \<open>src/unnamed/part_000\<close> has the
  same text and no rename), for a listing, an upload-URL issuance, an upload transfer, a
  delete, a copy, the delete of a rename and a download authorization, the operation stops
  there and the failure is surfaced at once: \<open>listFiles\<close> returns the empty list, a handler
  answers 500 with the message of the failed call.

  On the gateway with the metadata index (\<open>src/models/File.js\<close>) the upload of the file and a
  download authorization are surfaced in the same way. A rejected call of the thumbnail
  upload is swallowed: \<open>generateVideoThumbnail\<close> resolves with \<open>null\<close>. A rejected remote
  delete is swallowed too: \<open>POST /api/files/delete\<close> goes on to delete the record and answers
  200.
\<close>

theorem rejected_call_is_not_retried:
  "bucketConfig E acct = Some b \<and> \<not> ok status \<longrightarrow>
   (getAuthToken E acct s = (Inr a, s1) \<longrightarrow>
      authTokenCache s1 acct = Some a \<and>
      (cachedListing s acct = None \<and>
       list_file_names E (trace s1 @ [listRequest a b]) = Replied status lbody \<longrightarrow>
         listFiles E acct s = ([], s1\<lparr>trace := trace s1 @ [listRequest a b]\<rparr>)) \<and>
      (acct \<noteq> [] \<and> ttl \<noteq> [] \<and>
       get_upload_url E (trace s1 @ [uploadUrlRequest a b]) = Replied status ubody \<longrightarrow>
         uploadHandler2 E (Some acct) (Some ttl) (Some upl) s =
           (Reply 500 (Failure (Error ''Failed to get upload URL from B2'')),
            s1\<lparr>trace := trace s1 @ [uploadUrlRequest a b]\<rparr>)) \<and>
      (acct \<noteq> [] \<and> ttl \<noteq> [] \<and>
       get_upload_url E (trace s1 @ [uploadUrlRequest a b]) = Replied st1 (Some d) \<and> ok st1 \<and>
       key = ''files/'' @ fullFilename2 ttl (now s) (originalname upl) \<and>
       mime = (if mimetype upl = [] then ''application/octet-stream'' else mimetype upl) \<and>
       upload_file E (trace s1 @ [uploadUrlRequest a b, uploadRequest d key mime]) =
         Replied status tbody \<longrightarrow>
         uploadHandler2 E (Some acct) (Some ttl) (Some upl) s =
           (Reply 500 (Failure (Error ''Failed to upload file to B2'')),
            s1\<lparr>trace := trace s1 @ [uploadUrlRequest a b, uploadRequest d key mime]\<rparr>)) \<and>
      (acct \<noteq> [] \<and> fid \<noteq> [] \<and> fname \<noteq> [] \<and>
       delete_file_version E (trace s1 @ [deleteRequest a (Some fid) fname]) =
         Replied status dbody \<longrightarrow>
         deleteHandler2 E (Some acct) (Some fid) (Some fname) s =
           (Reply 500 (Failure (Error ''Failed to delete file from B2'')),
            s1\<lparr>trace := trace s1 @ [deleteRequest a (Some fid) fname]\<rparr>)) \<and>
      (acct \<noteq> [] \<and> fid \<noteq> [] \<and> old \<noteq> [] \<and> new \<noteq> [] \<and>
       copy_file E (trace s1 @ [copyRequest a fid (''files/'' @ newFileName old new) b]) =
         Replied status cbody \<longrightarrow>
         renameHandler E (Some acct) (Some fid) (Some old) (Some new) s =
           (Reply 500 (Failure (Error ''Failed to copy file with new name'')),
            s1\<lparr>trace := trace s1 @ [copyRequest a fid (''files/'' @ newFileName old new) b]\<rparr>)) \<and>
      (acct \<noteq> [] \<and> fid \<noteq> [] \<and> old \<noteq> [] \<and> new \<noteq> [] \<and>
       copy_file E (trace s1 @ [copyRequest a fid (''files/'' @ newFileName old new) b]) =
         Replied st1 (Some copiedId) \<and> ok st1 \<and>
       delete_file_version E
         (trace s1 @ [copyRequest a fid (''files/'' @ newFileName old new) b,
                      deleteRequest a (Some fid) (''files/'' @ old)]) = Replied status dbody \<longrightarrow>
         renameHandler E (Some acct) (Some fid) (Some old) (Some new) s =
           (Reply 500 (Failure (Error ''Failed to delete old file version'')),
            s1\<lparr>trace := trace s1 @ [copyRequest a fid (''files/'' @ newFileName old new) b,
                                     deleteRequest a (Some fid) (''files/'' @ old)]\<rparr>)) \<and>
      (get_download_authorization E
         (trace s1 @ [downloadAuthRequest a b (''files/'' @ filename)]) = Replied status abody \<longrightarrow>
         serveFile2 E acct filename s =
           (Reply 500 (Failure (Error ''Failed to get download authorization'')),
            s1\<lparr>trace := trace s1 @ [downloadAuthRequest a b (''files/'' @ filename)]\<rparr>)) \<and>
      (cachedListing s acct = None \<and>
       list_file_names E (trace s1 @ [listRequest a b]) = Replied status lbody \<longrightarrow>
         listFilesWith ''_'' E acct s = ([], s1\<lparr>trace := trace s1 @ [listRequest a b]\<rparr>))) \<and>
   (getAuthToken E acct t = (Inr a, t1) \<longrightarrow>
      authTokenCache t1 acct = Some a \<and>
      (acct \<noteq> [] \<and> tempPath upl \<in> disk t \<and>
       get_upload_url E (trace t1 @ [uploadUrlRequest a b]) = Replied status ubody \<longrightarrow>
         uploadHandler3 E (Some acct) titleField fo (Some upl) t =
           (Reply 500 (Failure (Error ''Failed to get upload URL from B2'')),
            t1\<lparr>trace := trace t1 @ [uploadUrlRequest a b],
               disk := disk t1 - {tempPath upl}\<rparr>)) \<and>
      (acct \<noteq> [] \<and> tempPath upl \<in> disk t \<and>
       get_upload_url E (trace t1 @ [uploadUrlRequest a b]) = Replied st1 (Some d) \<and> ok st1 \<and>
       upload_file E (trace t1 @ [uploadUrlRequest a b,
         uploadRequest d (b2FileName3 titleField (now t) (originalname upl)) (uploadMime upl)]) =
         Replied status tbody \<longrightarrow>
         uploadHandler3 E (Some acct) titleField fo (Some upl) t =
           (Reply 500 (Failure (Error ''Failed to upload file to B2'')),
            t1\<lparr>trace := trace t1 @ [uploadUrlRequest a b,
                 uploadRequest d (b2FileName3 titleField (now t) (originalname upl))
                   (uploadMime upl)],
               disk := disk t1 - {tempPath upl}\<rparr>)) \<and>
      (screenshots E filePath \<and>
       get_upload_url E (trace t1 @ [uploadUrlRequest a b]) = Replied status ubody \<longrightarrow>
         generateVideoThumbnail E filePath acct outputFileName t =
           (Inr None,
            t1\<lparr>trace := trace t1 @ [uploadUrlRequest a b],
               disk := insert (thumbnailPath filePath) (disk t)\<rparr>)) \<and>
      (screenshots E filePath \<and>
       get_upload_url E (trace t1 @ [uploadUrlRequest a b]) = Replied st1 (Some d) \<and> ok st1 \<and>
       upload_file E (trace t1 @ [uploadUrlRequest a b,
         uploadRequest d (''thumbnails/'' @ outputFileName) ''image/jpeg'']) =
         Replied status tbody \<longrightarrow>
         generateVideoThumbnail E filePath acct outputFileName t =
           (Inr None,
            t1\<lparr>trace := trace t1 @ [uploadUrlRequest a b,
                 uploadRequest d (''thumbnails/'' @ outputFileName) ''image/jpeg''],
               disk := insert (thumbnailPath filePath) (disk t)\<rparr>)) \<and>
      (get_download_authorization E
         (trace t1 @ [downloadAuthRequest a b (pre @ filename)]) = Replied status abody \<longrightarrow>
         serveFile3 E pre acct filename t =
           (Reply 500 (Failure (Error ''Failed to get download authorization'')),
            t1\<lparr>trace := trace t1 @ [downloadAuthRequest a b (pre @ filename)]\<rparr>))) \<and>
   (files u i = Some f \<and> account f = acct \<and> \<not> dbFault E (trace u @ [File_findById i]) \<and>
    getAuthToken E acct (u\<lparr>trace := trace u @ [File_findById i]\<rparr>) = (Inr a, u1) \<and>
    delete_file_version E (trace u1 @ [deleteRequest a (Some (fileId f)) (fullFileName f)]) =
      Replied status dbody \<and>
    \<not> dbFault E (trace u1 @ [deleteRequest a (Some (fileId f)) (fullFileName f),
                              File_deleteOne i]) \<longrightarrow>
      authTokenCache u1 acct = Some a \<and>
      deleteHandler3 E (Some i) u =
        (Reply 200 (Message ''File deleted successfully''),
         u1\<lparr>trace := trace u1 @ [deleteRequest a (Some (fileId f)) (fullFileName f),
                                  File_deleteOne i],
            files := (files u1)(i := None)\<rparr>))"
proof (intro impI, elim conjE)
  assume c: "bucketConfig E acct = Some b" and n: "\<not> ok status"
  have 1: "getAuthToken E acct s = (Inr a, s1) \<longrightarrow>
      authTokenCache s1 acct = Some a \<and>
      (cachedListing s acct = None \<and>
       list_file_names E (trace s1 @ [listRequest a b]) = Replied status lbody \<longrightarrow>
         listFiles E acct s = ([], s1\<lparr>trace := trace s1 @ [listRequest a b]\<rparr>)) \<and>
      (acct \<noteq> [] \<and> ttl \<noteq> [] \<and>
       get_upload_url E (trace s1 @ [uploadUrlRequest a b]) = Replied status ubody \<longrightarrow>
         uploadHandler2 E (Some acct) (Some ttl) (Some upl) s =
           (Reply 500 (Failure (Error ''Failed to get upload URL from B2'')),
            s1\<lparr>trace := trace s1 @ [uploadUrlRequest a b]\<rparr>)) \<and>
      (acct \<noteq> [] \<and> ttl \<noteq> [] \<and>
       get_upload_url E (trace s1 @ [uploadUrlRequest a b]) = Replied st1 (Some d) \<and> ok st1 \<and>
       key = ''files/'' @ fullFilename2 ttl (now s) (originalname upl) \<and>
       mime = (if mimetype upl = [] then ''application/octet-stream'' else mimetype upl) \<and>
       upload_file E (trace s1 @ [uploadUrlRequest a b, uploadRequest d key mime]) =
         Replied status tbody \<longrightarrow>
         uploadHandler2 E (Some acct) (Some ttl) (Some upl) s =
           (Reply 500 (Failure (Error ''Failed to upload file to B2'')),
            s1\<lparr>trace := trace s1 @ [uploadUrlRequest a b, uploadRequest d key mime]\<rparr>)) \<and>
      (acct \<noteq> [] \<and> fid \<noteq> [] \<and> fname \<noteq> [] \<and>
       delete_file_version E (trace s1 @ [deleteRequest a (Some fid) fname]) =
         Replied status dbody \<longrightarrow>
         deleteHandler2 E (Some acct) (Some fid) (Some fname) s =
           (Reply 500 (Failure (Error ''Failed to delete file from B2'')),
            s1\<lparr>trace := trace s1 @ [deleteRequest a (Some fid) fname]\<rparr>)) \<and>
      (acct \<noteq> [] \<and> fid \<noteq> [] \<and> old \<noteq> [] \<and> new \<noteq> [] \<and>
       copy_file E (trace s1 @ [copyRequest a fid (''files/'' @ newFileName old new) b]) =
         Replied status cbody \<longrightarrow>
         renameHandler E (Some acct) (Some fid) (Some old) (Some new) s =
           (Reply 500 (Failure (Error ''Failed to copy file with new name'')),
            s1\<lparr>trace := trace s1 @ [copyRequest a fid (''files/'' @ newFileName old new) b]\<rparr>)) \<and>
      (acct \<noteq> [] \<and> fid \<noteq> [] \<and> old \<noteq> [] \<and> new \<noteq> [] \<and>
       copy_file E (trace s1 @ [copyRequest a fid (''files/'' @ newFileName old new) b]) =
         Replied st1 (Some copiedId) \<and> ok st1 \<and>
       delete_file_version E
         (trace s1 @ [copyRequest a fid (''files/'' @ newFileName old new) b,
                      deleteRequest a (Some fid) (''files/'' @ old)]) = Replied status dbody \<longrightarrow>
         renameHandler E (Some acct) (Some fid) (Some old) (Some new) s =
           (Reply 500 (Failure (Error ''Failed to delete old file version'')),
            s1\<lparr>trace := trace s1 @ [copyRequest a fid (''files/'' @ newFileName old new) b,
                                     deleteRequest a (Some fid) (''files/'' @ old)]\<rparr>)) \<and>
      (get_download_authorization E
         (trace s1 @ [downloadAuthRequest a b (''files/'' @ filename)]) = Replied status abody \<longrightarrow>
         serveFile2 E acct filename s =
           (Reply 500 (Failure (Error ''Failed to get download authorization'')),
            s1\<lparr>trace := trace s1 @ [downloadAuthRequest a b (''files/'' @ filename)]\<rparr>)) \<and>
      (cachedListing s acct = None \<and>
       list_file_names E (trace s1 @ [listRequest a b]) = Replied status lbody \<longrightarrow>
         listFilesWith ''_'' E acct s = ([], s1\<lparr>trace := trace s1 @ [listRequest a b]\<rparr>))"
  proof
    assume g: "getAuthToken E acct s = (Inr a, s1)"
    have p: "cachedListing s acct = None \<and>
       list_file_names E (trace s1 @ [listRequest a b]) = Replied status lbody \<longrightarrow>
         listFilesWith ''_'' E acct s = ([], s1\<lparr>trace := trace s1 @ [listRequest a b]\<rparr>)"
      using listFilesWith_not_ok [OF _ g c _ n] by blast
    from rejected_call_index [of E acct s a s1 b status lbody ttl ubody upl st1 d key mime tbody
        fid fname dbody old new cbody copiedId filename abody] g c n p
    show "
      authTokenCache s1 acct = Some a \<and>
      (cachedListing s acct = None \<and>
       list_file_names E (trace s1 @ [listRequest a b]) = Replied status lbody \<longrightarrow>
         listFiles E acct s = ([], s1\<lparr>trace := trace s1 @ [listRequest a b]\<rparr>)) \<and>
      (acct \<noteq> [] \<and> ttl \<noteq> [] \<and>
       get_upload_url E (trace s1 @ [uploadUrlRequest a b]) = Replied status ubody \<longrightarrow>
         uploadHandler2 E (Some acct) (Some ttl) (Some upl) s =
           (Reply 500 (Failure (Error ''Failed to get upload URL from B2'')),
            s1\<lparr>trace := trace s1 @ [uploadUrlRequest a b]\<rparr>)) \<and>
      (acct \<noteq> [] \<and> ttl \<noteq> [] \<and>
       get_upload_url E (trace s1 @ [uploadUrlRequest a b]) = Replied st1 (Some d) \<and> ok st1 \<and>
       key = ''files/'' @ fullFilename2 ttl (now s) (originalname upl) \<and>
       mime = (if mimetype upl = [] then ''application/octet-stream'' else mimetype upl) \<and>
       upload_file E (trace s1 @ [uploadUrlRequest a b, uploadRequest d key mime]) =
         Replied status tbody \<longrightarrow>
         uploadHandler2 E (Some acct) (Some ttl) (Some upl) s =
           (Reply 500 (Failure (Error ''Failed to upload file to B2'')),
            s1\<lparr>trace := trace s1 @ [uploadUrlRequest a b, uploadRequest d key mime]\<rparr>)) \<and>
      (acct \<noteq> [] \<and> fid \<noteq> [] \<and> fname \<noteq> [] \<and>
       delete_file_version E (trace s1 @ [deleteRequest a (Some fid) fname]) =
         Replied status dbody \<longrightarrow>
         deleteHandler2 E (Some acct) (Some fid) (Some fname) s =
           (Reply 500 (Failure (Error ''Failed to delete file from B2'')),
            s1\<lparr>trace := trace s1 @ [deleteRequest a (Some fid) fname]\<rparr>)) \<and>
      (acct \<noteq> [] \<and> fid \<noteq> [] \<and> old \<noteq> [] \<and> new \<noteq> [] \<and>
       copy_file E (trace s1 @ [copyRequest a fid (''files/'' @ newFileName old new) b]) =
         Replied status cbody \<longrightarrow>
         renameHandler E (Some acct) (Some fid) (Some old) (Some new) s =
           (Reply 500 (Failure (Error ''Failed to copy file with new name'')),
            s1\<lparr>trace := trace s1 @ [copyRequest a fid (''files/'' @ newFileName old new) b]\<rparr>)) \<and>
      (acct \<noteq> [] \<and> fid \<noteq> [] \<and> old \<noteq> [] \<and> new \<noteq> [] \<and>
       copy_file E (trace s1 @ [copyRequest a fid (''files/'' @ newFileName old new) b]) =
         Replied st1 (Some copiedId) \<and> ok st1 \<and>
       delete_file_version E
         (trace s1 @ [copyRequest a fid (''files/'' @ newFileName old new) b,
                      deleteRequest a (Some fid) (''files/'' @ old)]) = Replied status dbody \<longrightarrow>
         renameHandler E (Some acct) (Some fid) (Some old) (Some new) s =
           (Reply 500 (Failure (Error ''Failed to delete old file version'')),
            s1\<lparr>trace := trace s1 @ [copyRequest a fid (''files/'' @ newFileName old new) b,
                                     deleteRequest a (Some fid) (''files/'' @ old)]\<rparr>)) \<and>
      (get_download_authorization E
         (trace s1 @ [downloadAuthRequest a b (''files/'' @ filename)]) = Replied status abody \<longrightarrow>
         serveFile2 E acct filename s =
           (Reply 500 (Failure (Error ''Failed to get download authorization'')),
            s1\<lparr>trace := trace s1 @ [downloadAuthRequest a b (''files/'' @ filename)]\<rparr>)) \<and>
      (cachedListing s acct = None \<and>
       list_file_names E (trace s1 @ [listRequest a b]) = Replied status lbody \<longrightarrow>
         listFilesWith ''_'' E acct s = ([], s1\<lparr>trace := trace s1 @ [listRequest a b]\<rparr>))"
      by blast
  qed
  have 2: "getAuthToken E acct t = (Inr a, t1) \<longrightarrow>
      authTokenCache t1 acct = Some a \<and>
      (acct \<noteq> [] \<and> tempPath upl \<in> disk t \<and>
       get_upload_url E (trace t1 @ [uploadUrlRequest a b]) = Replied status ubody \<longrightarrow>
         uploadHandler3 E (Some acct) titleField fo (Some upl) t =
           (Reply 500 (Failure (Error ''Failed to get upload URL from B2'')),
            t1\<lparr>trace := trace t1 @ [uploadUrlRequest a b],
               disk := disk t1 - {tempPath upl}\<rparr>)) \<and>
      (acct \<noteq> [] \<and> tempPath upl \<in> disk t \<and>
       get_upload_url E (trace t1 @ [uploadUrlRequest a b]) = Replied st1 (Some d) \<and> ok st1 \<and>
       upload_file E (trace t1 @ [uploadUrlRequest a b,
         uploadRequest d (b2FileName3 titleField (now t) (originalname upl)) (uploadMime upl)]) =
         Replied status tbody \<longrightarrow>
         uploadHandler3 E (Some acct) titleField fo (Some upl) t =
           (Reply 500 (Failure (Error ''Failed to upload file to B2'')),
            t1\<lparr>trace := trace t1 @ [uploadUrlRequest a b,
                 uploadRequest d (b2FileName3 titleField (now t) (originalname upl))
                   (uploadMime upl)],
               disk := disk t1 - {tempPath upl}\<rparr>)) \<and>
      (screenshots E filePath \<and>
       get_upload_url E (trace t1 @ [uploadUrlRequest a b]) = Replied status ubody \<longrightarrow>
         generateVideoThumbnail E filePath acct outputFileName t =
           (Inr None,
            t1\<lparr>trace := trace t1 @ [uploadUrlRequest a b],
               disk := insert (thumbnailPath filePath) (disk t)\<rparr>)) \<and>
      (screenshots E filePath \<and>
       get_upload_url E (trace t1 @ [uploadUrlRequest a b]) = Replied st1 (Some d) \<and> ok st1 \<and>
       upload_file E (trace t1 @ [uploadUrlRequest a b,
         uploadRequest d (''thumbnails/'' @ outputFileName) ''image/jpeg'']) =
         Replied status tbody \<longrightarrow>
         generateVideoThumbnail E filePath acct outputFileName t =
           (Inr None,
            t1\<lparr>trace := trace t1 @ [uploadUrlRequest a b,
                 uploadRequest d (''thumbnails/'' @ outputFileName) ''image/jpeg''],
               disk := insert (thumbnailPath filePath) (disk t)\<rparr>)) \<and>
      (get_download_authorization E
         (trace t1 @ [downloadAuthRequest a b (pre @ filename)]) = Replied status abody \<longrightarrow>
         serveFile3 E pre acct filename t =
           (Reply 500 (Failure (Error ''Failed to get download authorization'')),
            t1\<lparr>trace := trace t1 @ [downloadAuthRequest a b (pre @ filename)]\<rparr>))"
  proof
    assume g: "getAuthToken E acct t = (Inr a, t1)"
    have f0: "authTokenCache t1 acct = Some a"
      by (rule getAuthToken_holds [OF g])
    have f1: "acct \<noteq> [] \<and> tempPath upl \<in> disk t \<and>
       get_upload_url E (trace t1 @ [uploadUrlRequest a b]) = Replied status ubody \<longrightarrow>
         uploadHandler3 E (Some acct) titleField fo (Some upl) t =
           (Reply 500 (Failure (Error ''Failed to get upload URL from B2'')),
            t1\<lparr>trace := trace t1 @ [uploadUrlRequest a b],
               disk := disk t1 - {tempPath upl}\<rparr>)"
      using upload3_url_not_ok [OF _ c _ g _ n] by blast
    have f2: "acct \<noteq> [] \<and> tempPath upl \<in> disk t \<and>
       get_upload_url E (trace t1 @ [uploadUrlRequest a b]) = Replied st1 (Some d) \<and> ok st1 \<and>
       upload_file E (trace t1 @ [uploadUrlRequest a b,
         uploadRequest d (b2FileName3 titleField (now t) (originalname upl)) (uploadMime upl)]) =
         Replied status tbody \<longrightarrow>
         uploadHandler3 E (Some acct) titleField fo (Some upl) t =
           (Reply 500 (Failure (Error ''Failed to upload file to B2'')),
            t1\<lparr>trace := trace t1 @ [uploadUrlRequest a b,
                 uploadRequest d (b2FileName3 titleField (now t) (originalname upl))
                   (uploadMime upl)],
               disk := disk t1 - {tempPath upl}\<rparr>)"
      using upload3_transfer_not_ok [OF _ c _ g _ _ _ n] by blast
    have f3: "screenshots E filePath \<and>
       get_upload_url E (trace t1 @ [uploadUrlRequest a b]) = Replied status ubody \<longrightarrow>
         generateVideoThumbnail E filePath acct outputFileName t =
           (Inr None,
            t1\<lparr>trace := trace t1 @ [uploadUrlRequest a b],
               disk := insert (thumbnailPath filePath) (disk t)\<rparr>)"
      using thumbnail_url_not_ok [OF _ c g _ n] by blast
    have f4: "screenshots E filePath \<and>
       get_upload_url E (trace t1 @ [uploadUrlRequest a b]) = Replied st1 (Some d) \<and> ok st1 \<and>
       upload_file E (trace t1 @ [uploadUrlRequest a b,
         uploadRequest d (''thumbnails/'' @ outputFileName) ''image/jpeg'']) =
         Replied status tbody \<longrightarrow>
         generateVideoThumbnail E filePath acct outputFileName t =
           (Inr None,
            t1\<lparr>trace := trace t1 @ [uploadUrlRequest a b,
                 uploadRequest d (''thumbnails/'' @ outputFileName) ''image/jpeg''],
               disk := insert (thumbnailPath filePath) (disk t)\<rparr>)"
      using thumbnail_transfer_not_ok [OF _ c g _ _ _ n] by blast
    have f5: "get_download_authorization E
         (trace t1 @ [downloadAuthRequest a b (pre @ filename)]) = Replied status abody \<longrightarrow>
         serveFile3 E pre acct filename t =
           (Reply 500 (Failure (Error ''Failed to get download authorization'')),
            t1\<lparr>trace := trace t1 @ [downloadAuthRequest a b (pre @ filename)]\<rparr>)"
      using serve3_not_ok [OF c g _ n] by blast
    from f0 f1 f2 f3 f4 f5 show "
      authTokenCache t1 acct = Some a \<and>
      (acct \<noteq> [] \<and> tempPath upl \<in> disk t \<and>
       get_upload_url E (trace t1 @ [uploadUrlRequest a b]) = Replied status ubody \<longrightarrow>
         uploadHandler3 E (Some acct) titleField fo (Some upl) t =
           (Reply 500 (Failure (Error ''Failed to get upload URL from B2'')),
            t1\<lparr>trace := trace t1 @ [uploadUrlRequest a b],
               disk := disk t1 - {tempPath upl}\<rparr>)) \<and>
      (acct \<noteq> [] \<and> tempPath upl \<in> disk t \<and>
       get_upload_url E (trace t1 @ [uploadUrlRequest a b]) = Replied st1 (Some d) \<and> ok st1 \<and>
       upload_file E (trace t1 @ [uploadUrlRequest a b,
         uploadRequest d (b2FileName3 titleField (now t) (originalname upl)) (uploadMime upl)]) =
         Replied status tbody \<longrightarrow>
         uploadHandler3 E (Some acct) titleField fo (Some upl) t =
           (Reply 500 (Failure (Error ''Failed to upload file to B2'')),
            t1\<lparr>trace := trace t1 @ [uploadUrlRequest a b,
                 uploadRequest d (b2FileName3 titleField (now t) (originalname upl))
                   (uploadMime upl)],
               disk := disk t1 - {tempPath upl}\<rparr>)) \<and>
      (screenshots E filePath \<and>
       get_upload_url E (trace t1 @ [uploadUrlRequest a b]) = Replied status ubody \<longrightarrow>
         generateVideoThumbnail E filePath acct outputFileName t =
           (Inr None,
            t1\<lparr>trace := trace t1 @ [uploadUrlRequest a b],
               disk := insert (thumbnailPath filePath) (disk t)\<rparr>)) \<and>
      (screenshots E filePath \<and>
       get_upload_url E (trace t1 @ [uploadUrlRequest a b]) = Replied st1 (Some d) \<and> ok st1 \<and>
       upload_file E (trace t1 @ [uploadUrlRequest a b,
         uploadRequest d (''thumbnails/'' @ outputFileName) ''image/jpeg'']) =
         Replied status tbody \<longrightarrow>
         generateVideoThumbnail E filePath acct outputFileName t =
           (Inr None,
            t1\<lparr>trace := trace t1 @ [uploadUrlRequest a b,
                 uploadRequest d (''thumbnails/'' @ outputFileName) ''image/jpeg''],
               disk := insert (thumbnailPath filePath) (disk t)\<rparr>)) \<and>
      (get_download_authorization E
         (trace t1 @ [downloadAuthRequest a b (pre @ filename)]) = Replied status abody \<longrightarrow>
         serveFile3 E pre acct filename t =
           (Reply 500 (Failure (Error ''Failed to get download authorization'')),
            t1\<lparr>trace := trace t1 @ [downloadAuthRequest a b (pre @ filename)]\<rparr>))"
      by (intro conjI)
  qed
  have 3: "
(files u i = Some f \<and> account f = acct \<and> \<not> dbFault E (trace u @ [File_findById i]) \<and>
    getAuthToken E acct (u\<lparr>trace := trace u @ [File_findById i]\<rparr>) = (Inr a, u1) \<and>
    delete_file_version E (trace u1 @ [deleteRequest a (Some (fileId f)) (fullFileName f)]) =
      Replied status dbody \<and>
    \<not> dbFault E (trace u1 @ [deleteRequest a (Some (fileId f)) (fullFileName f),
                              File_deleteOne i]) \<longrightarrow>
      authTokenCache u1 acct = Some a \<and>
      deleteHandler3 E (Some i) u =
        (Reply 200 (Message ''File deleted successfully''),
         u1\<lparr>trace := trace u1 @ [deleteRequest a (Some (fileId f)) (fullFileName f),
                                  File_deleteOne i],
            files := (files u1)(i := None)\<rparr>))"
  proof (intro impI, elim conjE)
    assume h: "files u i = Some f" "account f = acct"
      "\<not> dbFault E (trace u @ [File_findById i])"
      "getAuthToken E acct (u\<lparr>trace := trace u @ [File_findById i]\<rparr>) = (Inr a, u1)"
      "delete_file_version E (trace u1 @ [deleteRequest a (Some (fileId f)) (fullFileName f)]) =
         Replied status dbody"
      "\<not> dbFault E (trace u1 @ [deleteRequest a (Some (fileId f)) (fullFileName f),
                                 File_deleteOne i])"
    from h(4) have k: "authTokenCache u1 acct = Some a"
      by (rule getAuthToken_holds)
    from h have "deleteHandler3 E (Some i) u =
        (Reply 200 (Message ''File deleted successfully''),
         u1\<lparr>trace := trace u1 @ [deleteRequest a (Some (fileId f)) (fullFileName f),
                                  File_deleteOne i],
            files := (files u1)(i := None)\<rparr>)"
      using delete3_not_ok [of u i f E a u1 status dbody] n by simp
    with k show "authTokenCache u1 acct = Some a \<and>
      deleteHandler3 E (Some i) u =
        (Reply 200 (Message ''File deleted successfully''),
         u1\<lparr>trace := trace u1 @ [deleteRequest a (Some (fileId f)) (fullFileName f),
                                  File_deleteOne i],
            files := (files u1)(i := None)\<rparr>)"
      by simp
  qed
  from 1 2 3 show "(getAuthToken E acct s = (Inr a, s1) \<longrightarrow>
      authTokenCache s1 acct = Some a \<and>
      (cachedListing s acct = None \<and>
       list_file_names E (trace s1 @ [listRequest a b]) = Replied status lbody \<longrightarrow>
         listFiles E acct s = ([], s1\<lparr>trace := trace s1 @ [listRequest a b]\<rparr>)) \<and>
      (acct \<noteq> [] \<and> ttl \<noteq> [] \<and>
       get_upload_url E (trace s1 @ [uploadUrlRequest a b]) = Replied status ubody \<longrightarrow>
         uploadHandler2 E (Some acct) (Some ttl) (Some upl) s =
           (Reply 500 (Failure (Error ''Failed to get upload URL from B2'')),
            s1\<lparr>trace := trace s1 @ [uploadUrlRequest a b]\<rparr>)) \<and>
      (acct \<noteq> [] \<and> ttl \<noteq> [] \<and>
       get_upload_url E (trace s1 @ [uploadUrlRequest a b]) = Replied st1 (Some d) \<and> ok st1 \<and>
       key = ''files/'' @ fullFilename2 ttl (now s) (originalname upl) \<and>
       mime = (if mimetype upl = [] then ''application/octet-stream'' else mimetype upl) \<and>
       upload_file E (trace s1 @ [uploadUrlRequest a b, uploadRequest d key mime]) =
         Replied status tbody \<longrightarrow>
         uploadHandler2 E (Some acct) (Some ttl) (Some upl) s =
           (Reply 500 (Failure (Error ''Failed to upload file to B2'')),
            s1\<lparr>trace := trace s1 @ [uploadUrlRequest a b, uploadRequest d key mime]\<rparr>)) \<and>
      (acct \<noteq> [] \<and> fid \<noteq> [] \<and> fname \<noteq> [] \<and>
       delete_file_version E (trace s1 @ [deleteRequest a (Some fid) fname]) =
         Replied status dbody \<longrightarrow>
         deleteHandler2 E (Some acct) (Some fid) (Some fname) s =
           (Reply 500 (Failure (Error ''Failed to delete file from B2'')),
            s1\<lparr>trace := trace s1 @ [deleteRequest a (Some fid) fname]\<rparr>)) \<and>
      (acct \<noteq> [] \<and> fid \<noteq> [] \<and> old \<noteq> [] \<and> new \<noteq> [] \<and>
       copy_file E (trace s1 @ [copyRequest a fid (''files/'' @ newFileName old new) b]) =
         Replied status cbody \<longrightarrow>
         renameHandler E (Some acct) (Some fid) (Some old) (Some new) s =
           (Reply 500 (Failure (Error ''Failed to copy file with new name'')),
            s1\<lparr>trace := trace s1 @ [copyRequest a fid (''files/'' @ newFileName old new) b]\<rparr>)) \<and>
      (acct \<noteq> [] \<and> fid \<noteq> [] \<and> old \<noteq> [] \<and> new \<noteq> [] \<and>
       copy_file E (trace s1 @ [copyRequest a fid (''files/'' @ newFileName old new) b]) =
         Replied st1 (Some copiedId) \<and> ok st1 \<and>
       delete_file_version E
         (trace s1 @ [copyRequest a fid (''files/'' @ newFileName old new) b,
                      deleteRequest a (Some fid) (''files/'' @ old)]) = Replied status dbody \<longrightarrow>
         renameHandler E (Some acct) (Some fid) (Some old) (Some new) s =
           (Reply 500 (Failure (Error ''Failed to delete old file version'')),
            s1\<lparr>trace := trace s1 @ [copyRequest a fid (''files/'' @ newFileName old new) b,
                                     deleteRequest a (Some fid) (''files/'' @ old)]\<rparr>)) \<and>
      (get_download_authorization E
         (trace s1 @ [downloadAuthRequest a b (''files/'' @ filename)]) = Replied status abody \<longrightarrow>
         serveFile2 E acct filename s =
           (Reply 500 (Failure (Error ''Failed to get download authorization'')),
            s1\<lparr>trace := trace s1 @ [downloadAuthRequest a b (''files/'' @ filename)]\<rparr>)) \<and>
      (cachedListing s acct = None \<and>
       list_file_names E (trace s1 @ [listRequest a b]) = Replied status lbody \<longrightarrow>
         listFilesWith ''_'' E acct s = ([], s1\<lparr>trace := trace s1 @ [listRequest a b]\<rparr>))) \<and>
   (getAuthToken E acct t = (Inr a, t1) \<longrightarrow>
      authTokenCache t1 acct = Some a \<and>
      (acct \<noteq> [] \<and> tempPath upl \<in> disk t \<and>
       get_upload_url E (trace t1 @ [uploadUrlRequest a b]) = Replied status ubody \<longrightarrow>
         uploadHandler3 E (Some acct) titleField fo (Some upl) t =
           (Reply 500 (Failure (Error ''Failed to get upload URL from B2'')),
            t1\<lparr>trace := trace t1 @ [uploadUrlRequest a b],
               disk := disk t1 - {tempPath upl}\<rparr>)) \<and>
      (acct \<noteq> [] \<and> tempPath upl \<in> disk t \<and>
       get_upload_url E (trace t1 @ [uploadUrlRequest a b]) = Replied st1 (Some d) \<and> ok st1 \<and>
       upload_file E (trace t1 @ [uploadUrlRequest a b,
         uploadRequest d (b2FileName3 titleField (now t) (originalname upl)) (uploadMime upl)]) =
         Replied status tbody \<longrightarrow>
         uploadHandler3 E (Some acct) titleField fo (Some upl) t =
           (Reply 500 (Failure (Error ''Failed to upload file to B2'')),
            t1\<lparr>trace := trace t1 @ [uploadUrlRequest a b,
                 uploadRequest d (b2FileName3 titleField (now t) (originalname upl))
                   (uploadMime upl)],
               disk := disk t1 - {tempPath upl}\<rparr>)) \<and>
      (screenshots E filePath \<and>
       get_upload_url E (trace t1 @ [uploadUrlRequest a b]) = Replied status ubody \<longrightarrow>
         generateVideoThumbnail E filePath acct outputFileName t =
           (Inr None,
            t1\<lparr>trace := trace t1 @ [uploadUrlRequest a b],
               disk := insert (thumbnailPath filePath) (disk t)\<rparr>)) \<and>
      (screenshots E filePath \<and>
       get_upload_url E (trace t1 @ [uploadUrlRequest a b]) = Replied st1 (Some d) \<and> ok st1 \<and>
       upload_file E (trace t1 @ [uploadUrlRequest a b,
         uploadRequest d (''thumbnails/'' @ outputFileName) ''image/jpeg'']) =
         Replied status tbody \<longrightarrow>
         generateVideoThumbnail E filePath acct outputFileName t =
           (Inr None,
            t1\<lparr>trace := trace t1 @ [uploadUrlRequest a b,
                 uploadRequest d (''thumbnails/'' @ outputFileName) ''image/jpeg''],
               disk := insert (thumbnailPath filePath) (disk t)\<rparr>)) \<and>
      (get_download_authorization E
         (trace t1 @ [downloadAuthRequest a b (pre @ filename)]) = Replied status abody \<longrightarrow>
         serveFile3 E pre acct filename t =
           (Reply 500 (Failure (Error ''Failed to get download authorization'')),
            t1\<lparr>trace := trace t1 @ [downloadAuthRequest a b (pre @ filename)]\<rparr>))) \<and>
   (files u i = Some f \<and> account f = acct \<and> \<not> dbFault E (trace u @ [File_findById i]) \<and>
    getAuthToken E acct (u\<lparr>trace := trace u @ [File_findById i]\<rparr>) = (Inr a, u1) \<and>
    delete_file_version E (trace u1 @ [deleteRequest a (Some (fileId f)) (fullFileName f)]) =
      Replied status dbody \<and>
    \<not> dbFault E (trace u1 @ [deleteRequest a (Some (fileId f)) (fullFileName f),
                              File_deleteOne i]) \<longrightarrow>
      authTokenCache u1 acct = Some a \<and>
      deleteHandler3 E (Some i) u =
        (Reply 200 (Message ''File deleted successfully''),
         u1\<lparr>trace := trace u1 @ [deleteRequest a (Some (fileId f)) (fullFileName f),
                                  File_deleteOne i],
            files := (files u1)(i := None)\<rparr>))"
    by (intro conjI)
qed

theorem rejected_call_is_not_retried_witness:
  "authTokenCache demoServer2 ''account1'' = Some demoAuth \<and>
   listFiles demoEnv ''account1'' demoServer2 =
     ([], demoServer2\<lparr>trace := [listRequest demoAuth demoBucket]\<rparr>) \<and>
   uploadHandler2 demoEnv (Some ''account1'') (Some ''Demo Video'') (Some demoUpload) demoServer2 =
     (Reply 500 (Failure (Error ''Failed to get upload URL from B2'')),
      demoServer2\<lparr>trace := [uploadUrlRequest demoAuth demoBucket]\<rparr>) \<and>
   uploadHandler2 (demoStore\<lparr>upload_file := (\<lambda>_. Replied 401 None)\<rparr>)
       (Some ''account1'') (Some ''Demo Video'') (Some demoUpload) demoServer2 =
     (Reply 500 (Failure (Error ''Failed to upload file to B2'')),
      demoServer2\<lparr>trace := [uploadUrlRequest demoAuth demoBucket,
        uploadRequest demoUploadUrl ''files/demo_video_1000.mp4'' ''video/mp4'']\<rparr>) \<and>
   deleteHandler2 demoEnv (Some ''account1'') (Some ''X'') (Some ''files/a_111.png'') demoServer2 =
     (Reply 500 (Failure (Error ''Failed to delete file from B2'')),
      demoServer2\<lparr>trace := [deleteRequest demoAuth (Some ''X'') ''files/a_111.png'']\<rparr>) \<and>
   renameHandler demoEnv (Some ''account1'') (Some ''X'') (Some ''a_111.png'') (Some ''b'') demoServer2 =
     (Reply 500 (Failure (Error ''Failed to copy file with new name'')),
      demoServer2\<lparr>trace := [copyRequest demoAuth ''X'' ''files/b_111.png'' demoBucket]\<rparr>) \<and>
   renameHandler (demoStore\<lparr>delete_file_version := (\<lambda>_. Replied 401 None)\<rparr>)
       (Some ''account1'') (Some ''X'') (Some ''a_111.png'') (Some ''b'') demoServer2 =
     (Reply 500 (Failure (Error ''Failed to delete old file version'')),
      demoServer2\<lparr>trace := [copyRequest demoAuth ''X'' ''files/b_111.png'' demoBucket,
        deleteRequest demoAuth (Some ''X'') ''files/a_111.png'']\<rparr>) \<and>
   serveFile2 demoEnv ''account1'' ''a_111.png'' demoServer2 =
     (Reply 500 (Failure (Error ''Failed to get download authorization'')),
      demoServer2\<lparr>trace := [downloadAuthRequest demoAuth demoBucket ''files/a_111.png'']\<rparr>) \<and>
   listFilesWith ''_'' demoEnv ''account1'' demoServer2 =
     ([], demoServer2\<lparr>trace := [listRequest demoAuth demoBucket]\<rparr>) \<and>
   authTokenCache demoServer3 ''account1'' = Some demoAuth \<and>
   uploadHandler3 demoEnv (Some ''account1'') (Some ''Demo Video'') None (Some demoUpload)
       demoServer3 =
     (Reply 500 (Failure (Error ''Failed to get upload URL from B2'')),
      demoServer3\<lparr>trace := [uploadUrlRequest demoAuth demoBucket], disk := {}\<rparr>) \<and>
   generateVideoThumbnail (demoEnv\<lparr>screenshots := (\<lambda>_. True)\<rparr>) ''temp/1-clip.mp4'' ''account1''
       ''Demo_Video_1000.jpg'' demoServer3 =
     (Inr None,
      demoServer3\<lparr>trace := [uploadUrlRequest demoAuth demoBucket],
        disk := {''temp/1-clip.mp4_thumb.jpg'', ''temp/1-clip.mp4''}\<rparr>) \<and>
   serveFile3 demoEnv ''thumbnails/'' ''account1'' ''Demo_Video_1000.jpg'' demoServer3 =
     (Reply 500 (Failure (Error ''Failed to get download authorization'')),
      demoServer3\<lparr>trace :=
        [downloadAuthRequest demoAuth demoBucket ''thumbnails/Demo_Video_1000.jpg'']\<rparr>) \<and>
   deleteHandler3 demoEnv (Some 0) demoIndexed =
     (Reply 200 (Message ''File deleted successfully''),
      demoIndexed\<lparr>trace := [File_findById 0,
          deleteRequest demoAuth (Some ''id-new'') ''files/Demo_Video_1000.mp4'', File_deleteOne 0],
        files := Map.empty\<rparr>)"
proof -
  let ?U = "demoStore\<lparr>upload_file := (\<lambda>_. Replied 401 None)\<rparr>"
  let ?D = "demoStore\<lparr>delete_file_version := (\<lambda>_. Replied 401 None)\<rparr>"
  let ?T = "demoEnv\<lparr>screenshots := (\<lambda>_. True)\<rparr>"
  let ?found = "demoIndexed\<lparr>trace := [File_findById 0]\<rparr>"
  have t: "trace demoServer2 = []" and nw: "now demoServer2 = 1000"
    by (simp_all add: demoServer2_def)
  have t3: "trace demoServer3 = []" "disk demoServer3 = {''temp/1-clip.mp4''}"
    "tempPath demoUpload = ''temp/1-clip.mp4''"
    "thumbnailPath ''temp/1-clip.mp4'' = ''temp/1-clip.mp4_thumb.jpg''"
    by (simp_all add: demoServer3_def demoUpload_def thumbnailPath_def)
  have g3: "getAuthToken E ''account1'' demoServer3 = (Inr demoAuth, demoServer3)" for E
    by (simp add: getAuthToken_cached demoServer3_def)
  have gi: "getAuthToken E ''account1'' ?found = (Inr demoAuth, ?found)" for E
    by (simp add: getAuthToken_cached demoIndexed_def demoServer3_def)
  have i: "files demoIndexed 0 = Some demoRecord" "trace demoIndexed = []"
    "account demoRecord = ''account1''" "fileId demoRecord = ''id-new''"
    "fullFileName demoRecord = ''files/Demo_Video_1000.mp4''"
    "(files demoIndexed)(0 := None) = Map.empty"
    by (simp_all add: demoIndexed_def demoServer3_def demoRecord_def)
  have o: "\<not> ok 401" "ok 200" by (simp_all add: ok_def)
  have n: "numberToString 1000 = ''1000''"
    by (simp add: numberToString.simps digitChar_def)
  have f: "fullFilename2 ''Demo Video'' 1000 (originalname demoUpload) = ''demo_video_1000.mp4''"
    "mimetype demoUpload = ''video/mp4''"
    by (simp_all add: fullFilename2_def safeTitle_def toLowerCase_def lowerChar_def
        replaceNonAlnum_def isAlnum_def n demoUpload_def)
  have e: "bucketConfig demoEnv ''account1'' = Some demoBucket"
    "bucketConfig ?U ''account1'' = Some demoBucket"
    "bucketConfig ?D ''account1'' = Some demoBucket"
    "bucketConfig ?T ''account1'' = Some demoBucket"
    "list_file_names demoEnv = (\<lambda>_. Replied 401 None)"
    "get_upload_url demoEnv = (\<lambda>_. Replied 401 None)"
    "delete_file_version demoEnv = (\<lambda>_. Replied 401 None)"
    "copy_file demoEnv = (\<lambda>_. Replied 401 None)"
    "get_download_authorization demoEnv = (\<lambda>_. Replied 401 None)"
    "dbFault demoEnv = (\<lambda>_. False)"
    "get_upload_url ?U = (\<lambda>_. Replied 200 (Some demoUploadUrl))"
    "upload_file ?U = (\<lambda>_. Replied 401 None)"
    "copy_file ?D = (\<lambda>_. Replied 200 (Some ''id-copy''))"
    "delete_file_version ?D = (\<lambda>_. Replied 401 None)"
    "get_upload_url ?T = (\<lambda>_. Replied 401 None)"
    "screenshots ?T = (\<lambda>_. True)"
    by (simp_all add: demoStore_def demoEnv_def)
  have c1: "bucketConfig demoEnv ''account1'' = Some demoBucket \<and> \<not> ok 401"
    and c2: "bucketConfig ?U ''account1'' = Some demoBucket \<and> \<not> ok 401"
    and c3: "bucketConfig ?D ''account1'' = Some demoBucket \<and> \<not> ok 401"
    and c4: "bucketConfig ?T ''account1'' = Some demoBucket \<and> \<not> ok 401"
    using e o by simp_all
  note A = rejected_call_is_not_retried [where E = demoEnv and acct = "''account1''"
      and s = demoServer2 and a = demoAuth and ?s1.0 = demoServer2 and b = demoBucket
      and status = 401 and lbody = None and ubody = None and dbody = None and cbody = None
      and abody = None and ttl = "''Demo Video''" and upl = demoUpload and fid = "''X''"
      and fname = "''files/a_111.png''" and old = "''a_111.png''" and new = "''b''"
      and filename = "''a_111.png''", THEN mp, OF c1, THEN conjunct1, THEN mp, OF demo_token]
  from A [THEN conjunct1]
  have 1: "authTokenCache demoServer2 ''account1'' = Some demoAuth" .
  from A [THEN conjunct2, THEN conjunct1]
  have 2: "listFiles demoEnv ''account1'' demoServer2 =
     ([], demoServer2\<lparr>trace := [listRequest demoAuth demoBucket]\<rparr>)"
    by (simp (no_asm_use) add: t o e)
  from A [THEN conjunct2, THEN conjunct2, THEN conjunct1]
  have 3: "uploadHandler2 demoEnv (Some ''account1'') (Some ''Demo Video'') (Some demoUpload) demoServer2 =
     (Reply 500 (Failure (Error ''Failed to get upload URL from B2'')),
      demoServer2\<lparr>trace := [uploadUrlRequest demoAuth demoBucket]\<rparr>)"
    by (simp (no_asm_use) add: t o e)
  from A [THEN conjunct2, THEN conjunct2, THEN conjunct2, THEN conjunct2, THEN conjunct1]
  have 4: "deleteHandler2 demoEnv (Some ''account1'') (Some ''X'') (Some ''files/a_111.png'') demoServer2 =
     (Reply 500 (Failure (Error ''Failed to delete file from B2'')),
      demoServer2\<lparr>trace := [deleteRequest demoAuth (Some ''X'') ''files/a_111.png'']\<rparr>)"
    by (simp (no_asm_use) add: t o e)
  from A [THEN conjunct2, THEN conjunct2, THEN conjunct2, THEN conjunct2, THEN conjunct2, THEN conjunct1]
  have 5: "renameHandler demoEnv (Some ''account1'') (Some ''X'') (Some ''a_111.png'') (Some ''b'') demoServer2 =
     (Reply 500 (Failure (Error ''Failed to copy file with new name'')),
      demoServer2\<lparr>trace := [copyRequest demoAuth ''X'' ''files/b_111.png'' demoBucket]\<rparr>)"
    by (simp (no_asm_use) add: t o e demo_newFileName)
  from A [THEN conjunct2, THEN conjunct2, THEN conjunct2, THEN conjunct2, THEN conjunct2, THEN conjunct2, THEN conjunct2, THEN conjunct1]
  have 6: "serveFile2 demoEnv ''account1'' ''a_111.png'' demoServer2 =
     (Reply 500 (Failure (Error ''Failed to get download authorization'')),
      demoServer2\<lparr>trace := [downloadAuthRequest demoAuth demoBucket ''files/a_111.png'']\<rparr>)"
    by (simp (no_asm_use) add: t o e)
  from A [THEN conjunct2, THEN conjunct2, THEN conjunct2, THEN conjunct2, THEN conjunct2, THEN conjunct2, THEN conjunct2, THEN conjunct2]
  have 9: "listFilesWith ''_'' demoEnv ''account1'' demoServer2 =
     ([], demoServer2\<lparr>trace := [listRequest demoAuth demoBucket]\<rparr>)"
    by (simp (no_asm_use) add: t o e)
  from rejected_call_is_not_retried [where E = ?U and acct = "''account1''"
      and s = demoServer2 and a = demoAuth and ?s1.0 = demoServer2 and b = demoBucket
      and status = 401 and tbody = None and ?st1.0 = 200 and d = demoUploadUrl
      and ttl = "''Demo Video''" and upl = demoUpload
      and key = "''files/demo_video_1000.mp4''" and mime = "''video/mp4''",
      THEN mp, OF c2, THEN conjunct1, THEN mp, OF demo_token, THEN conjunct2, THEN conjunct2, THEN conjunct2, THEN conjunct1]
  have 7: "uploadHandler2 ?U (Some ''account1'') (Some ''Demo Video'') (Some demoUpload) demoServer2 =
     (Reply 500 (Failure (Error ''Failed to upload file to B2'')),
      demoServer2\<lparr>trace := [uploadUrlRequest demoAuth demoBucket,
        uploadRequest demoUploadUrl ''files/demo_video_1000.mp4'' ''video/mp4'']\<rparr>)"
    by (simp (no_asm_use) add: t nw o e f)
  from rejected_call_is_not_retried [where E = ?D and acct = "''account1''"
      and s = demoServer2 and a = demoAuth and ?s1.0 = demoServer2 and b = demoBucket
      and status = 401 and dbody = None and ?st1.0 = 200 and copiedId = "''id-copy''"
      and fid = "''X''" and old = "''a_111.png''" and new = "''b''",
      THEN mp, OF c3, THEN conjunct1, THEN mp, OF demo_token, THEN conjunct2, THEN conjunct2, THEN conjunct2, THEN conjunct2, THEN conjunct2, THEN conjunct2, THEN conjunct1]
  have 8: "renameHandler ?D (Some ''account1'') (Some ''X'') (Some ''a_111.png'') (Some ''b'') demoServer2 =
     (Reply 500 (Failure (Error ''Failed to delete old file version'')),
      demoServer2\<lparr>trace := [copyRequest demoAuth ''X'' ''files/b_111.png'' demoBucket,
        deleteRequest demoAuth (Some ''X'') ''files/a_111.png'']\<rparr>)"
    by (simp (no_asm_use) add: t o e demo_newFileName)
  note B = rejected_call_is_not_retried [where E = demoEnv and acct = "''account1''"
      and t = demoServer3 and a = demoAuth and ?t1.0 = demoServer3 and b = demoBucket
      and status = 401 and ubody = None and abody = None and dbody = None
      and upl = demoUpload and titleField = "Some ''Demo Video''" and fo = None
      and pre = "''thumbnails/''" and filename = "''Demo_Video_1000.jpg''"
      and u = demoIndexed and ?u1.0 = ?found and i = 0 and f = demoRecord, THEN mp, OF c1]
  note F = B [THEN conjunct2, THEN conjunct1, THEN mp, OF g3]
  from F [THEN conjunct1]
  have 10: "authTokenCache demoServer3 ''account1'' = Some demoAuth" .
  from F [THEN conjunct2, THEN conjunct1]
  have 11: "uploadHandler3 demoEnv (Some ''account1'') (Some ''Demo Video'') None (Some demoUpload)
       demoServer3 =
     (Reply 500 (Failure (Error ''Failed to get upload URL from B2'')),
      demoServer3\<lparr>trace := [uploadUrlRequest demoAuth demoBucket], disk := {}\<rparr>)"
    by (simp (no_asm_use) add: t3 o e)
  from F [THEN conjunct2, THEN conjunct2, THEN conjunct2, THEN conjunct2, THEN conjunct2]
  have 13: "serveFile3 demoEnv ''thumbnails/'' ''account1'' ''Demo_Video_1000.jpg'' demoServer3 =
     (Reply 500 (Failure (Error ''Failed to get download authorization'')),
      demoServer3\<lparr>trace :=
        [downloadAuthRequest demoAuth demoBucket ''thumbnails/Demo_Video_1000.jpg'']\<rparr>)"
    by (simp (no_asm_use) add: t3 o e)
  from B [THEN conjunct2, THEN conjunct2]
  have 14: "deleteHandler3 demoEnv (Some 0) demoIndexed =
     (Reply 200 (Message ''File deleted successfully''),
      demoIndexed\<lparr>trace := [File_findById 0,
          deleteRequest demoAuth (Some ''id-new'') ''files/Demo_Video_1000.mp4'', File_deleteOne 0],
        files := Map.empty\<rparr>)"
    by (simp (no_asm_use) add: gi i o e) blast
  from rejected_call_is_not_retried [where E = ?T and acct = "''account1''"
      and t = demoServer3 and a = demoAuth and ?t1.0 = demoServer3 and b = demoBucket
      and status = 401 and ubody = None and filePath = "''temp/1-clip.mp4''"
      and outputFileName = "''Demo_Video_1000.jpg''",
      THEN mp, OF c4, THEN conjunct2, THEN conjunct1, THEN mp, OF g3, THEN conjunct2, THEN conjunct2, THEN conjunct2, THEN conjunct1]
  have 12: "generateVideoThumbnail ?T ''temp/1-clip.mp4'' ''account1''
       ''Demo_Video_1000.jpg'' demoServer3 =
     (Inr None,
      demoServer3\<lparr>trace := [uploadUrlRequest demoAuth demoBucket],
        disk := {''temp/1-clip.mp4_thumb.jpg'', ''temp/1-clip.mp4''}\<rparr>)"
    by (simp (no_asm_use) add: t3 o e)
  from 1 2 3 7 4 5 8 6 9 10 11 12 13 14 show ?thesis by (intro conjI)
qed

section \<open>Renaming a folder: the paths of the collection\<close>

lemma getSubstitution_plain:
  "CHR ''$'' \<notin> set r \<Longrightarrow> getSubstitution m b a r = r"
  by (induction m b a r rule: getSubstitution.induct) auto

lemma replace_prefix:
  assumes "prefix (old @ ''/'') s" and "CHR ''$'' \<notin> set new"
  shows "replace s old new = new @ drop (length old) s"
proof -
  from assms(1) obtain c cs where s: "s = c # cs"
    by (cases s) auto
  from assms(1) have "prefix old s"
    using append_prefixD by blast
  with s assms(2) show ?thesis
    by (simp add: replace_def getSubstitution_plain)
qed

lemma slash_prefix:
  assumes "prefix (a @ [c]) (b @ c # n)" and "c \<notin> set n"
  shows "prefix (a @ [c]) b \<or> a = b"
proof -
  from assms(1) consider "prefix (a @ [c]) b"
    | us where "a @ [c] = b @ us" "prefix us (c # n)"
    by (auto simp: prefix_append)
  then show ?thesis
  proof cases
    case 1
    then show ?thesis by simp
  next
    case 2
    show ?thesis
    proof (cases us)
      case Nil
      with 2 show ?thesis by simp
    next
      case (Cons u us')
      with 2(2) have u: "u = c" and p: "prefix us' n" by simp_all
      show ?thesis
      proof (cases "us' = []")
        case True
        with 2(1) Cons u show ?thesis by simp
      next
        case False
        then have "last us' = last (b @ us)" using Cons by simp
        also have "\<dots> = c" using 2(1) by (metis last_snoc)
        finally have "c \<in> set us'" using False last_in_set by metis
        with p have "c \<in> set n" using set_mono_prefix by blast
        with assms(2) show ?thesis by simp
      qed
    qed
  qed
qed

lemma prefix_has_last:
  "prefix (a @ [c]) n \<Longrightarrow> c \<in> set n"
  using set_mono_prefix by fastforce

lemma moved_fields [simp]:
  "name (moved old new d) = name d" "parent (moved old new d) = parent d"
  by (simp_all add: moved_def)

lemma pathInvariantD:
  "pathInvariant m \<Longrightarrow> m j = Some d \<Longrightarrow> pathOk m d"
  by (auto simp: pathInvariant_def ran_def)

lemma plainNamesD:
  "plainNames m \<Longrightarrow> m j = Some d \<Longrightarrow> CHR ''/'' \<notin> set (name d) \<and> CHR ''$'' \<notin> set (path d)"
  by (auto simp: plainNames_def ran_def)

lemma rename_pure:
  assumes inv: "pathInvariant m"
    and plain: "plainNames m"
    and f: "m i = Some f"
    and only: "onlyAt m i (path f)"
    and nm: "CHR ''/'' \<notin> set nm"
    and np: "case parent f of
               None \<Rightarrow> np = nm
             | Some p \<Rightarrow> (\<exists>pd. m p = Some pd \<and> np = path pd @ ''/'' @ nm)"
  shows "pathInvariant
           (\<lambda>j. map_option (moved (path f) np) ((m(i \<mapsto> f\<lparr>name := nm, path := np\<rparr>)) j))"
proof -
  let ?old = "path f"
  let ?f' = "f\<lparr>name := nm, path := np\<rparr>"
  let ?m1 = "m(i \<mapsto> ?f')"
  define m2 where "m2 = (\<lambda>j. map_option (moved ?old np) (?m1 j))"
  have m2_at: "\<And>k d. ?m1 k = Some d \<Longrightarrow> m2 k = Some (moved ?old np d)"
    by (simp add: m2_def)
  have fOk: "pathOk m f" using inv f by (rule pathInvariantD)
  have notself: "\<not> prefix (?old @ ''/'') np"
  proof
    assume p: "prefix (?old @ ''/'') np"
    show False
    proof (cases "parent f")
      case None
      with fOk np have "?old = name f" "np = nm" by (simp_all add: pathOk_def)
      with p have "prefix (name f @ [CHR ''/'']) nm" by simp
      with nm show False using prefix_has_last [of "name f" "CHR ''/''" nm] by simp
    next
      case (Some p')
      with fOk np obtain pd where "m p' = Some pd" "?old = path pd @ ''/'' @ name f"
        "np = path pd @ ''/'' @ nm"
        by (auto simp: pathOk_def split: option.splits)
      with p have "prefix (name f @ [CHR ''/'']) nm" by simp
      with nm show False using prefix_has_last [of "name f" "CHR ''/''" nm] by simp
    qed
  qed
  then have f'fix: "moved ?old np ?f' = ?f'" by (simp add: moved_def)
  have m2i: "m2 i = Some ?f'" using f'fix m2_at [of i ?f'] by simp
  have "pathInvariant m2"
    unfolding pathInvariant_def
  proof
    fix d2 assume "d2 \<in> ran m2"
    then obtain j d1 where j: "?m1 j = Some d1" and d2: "d2 = moved ?old np d1"
      by (auto simp: ran_def m2_def)
    show "pathOk m2 d2"
    proof (cases "j = i")
      case True
      with j d2 f'fix have d2': "d2 = ?f'" by simp
      show ?thesis
      proof (cases "parent f")
        case None
        with np d2' show ?thesis by (simp add: pathOk_def)
      next
        case (Some p)
        with np obtain pd where pd: "m p = Some pd" and npd: "np = path pd @ ''/'' @ nm"
          by auto
        from fOk Some pd have old: "?old = path pd @ ''/'' @ name f"
          by (simp add: pathOk_def)
        have "p \<noteq> i"
        proof
          assume "p = i"
          with pd f have "pd = f" by simp
          with old have "length (path f) = length (path f @ ''/'' @ name f)" by simp
          then show False by simp
        qed
        then have m1p: "?m1 p = Some pd" using pd by simp
        have "\<not> prefix (?old @ ''/'') (path pd)"
        proof
          assume "prefix (?old @ ''/'') (path pd)"
          then have "length (?old @ ''/'') \<le> length (path pd)" by (rule prefix_length_le)
          with old show False by simp
        qed
        then have "moved ?old np pd = pd" by (simp add: moved_def)
        with m2_at [OF m1p] have "m2 p = Some pd" by simp
        with d2' Some npd show ?thesis by (simp add: pathOk_def)
      qed
    next
      case False
      with j have mj: "m j = Some d1" by simp
      have dOk: "pathOk m d1" using inv mj by (rule pathInvariantD)
      from plain mj have slash: "CHR ''/'' \<notin> set (name d1)" using plainNamesD by blast
      show ?thesis
      proof (cases "parent d1")
        case None
        with dOk have pd1: "path d1 = name d1" by (simp add: pathOk_def)
        have "\<not> prefix (?old @ ''/'') (path d1)"
          using pd1 slash prefix_has_last [of ?old "CHR ''/''" "name d1"] by auto
        then have "moved ?old np d1 = d1" by (simp add: moved_def)
        with d2 None pd1 show ?thesis by (simp add: pathOk_def)
      next
        case (Some p)
        with dOk obtain pd where pd: "m p = Some pd"
          and path1: "path d1 = path pd @ ''/'' @ name d1"
          by (auto simp: pathOk_def split: option.splits)
        show ?thesis
        proof (cases "p = i")
          case True
          with pd f have "pd = f" by simp
          with path1 have path1': "path d1 = ?old @ ''/'' @ name d1" by simp
          then have "prefix (?old @ ''/'') (path d1)" by simp
          then have "path d2 = np @ ''/'' @ name d1"
            using d2 path1' by (simp add: moved_def)
          with True m2i d2 Some show ?thesis
            by (simp add: pathOk_def)
        next
          case pi: False
          then have m1p: "?m1 p = Some pd" using pd by simp
          show ?thesis
          proof (cases "prefix (?old @ ''/'') (path pd)")
            case True
            then have len: "length ?old \<le> length (path pd)"
              using prefix_length_le by fastforce
            from True path1 have "prefix (?old @ ''/'') (path d1)"
              by (metis prefix_prefix)
            then have "path d2 = np @ drop (length ?old) (path d1)"
              using d2 by (simp add: moved_def)
            also have "\<dots> = (np @ drop (length ?old) (path pd)) @ ''/'' @ name d1"
              using path1 len by simp
            finally have "path d2 = path (moved ?old np pd) @ ''/'' @ name d1"
              using True by (simp add: moved_def)
            with m2_at [OF m1p] d2 Some show ?thesis
              by (simp add: pathOk_def)
          next
            case np1: False
            have "\<not> prefix (?old @ ''/'') (path d1)"
            proof
              assume "prefix (?old @ ''/'') (path d1)"
              with path1 have "prefix (?old @ [CHR ''/'']) (path pd @ CHR ''/'' # name d1)"
                by simp
              from slash_prefix [OF this slash] np1 have "?old = path pd" by simp
              with only pd have "p = i" by (auto simp: onlyAt_def dom_def)
              with pi show False by simp
            qed
            then have "moved ?old np d1 = d1" by (simp add: moved_def)
            moreover from np1 have "moved ?old np pd = pd" by (simp add: moved_def)
            ultimately show ?thesis
              using m2_at [OF m1p] d2 Some path1 by (simp add: pathOk_def)
          qed
        qed
      qed
    qed
  qed
  then show ?thesis by (simp add: m2_def)
qed

section \<open>Renaming and creating a folder: the calls of the metadata store\<close>

lemma findById_result:
  "findById E i s = (Inr found, s') \<Longrightarrow>
   found = folders s i \<and> folders s' = folders s \<and> nextId s' = nextId s"
  by (auto simp: findById_def andThen_Inr dbCall_def Let_def split: if_splits)

lemma saveFolder_success:
  "saveFolder E i d s = (Inr u, s') \<Longrightarrow>
   folders s' = (folders s)(i \<mapsto> d) \<and> nextId s' = nextId s \<and> validateFolder d = None"
  by (auto simp: saveFolder_def andThen_Inr throw_def dbCall_def Let_def
      split: option.splits if_splits)

lemma saveEach_success:
  "saveEach E old new subs s = (Inr u, s') \<Longrightarrow>
   folders s' =
     foldl (\<lambda>m (j, sub). m(j \<mapsto> sub\<lparr>path := replace (path sub) old new\<rparr>)) (folders s) subs \<and>
   nextId s' = nextId s"
proof (induction subs arbitrary: s)
  case Nil
  then show ?case by (simp add: return_def)
next
  case (Cons a subs)
  obtain j sub where a: "a = (j, sub)" by (cases a)
  from Cons.prems a obtain s1 where
      sv: "saveFolder E j (sub\<lparr>path := replace (path sub) old new\<rparr>) s = (Inr (), s1)"
      and rest: "saveEach E old new subs s1 = (Inr u, s')"
    by (auto simp: andThen_Inr)
  from saveFolder_success [OF sv] Cons.IH [OF rest] a show ?case by simp
qed

lemma foldl_updates:
  "distinct (map fst kvs) \<Longrightarrow>
   foldl (\<lambda>m (k, v). m(k \<mapsto> g v)) m kvs =
     (\<lambda>k. case map_of kvs k of None \<Rightarrow> m k | Some v \<Rightarrow> Some (g v))"
proof (induction kvs arbitrary: m)
  case Nil
  then show ?case by simp
next
  case (Cons a kvs)
  obtain k v where a: "a = (k, v)" by (cases a)
  from Cons.prems a have d: "distinct (map fst kvs)" and k: "k \<notin> fst ` set kvs" by auto
  from k have "map_of kvs k = None" by (simp add: map_of_eq_None_iff)
  with Cons.IH [OF d, of "m(k \<mapsto> g v)"] a show ?case
    by (auto simp: fun_eq_iff split: option.splits)
qed

lemma map_filter_keyed:
  assumes "\<And>i y. f i = Some y \<Longrightarrow> fst y = i" and "distinct xs"
  shows "distinct (map fst (List.map_filter f xs)) \<and>
         fst ` set (List.map_filter f xs) \<subseteq> set xs \<and>
         (\<forall>k. map_of (List.map_filter f xs) k =
                (if k \<in> set xs then map_option snd (f k) else None))"
  using assms(2)
proof (induction xs)
  case Nil
  then show ?case by simp
next
  case (Cons x xs)
  then have IH: "distinct (map fst (List.map_filter f xs))"
    "fst ` set (List.map_filter f xs) \<subseteq> set xs"
    "\<And>k. map_of (List.map_filter f xs) k = (if k \<in> set xs then map_option snd (f k) else None)"
    and x: "x \<notin> set xs"
    by auto
  show ?case
  proof (cases "f x")
    case None
    with IH x show ?thesis by auto
  next
    case (Some y)
    with assms(1) have y: "fst y = x" by blast
    then obtain v where yv: "y = (x, v)" by (cases y) auto
    with Some IH x show ?thesis by auto
  qed
qed

lemma matching_lookup:
  "distinct (map fst (matching E pat s)) \<and>
   (\<forall>k. map_of (matching E pat s) k =
      (if k < nextId s then
         (case folders s k of
            None \<Rightarrow> None
          | Some d \<Rightarrow> if regexTest E pat (path d) then Some d else None)
       else None))"
proof -
  let ?f = "\<lambda>i. case folders s i of
               None \<Rightarrow> None
             | Some d \<Rightarrow> if regexTest E pat (path d) then Some (i, d) else None"
  have "\<And>i y. ?f i = Some y \<Longrightarrow> fst y = i"
    by (auto split: option.splits if_splits)
  from map_filter_keyed [of ?f "[0..<nextId s]", OF this] show ?thesis
    by (auto simp: matching_def split: option.splits)
qed

lemma updateSubfolderPaths_success:
  assumes run: "updateSubfolderPaths E old new s = (Inr u, s')"
    and alloc: "allocated s"
    and lit: "literalPrefix E old"
    and plain: "CHR ''$'' \<notin> set new"
  shows "folders s' = (\<lambda>j. map_option (moved old new) (folders s j)) \<and> nextId s' = nextId s"
proof -
  let ?pat = "''^'' @ old @ ''/''"
  from run obtain s1 where
      q: "findByPathRegex E ?pat s = (Inr (matching E ?pat s1), s1)"
      and s1: "folders s1 = folders s" "nextId s1 = nextId s"
      and each: "saveEach E old new (matching E ?pat s1) s1 = (Inr u, s')"
    by (auto simp: updateSubfolderPaths_def findByPathRegex_def andThen_Inr dbCall_def Let_def
        split: if_splits)
  let ?M = "matching E ?pat s1"
  let ?g = "\<lambda>sub. sub\<lparr>path := replace (path sub) old new\<rparr>"
  from saveEach_success [OF each] have
      fin: "folders s' = foldl (\<lambda>m (j, sub). m(j \<mapsto> ?g sub)) (folders s1) ?M"
      and n: "nextId s' = nextId s1"
    by simp_all
  from matching_lookup [of E ?pat s1] have
      dist: "distinct (map fst ?M)"
      and look: "\<And>k. map_of ?M k =
        (if k < nextId s1 then
           (case folders s1 k of
              None \<Rightarrow> None
            | Some d \<Rightarrow> if regexTest E ?pat (path d) then Some d else None)
         else None)"
    by simp_all
  have "folders s' j = map_option (moved old new) (folders s j)" for j
  proof (cases "folders s j")
    case None
    with fin foldl_updates [OF dist, of ?g "folders s1"] look [of j] s1 show ?thesis
      by (simp split: if_splits)
  next
    case (Some d)
    with alloc have j: "j < nextId s" by (auto simp: allocated_def)
    from lit have t: "regexTest E ?pat (path d) = prefix (old @ ''/'') (path d)"
      by (simp add: literalPrefix_def)
    show ?thesis
    proof (cases "prefix (old @ ''/'') (path d)")
      case True
      with Some j t look [of j] s1 have "map_of ?M j = Some d" by simp
      with fin foldl_updates [OF dist, of ?g "folders s1"] have "folders s' j = Some (?g d)"
        by simp
      with True Some plain show ?thesis
        by (simp add: moved_def replace_prefix)
    next
      case False
      with Some j t look [of j] s1 have "map_of ?M j = None" by simp
      with fin foldl_updates [OF dist, of ?g "folders s1"] s1 have "folders s' j = folders s j"
        by simp
      with False Some show ?thesis by (simp add: moved_def)
    qed
  qed
  with n s1 show ?thesis by (simp add: fun_eq_iff)
qed

lemma newPath_result:
  assumes "(case parent f of
              None \<Rightarrow> return nm
            | Some p \<Rightarrow>
                andThen (findById E p) (\<lambda>parentFolder.
                  case parentFolder of
                    None \<Rightarrow> throw TypeError
                  | Some pf \<Rightarrow> return (path pf @ ''/'' @ nm))) s = (Inr np, s1)"
  shows "(case parent f of
            None \<Rightarrow> np = nm
          | Some p \<Rightarrow> (\<exists>pd. folders s p = Some pd \<and> np = path pd @ ''/'' @ nm)) \<and>
         folders s1 = folders s \<and> nextId s1 = nextId s"
proof (cases "parent f")
  case None
  with assms show ?thesis by (simp add: return_def)
next
  case (Some p)
  have "andThen (findById E p) (\<lambda>parentFolder.
                  case parentFolder of
                    None \<Rightarrow> throw TypeError
                  | Some pf \<Rightarrow> return (path pf @ ''/'' @ nm)) s = (Inr np, s1)"
    using assms unfolding Some by (simp only: option.case)
  then obtain found s0 where fb: "findById E p s = (Inr found, s0)"
    and r: "(case found of None \<Rightarrow> throw TypeError
             | Some pf \<Rightarrow> return (path pf @ ''/'' @ nm)) s0 = (Inr np, s1)"
    unfolding andThen_Inr by blast
  from r obtain pd where pd: "found = Some pd" "np = path pd @ ''/'' @ nm" "s1 = s0"
    by (cases found) (auto simp: throw_def return_def)
  from findById_result [OF fb] pd(1) have "folders s p = Some pd" "folders s0 = folders s"
    "nextId s0 = nextId s"
    by simp_all
  with pd(2,3) Some show ?thesis by simp
qed

lemma renameFolder_success:
  assumes "renameFolder E i (Some nm) s = (Reply 200 body, s')"
  shows "\<exists>f np s2 u.
           folders s i = Some f \<and>
           (case parent f of
              None \<Rightarrow> np = nm
            | Some p \<Rightarrow> (\<exists>pd. folders s p = Some pd \<and> np = path pd @ ''/'' @ nm)) \<and>
           folders s2 = (folders s)(i \<mapsto> f\<lparr>name := trim nm, path := np\<rparr>) \<and>
           nextId s2 = nextId s \<and>
           updateSubfolderPaths E (path f) np s2 = (Inr u, s') \<and>
           body = FolderRenamed i (f\<lparr>name := trim nm, path := np\<rparr>)"
proof -
  from assms have nm: "\<not> falsy (Some nm)"
    by (auto simp: renameFolder_def split: if_splits)
  with assms obtain found s0 where fb: "findById E i s = (Inr found, s0)"
    and rest: "(case found of
               None \<Rightarrow> return (Reply 404 (Message ''Folder not found''))
             | Some fdoc \<Rightarrow>
                 andThen
                   (case parent fdoc of
                      None \<Rightarrow> return nm
                    | Some p \<Rightarrow>
                        andThen (findById E p) (\<lambda>parentFolder.
                          case parentFolder of
                            None \<Rightarrow> throw TypeError
                          | Some pf \<Rightarrow> return (path pf @ ''/'' @ nm)))
                   (\<lambda>newPath.
                      andThen (saveFolder E i (fdoc\<lparr>name := trim nm, path := newPath\<rparr>)) (\<lambda>_.
                      andThen (updateSubfolderPaths E (path fdoc) newPath) (\<lambda>_.
                      return (Reply 200 (FolderRenamed i (fdoc\<lparr>name := trim nm, path := newPath\<rparr>)))))))
             s0 = (Inr (Reply 200 body), s')"
    by (auto simp: renameFolder_def Let_def respond_200 andThen_Inr)
  from findById_result [OF fb] have f0: "found = folders s i" "folders s0 = folders s"
    "nextId s0 = nextId s" by simp_all
  from rest obtain f where f: "found = Some f"
    by (cases found) (auto simp: return_def)
  with rest obtain np s1 s2 u where
      p: "(case parent f of
              None \<Rightarrow> return nm
            | Some p \<Rightarrow>
                andThen (findById E p) (\<lambda>parentFolder.
                  case parentFolder of
                    None \<Rightarrow> throw TypeError
                  | Some pf \<Rightarrow> return (path pf @ ''/'' @ nm))) s0 = (Inr np, s1)"
      and sv: "saveFolder E i (f\<lparr>name := trim nm, path := np\<rparr>) s1 = (Inr (), s2)"
      and up: "updateSubfolderPaths E (path f) np s2 = (Inr u, s')"
      and b: "body = FolderRenamed i (f\<lparr>name := trim nm, path := np\<rparr>)"
    by (auto simp: andThen_Inr return_def)
  from newPath_result [OF p] f0 have
      np: "case parent f of
              None \<Rightarrow> np = nm
            | Some p \<Rightarrow> (\<exists>pd. folders s p = Some pd \<and> np = path pd @ ''/'' @ nm)"
      and s1: "folders s1 = folders s" "nextId s1 = nextId s"
    by (simp_all split: option.splits)
  from saveFolder_success [OF sv] s1 have
      "folders s2 = (folders s)(i \<mapsto> f\<lparr>name := trim nm, path := np\<rparr>)" "nextId s2 = nextId s"
    by simp_all
  moreover from f f0 have "folders s i = Some f" by simp
  ultimately have "folders s i = Some f \<and>
           (case parent f of
              None \<Rightarrow> np = nm
            | Some p \<Rightarrow> (\<exists>pd. folders s p = Some pd \<and> np = path pd @ ''/'' @ nm)) \<and>
           folders s2 = (folders s)(i \<mapsto> f\<lparr>name := trim nm, path := np\<rparr>) \<and>
           nextId s2 = nextId s \<and>
           updateSubfolderPaths E (path f) np s2 = (Inr u, s') \<and>
           body = FolderRenamed i (f\<lparr>name := trim nm, path := np\<rparr>)"
    using np up b by (intro conjI)
  then show ?thesis by blast
qed

lemma rename_keeps_invariant:
  assumes run: "renameFolder E i (Some nm) s = (Reply 200 body, s')"
    and inv: "pathInvariant (folders s)"
    and alloc: "allocated s"
    and plain: "plainNames (folders s)"
    and nm: "trim nm = nm" "CHR ''/'' \<notin> set nm" "CHR ''$'' \<notin> set nm"
    and only: "\<forall>f. folders s i = Some f \<longrightarrow> onlyAt (folders s) i (path f) \<and> literalPrefix E (path f)"
  shows "pathInvariant (folders s') \<and> allocated s'"
proof -
  from renameFolder_success [OF run] nm(1) obtain f np s2 u where
      f: "folders s i = Some f"
      and np: "case parent f of
              None \<Rightarrow> np = nm
            | Some p \<Rightarrow> (\<exists>pd. folders s p = Some pd \<and> np = path pd @ ''/'' @ nm)"
      and s2: "folders s2 = (folders s)(i \<mapsto> f\<lparr>name := nm, path := np\<rparr>)" "nextId s2 = nextId s"
      and up: "updateSubfolderPaths E (path f) np s2 = (Inr u, s')"
    by auto
  from only f have o: "onlyAt (folders s) i (path f)" and lit: "literalPrefix E (path f)"
    by simp_all
  have dollar: "CHR ''$'' \<notin> set np"
  proof (cases "parent f")
    case None
    with np nm(3) show ?thesis by simp
  next
    case (Some p)
    with np obtain pd where "folders s p = Some pd" "np = path pd @ ''/'' @ nm" by auto
    with plainNamesD [OF plain, of p pd] nm(3) show ?thesis by simp
  qed
  from alloc f s2 have a2: "allocated s2"
    by (auto simp: allocated_def)
  from updateSubfolderPaths_success [OF up a2 lit dollar] s2 have
      fin: "folders s' =
        (\<lambda>j. map_option (moved (path f) np) (((folders s)(i \<mapsto> f\<lparr>name := nm, path := np\<rparr>)) j))"
      and n: "nextId s' = nextId s"
    by simp_all
  from rename_pure [OF inv plain f o nm(2) np] fin have "pathInvariant (folders s')"
    by simp
  moreover from fin n alloc f have "allocated s'"
    by (auto simp: allocated_def split: if_splits)
  ultimately show ?thesis by simp
qed

lemma createFolder_success:
  assumes "createFolder E (Some nm) parentField accountField s = (Reply 201 body, s')"
  shows "\<exists>doc. folders s' = (folders s)(nextId s \<mapsto> doc) \<and> nextId s' = Suc (nextId s) \<and>
           body = FolderCreated (nextId s) doc \<and> name doc = trim nm \<and> parent doc = parentField \<and>
           (case parentField of
              None \<Rightarrow> path doc = nm
            | Some p \<Rightarrow> (\<exists>pf. folders s p = Some pf \<and> path doc = path pf @ ''/'' @ nm))"
proof -
  let ?acct = "if falsy accountField then ''account1'' else the accountField"
  from assms have nm: "\<not> falsy (Some nm)"
    by (auto simp: createFolder_def split: if_splits)
  have respond_201: "\<And>r b z. respond r = (Reply 201 b, z) \<longleftrightarrow> r = (Inr (Reply 201 b), z)"
    by (auto simp: respond_def split: prod.splits sum.splits)
  from assms nm obtain decided s0 where
      dec: "(case parentField of
                None \<Rightarrow> return (Some nm)
              | Some p \<Rightarrow>
                  andThen (findById E p) (\<lambda>parentFolder.
                    return (case parentFolder of
                              None \<Rightarrow> None
                            | Some pf \<Rightarrow> Some (path pf @ ''/'' @ nm)))) s = (Inr decided, s0)"
      and rest: "(case decided of
                  None \<Rightarrow> return (Reply 404 (Message ''Parent folder not found''))
                | Some pth \<Rightarrow>
                    andThen newId (\<lambda>i.
                      andThen (saveFolder E i \<lparr> name = trim nm, parent = parentField, path = pth,
                                  folderAccount = ?acct \<rparr>) (\<lambda>_.
                           return (Reply 201 (FolderCreated i \<lparr> name = trim nm, parent = parentField,
                                  path = pth, folderAccount = ?acct \<rparr>))))) s0
                 = (Inr (Reply 201 body), s')"
    by (auto simp: createFolder_def Let_def respond_201 andThen_Inr)
  from rest obtain pth where d: "decided = Some pth"
    by (cases decided) (auto simp: return_def)
  let ?doc = "\<lparr> name = trim nm, parent = parentField, path = pth, folderAccount = ?acct \<rparr>"
  from rest d obtain s1 where
      sv: "saveFolder E (nextId s0) ?doc (s0\<lparr>nextId := Suc (nextId s0)\<rparr>) = (Inr (), s1)"
      and fin: "s' = s1" and b: "body = FolderCreated (nextId s0) ?doc"
    by (auto simp: andThen_Inr newId_def return_def)
  have s0: "folders s0 = folders s \<and> nextId s0 = nextId s \<and>
      (case parentField of
         None \<Rightarrow> pth = nm
       | Some p \<Rightarrow> (\<exists>pf. folders s p = Some pf \<and> pth = path pf @ ''/'' @ nm))"
  proof (cases parentField)
    case None
    with dec d show ?thesis by (simp add: return_def)
  next
    case (Some p)
    with dec d obtain found sa where fb: "findById E p s = (Inr found, sa)"
      and r: "(case found of None \<Rightarrow> None | Some pf \<Rightarrow> Some (path pf @ ''/'' @ nm)) = Some pth"
        "s0 = sa"
      by (auto simp: andThen_Inr return_def)
    from r obtain pf where pf: "found = Some pf" "pth = path pf @ ''/'' @ nm"
      by (cases found) auto
    from findById_result [OF fb] pf(1) have "folders s p = Some pf" "folders sa = folders s"
      "nextId sa = nextId s"
      by simp_all
    with pf(2) r(2) Some show ?thesis by simp
  qed
  from saveFolder_success [OF sv] s0 fin b show ?thesis
    by (intro exI [of _ ?doc]) (auto split: option.splits)
qed

lemma create_keeps_invariant:
  assumes run: "createFolder E (Some nm) parentField accountField s = (Reply 201 body, s')"
    and inv: "pathInvariant (folders s)"
    and alloc: "allocated s"
    and nm: "trim nm = nm"
  shows "pathInvariant (folders s') \<and> allocated s'"
proof -
  from createFolder_success [OF run] nm obtain doc where
      fin: "folders s' = (folders s)(nextId s \<mapsto> doc)" and n: "nextId s' = Suc (nextId s)"
      and doc: "name doc = nm" "parent doc = parentField"
      and pth: "case parentField of
              None \<Rightarrow> path doc = nm
            | Some p \<Rightarrow> (\<exists>pf. folders s p = Some pf \<and> path doc = path pf @ ''/'' @ nm)"
    by auto
  from alloc have fresh: "folders s (nextId s) = None"
    by (auto simp: allocated_def dom_def)
  have keep: "\<And>p pd. folders s p = Some pd \<Longrightarrow> folders s' p = Some pd"
    using fresh fin by auto
  have "pathOk (folders s') d" if "d \<in> ran (folders s')" for d
  proof -
    from that fin consider "d = doc" | j where "folders s j = Some d"
      by (auto simp: ran_def split: if_splits)
    then show ?thesis
    proof cases
      case 1
      show ?thesis
      proof (cases parentField)
        case None
        with 1 doc pth show ?thesis by (simp add: pathOk_def)
      next
        case (Some p)
        with pth obtain pf where "folders s p = Some pf" "path doc = path pf @ ''/'' @ nm"
          by auto
        with keep [of p pf] 1 doc Some show ?thesis by (simp add: pathOk_def)
      qed
    next
      case 2
      from pathInvariantD [OF inv 2] have ok: "pathOk (folders s) d" .
      show ?thesis
      proof (cases "parent d")
        case None
        with ok show ?thesis by (simp add: pathOk_def)
      next
        case (Some p)
        with ok obtain pd where "folders s p = Some pd" "path d = path pd @ ''/'' @ name d"
          by (auto simp: pathOk_def split: option.splits)
        with keep [of p pd] Some show ?thesis by (simp add: pathOk_def)
      qed
    qed
  qed
  then have "pathInvariant (folders s')" by (simp add: pathInvariant_def)
  moreover from alloc fin n have "allocated s'"
    by (auto simp: allocated_def less_Suc_eq split: if_splits)
  ultimately show ?thesis by simp
qed

section \<open>The folder path invariant (C5)\<close>

lemma rename_cascade:
  assumes run: "renameFolder E i (Some nm) s = (Reply 200 body, s')"
    and alloc: "allocated s"
    and plain: "plainNames (folders s)"
    and nm: "trim nm = nm" "CHR ''$'' \<notin> set nm"
    and f: "folders s i = Some f"
    and lit: "literalPrefix E (path f)"
  shows "\<exists>np. (case parent f of
                 None \<Rightarrow> np = nm
               | Some p \<Rightarrow> (\<exists>pd. folders s p = Some pd \<and> np = path pd @ ''/'' @ nm)) \<and>
              folders s' =
                (\<lambda>j. map_option (moved (path f) np)
                       (((folders s)(i \<mapsto> f\<lparr>name := nm, path := np\<rparr>)) j)) \<and>
              body = FolderRenamed i (f\<lparr>name := nm, path := np\<rparr>)"
proof -
  from renameFolder_success [OF run] nm(1) f obtain np s2 u where
      np: "case parent f of
              None \<Rightarrow> np = nm
            | Some p \<Rightarrow> (\<exists>pd. folders s p = Some pd \<and> np = path pd @ ''/'' @ nm)"
      and s2: "folders s2 = (folders s)(i \<mapsto> f\<lparr>name := nm, path := np\<rparr>)" "nextId s2 = nextId s"
      and up: "updateSubfolderPaths E (path f) np s2 = (Inr u, s')"
      and b: "body = FolderRenamed i (f\<lparr>name := nm, path := np\<rparr>)"
    by auto
  have dollar: "CHR ''$'' \<notin> set np"
  proof (cases "parent f")
    case None
    with np nm(2) show ?thesis by simp
  next
    case (Some p)
    with np obtain pd where "folders s p = Some pd" "np = path pd @ ''/'' @ nm" by auto
    with plainNamesD [OF plain, of p pd] nm(2) show ?thesis by simp
  qed
  from alloc f s2 have a2: "allocated s2"
    by (auto simp: allocated_def)
  from updateSubfolderPaths_success [OF up a2 lit dollar] s2 have
      "folders s' =
        (\<lambda>j. map_option (moved (path f) np) (((folders s)(i \<mapsto> f\<lparr>name := nm, path := np\<rparr>)) j))"
    by simp
  with np b show ?thesis by blast
qed

lemma upt3: "[0..<3] = [0, Suc 0, 2]"
  by (simp add: upt_rec)

lemma demoFolders_invariant: "pathInvariant (folders demoFolders)"
  by (auto simp: pathInvariant_def pathOk_def ran_def demoFolders_def demoServer3_def
      split: if_splits)

lemma demoFolders_conditions:
  "allocated demoFolders" "plainNames (folders demoFolders)"
  "folders demoFolders 0 =
     Some \<lparr> name = ''A'', parent = None, path = ''A'', folderAccount = ''account1'' \<rparr>"
  "onlyAt (folders demoFolders) 0 ''A''" "literalPrefix demoStore ''A''"
  by (auto simp: allocated_def plainNames_def onlyAt_def literalPrefix_def ran_def
      demoFolders_def demoServer3_def demoStore_def demoEnv_def split: if_splits)

lemma demo_replace: "replace ''A/x'' ''A'' ''B'' = ''B/x''" "replace ''A/y'' ''A'' ''B'' = ''B/y''"
  by (simp_all add: replace_def)

lemma demo_trim: "trim ''B'' = ''B''" "trim ''z'' = ''z''"
  by (simp_all add: trim_def isSpace_def)

lemma demo_rename_fault:
  "renameFolder demoBreaking 0 (Some ''B'') demoFolders =
     (Reply 500 (Failure MongoError), demoHalfRenamed)"
  by (simp add: renameFolder_def falsy_def Let_def respond_def andThen_def findById_def dbCall_def
      saveFolder_def validateFolder_def updateSubfolderPaths_def findByPathRegex_def return_def
      throw_def demo_trim demo_replace matching_def upt3 List.map_filter_simps
      demoHalfRenamed_def demoFolders_def demoServer3_def demoBreaking_def demoStore_def
      demoEnv_def)

lemma demo_rename_done:
  "renameFolder demoStore 0 (Some ''B'') demoFolders =
     (Reply 200 (FolderRenamed 0
        \<lparr> name = ''B'', parent = None, path = ''B'', folderAccount = ''account1'' \<rparr>),
      demoRenamed)"
  by (simp add: renameFolder_def falsy_def Let_def respond_def andThen_def findById_def dbCall_def
      saveFolder_def validateFolder_def updateSubfolderPaths_def findByPathRegex_def return_def
      throw_def demo_trim demo_replace matching_def upt3 List.map_filter_simps
      demoRenamed_def demoFolders_def demoServer3_def demoStore_def demoEnv_def)

lemma demo_create_done:
  "createFolder demoStore (Some ''z'') (Some 0) None demoFolders =
     (Reply 201 (FolderCreated 3
        \<lparr> name = ''z'', parent = Some 0, path = ''A/z'', folderAccount = ''account1'' \<rparr>),
      demoCreated)"
  by (simp add: createFolder_def falsy_def Let_def respond_def andThen_def findById_def dbCall_def
      saveFolder_def validateFolder_def newId_def return_def throw_def demo_trim
      demoCreated_def demoFolders_def demoServer3_def demoStore_def demoEnv_def)

text \<open>
  C5, as stated, at the rename of the folder \<open>A\<close> to \<open>B\<close> when the metadata store fails at the
  save of the second subfolder. Before the rename the invariant holds. The rename answers
  500; the folder and its first subfolder have their new paths \<open>B\<close> and \<open>B/x\<close>, the second
  subfolder still has the path \<open>A/y\<close> under a parent whose path is \<open>B\<close>: some descendant
  paths are updated and some are not, and the invariant is broken.
\<close>

theorem rename_cascade_counterexample:
  "pathInvariant (folders demoFolders) \<and>
   renameFolder demoBreaking 0 (Some ''B'') demoFolders =
     (Reply 500 (Failure MongoError), demoHalfRenamed) \<and>
   map_option path (folders demoFolders 1) = Some ''A/x'' \<and>
   map_option path (folders demoHalfRenamed 1) = Some ''B/x'' \<and>
   map_option path (folders demoFolders 2) = Some ''A/y'' \<and>
   map_option path (folders demoHalfRenamed 2) = Some ''A/y'' \<and>
   map_option path (folders demoHalfRenamed 0) = Some ''B'' \<and>
   map_option parent (folders demoHalfRenamed 2) = Some (Some 0) \<and>
   \<not> pathInvariant (folders demoHalfRenamed)"
proof -
  let ?y = "\<lparr> name = ''y'', parent = Some 0, path = ''A/y'', folderAccount = ''account1'' \<rparr>"
  have p: "map_option path (folders demoFolders 1) = Some ''A/x''"
    "map_option path (folders demoHalfRenamed 1) = Some ''B/x''"
    "map_option path (folders demoFolders 2) = Some ''A/y''"
    "map_option path (folders demoHalfRenamed 2) = Some ''A/y''"
    "map_option path (folders demoHalfRenamed 0) = Some ''B''"
    "map_option parent (folders demoHalfRenamed 2) = Some (Some 0)"
    by (simp_all add: demoHalfRenamed_def demoFolders_def demoServer3_def)
  have "folders demoHalfRenamed 2 = Some ?y"
    by (simp add: demoHalfRenamed_def demoFolders_def demoServer3_def)
  then have "?y \<in> ran (folders demoHalfRenamed)"
    by (rule ranI)
  moreover have "\<not> pathOk (folders demoHalfRenamed) ?y"
    by (simp add: pathOk_def demoHalfRenamed_def demoFolders_def demoServer3_def)
  ultimately have n: "\<not> pathInvariant (folders demoHalfRenamed)"
    by (auto simp: pathInvariant_def)
  from demoFolders_invariant demo_rename_fault p n show ?thesis
    by (intro conjI)
qed

text \<open>
  C5, amended. The path of every folder is the path of its parent, a slash and its name
  when it has a parent, and its name otherwise. Folder creation keeps this invariant, the
  new folder included, when the given name has no white space at its ends (the name is
  stored trimmed, the path is built from the name as given). A rename that answers 200
  keeps it too, and has replaced the old path by the new one at the head of the stored path
  of every folder whose path starts with the old path and a slash, when the new name has no
  white space at its ends and holds no slash and no dollar sign, no name of the collection
  holds a slash and no path a dollar sign, no other folder has the old path, and the store
  reads the pattern made of the old path as a plain prefix. The cascade is one save after
  the other, with no transaction: nothing is said of a rename that fails on the way.
\<close>

theorem folder_paths_follow_names:
  "(createFolder E (Some nm) parentField accountField s = (Reply 201 body, s') \<and>
    pathInvariant (folders s) \<and> allocated s \<and> trim nm = nm \<longrightarrow>
      pathInvariant (folders s') \<and> allocated s') \<and>
   (renameFolder E i (Some nm) s = (Reply 200 body, s') \<and>
    pathInvariant (folders s) \<and> allocated s \<and> plainNames (folders s) \<and>
    trim nm = nm \<and> CHR ''/'' \<notin> set nm \<and> CHR ''$'' \<notin> set nm \<and>
    folders s i = Some f \<and> onlyAt (folders s) i (path f) \<and> literalPrefix E (path f) \<longrightarrow>
      pathInvariant (folders s') \<and> allocated s' \<and>
      (\<exists>np. (case parent f of
                None \<Rightarrow> np = nm
              | Some p \<Rightarrow> (\<exists>pd. folders s p = Some pd \<and> np = path pd @ ''/'' @ nm)) \<and>
             folders s' =
               (\<lambda>j. map_option (moved (path f) np)
                      (((folders s)(i \<mapsto> f\<lparr>name := nm, path := np\<rparr>)) j)) \<and>
             body = FolderRenamed i (f\<lparr>name := nm, path := np\<rparr>)))"
proof (intro conjI impI)
  assume "createFolder E (Some nm) parentField accountField s = (Reply 201 body, s') \<and>
    pathInvariant (folders s) \<and> allocated s \<and> trim nm = nm"
  then have "pathInvariant (folders s') \<and> allocated s'"
    using create_keeps_invariant [of E nm parentField accountField s body s'] by blast
  then show "pathInvariant (folders s')" "allocated s'" by simp_all
next
  assume h: "renameFolder E i (Some nm) s = (Reply 200 body, s') \<and>
    pathInvariant (folders s) \<and> allocated s \<and> plainNames (folders s) \<and>
    trim nm = nm \<and> CHR ''/'' \<notin> set nm \<and> CHR ''$'' \<notin> set nm \<and>
    folders s i = Some f \<and> onlyAt (folders s) i (path f) \<and> literalPrefix E (path f)"
  then have o: "\<forall>g. folders s i = Some g \<longrightarrow> onlyAt (folders s) i (path g) \<and> literalPrefix E (path g)"
    by simp
  from h o have "pathInvariant (folders s') \<and> allocated s'"
    by (intro rename_keeps_invariant [of E i nm s body s']) simp_all
  then show "pathInvariant (folders s')" "allocated s'" by simp_all
  from h show "\<exists>np. (case parent f of
                None \<Rightarrow> np = nm
              | Some p \<Rightarrow> (\<exists>pd. folders s p = Some pd \<and> np = path pd @ ''/'' @ nm)) \<and>
             folders s' =
               (\<lambda>j. map_option (moved (path f) np)
                      (((folders s)(i \<mapsto> f\<lparr>name := nm, path := np\<rparr>)) j)) \<and>
             body = FolderRenamed i (f\<lparr>name := nm, path := np\<rparr>)"
    by (intro rename_cascade [of E i nm s body s' f]) simp_all
qed

theorem folder_paths_follow_names_witness:
  "createFolder demoStore (Some ''z'') (Some 0) None demoFolders =
     (Reply 201 (FolderCreated 3
        \<lparr> name = ''z'', parent = Some 0, path = ''A/z'', folderAccount = ''account1'' \<rparr>),
      demoCreated) \<and>
   pathInvariant (folders demoCreated) \<and> allocated demoCreated \<and>
   renameFolder demoStore 0 (Some ''B'') demoFolders =
     (Reply 200 (FolderRenamed 0
        \<lparr> name = ''B'', parent = None, path = ''B'', folderAccount = ''account1'' \<rparr>),
      demoRenamed) \<and>
   pathInvariant (folders demoRenamed) \<and> allocated demoRenamed \<and>
   map_option path (folders demoRenamed 1) = Some ''B/x'' \<and>
   map_option path (folders demoRenamed 2) = Some ''B/y''"
proof -
  have t: "trim ''z'' = ''z''" "trim ''B'' = ''B''"
    "CHR ''/'' \<notin> set ''B''" "CHR ''$'' \<notin> set ''B''"
    by (simp_all add: demo_trim)
  from folder_paths_follow_names [where E = demoStore and nm = "''z''" and parentField = "Some 0"
      and accountField = None and s = demoFolders and s' = demoCreated
      and body = "FolderCreated 3
        \<lparr> name = ''z'', parent = Some 0, path = ''A/z'', folderAccount = ''account1'' \<rparr>",
      THEN conjunct1, THEN mp]
    demo_create_done demoFolders_invariant demoFolders_conditions(1) t(1)
  have 1: "pathInvariant (folders demoCreated) \<and> allocated demoCreated"
    by blast
  let ?A = "\<lparr> name = ''A'', parent = None, path = ''A'', folderAccount = ''account1'' \<rparr>"
  have pre: "renameFolder demoStore 0 (Some ''B'') demoFolders =
      (Reply 200 (FolderRenamed 0
        \<lparr> name = ''B'', parent = None, path = ''B'', folderAccount = ''account1'' \<rparr>),
       demoRenamed) \<and>
    pathInvariant (folders demoFolders) \<and> allocated demoFolders \<and>
    plainNames (folders demoFolders) \<and>
    trim ''B'' = ''B'' \<and> CHR ''/'' \<notin> set ''B'' \<and> CHR ''$'' \<notin> set ''B'' \<and>
    folders demoFolders 0 = Some ?A \<and> onlyAt (folders demoFolders) 0 (path ?A) \<and>
    literalPrefix demoStore (path ?A)"
    using demo_rename_done demoFolders_invariant demoFolders_conditions t(2)
    by simp
  from folder_paths_follow_names [where E = demoStore and nm = "''B''" and i = 0
      and s = demoFolders and s' = demoRenamed and f = ?A
      and body = "FolderRenamed 0
        \<lparr> name = ''B'', parent = None, path = ''B'', folderAccount = ''account1'' \<rparr>",
      THEN conjunct2, THEN mp, OF pre]
  have 2: "pathInvariant (folders demoRenamed) \<and> allocated demoRenamed"
    by blast
  have 3: "map_option path (folders demoRenamed 1) = Some ''B/x''"
    "map_option path (folders demoRenamed 2) = Some ''B/y''"
    by (simp_all add: demoRenamed_def demoFolders_def demoServer3_def)
  from demo_create_done 1 demo_rename_done 2 3 show ?thesis
    by (intro conjI) simp_all
qed

end
